theory Spec2Isabelle
  imports Complex_Main "HOL-Library.Word"
begin

section \<open>JavaScript numbers\<close>

text \<open>
  A JavaScript number is an IEEE double.  The model keeps what the program's control flow
  and its failure modes depend on: a number is finite, one of the two infinities, or NaN.
  Finite values are real numbers, so rounding and overflow are not part of the model, and
  the sign of a zero is not tracked (a nonzero number divided by zero takes the sign of
  the numerator).  What is kept exactly is where NaN and the infinities come from: zero
  divided by zero, infinity minus infinity, zero times infinity, the square root of a
  negative number, and arithmetic on \<open>undefined\<close> (an array read out of range).
\<close>

datatype jsnum = Fin real | PInf | NInf | NaN

fun js_neg :: "jsnum \<Rightarrow> jsnum" where
  "js_neg (Fin a) = Fin (- a)"
| "js_neg PInf = NInf"
| "js_neg NInf = PInf"
| "js_neg NaN = NaN"

fun js_add :: "jsnum \<Rightarrow> jsnum \<Rightarrow> jsnum" where
  "js_add (Fin a) (Fin b) = Fin (a + b)"
| "js_add NaN _ = NaN"
| "js_add _ NaN = NaN"
| "js_add PInf NInf = NaN"
| "js_add NInf PInf = NaN"
| "js_add PInf _ = PInf"
| "js_add _ PInf = PInf"
| "js_add NInf _ = NInf"
| "js_add _ NInf = NInf"

fun js_mul :: "jsnum \<Rightarrow> jsnum \<Rightarrow> jsnum" where
  "js_mul (Fin a) (Fin b) = Fin (a * b)"
| "js_mul NaN _ = NaN"
| "js_mul _ NaN = NaN"
| "js_mul (Fin a) i = (if a = 0 then NaN else if 0 < a then i else js_neg i)"
| "js_mul i (Fin b) = (if b = 0 then NaN else if 0 < b then i else js_neg i)"
| "js_mul PInf i = i"
| "js_mul NInf i = js_neg i"

fun js_div :: "jsnum \<Rightarrow> jsnum \<Rightarrow> jsnum" where
  "js_div (Fin a) (Fin b) =
     (if b = 0 then (if a = 0 then NaN else if 0 < a then PInf else NInf) else Fin (a / b))"
| "js_div NaN _ = NaN"
| "js_div _ NaN = NaN"
| "js_div (Fin a) _ = Fin 0"
| "js_div PInf (Fin b) = (if b < 0 then NInf else PInf)"
| "js_div NInf (Fin b) = (if b < 0 then PInf else NInf)"
| "js_div _ _ = NaN"

fun js_less :: "jsnum \<Rightarrow> jsnum \<Rightarrow> bool" where
  "js_less (Fin a) (Fin b) = (a < b)"
| "js_less NaN _ = False"
| "js_less _ NaN = False"
| "js_less PInf _ = False"
| "js_less _ NInf = False"
| "js_less _ _ = True"

text \<open>
  The arithmetic operators and the comparisons of the source are written with the usual
  symbols.  A comparison with NaN is false, so \<open>a \<le> b\<close> is not the negation of
  \<open>b < a\<close>.
\<close>

instantiation jsnum :: "{plus, minus, uminus, times, inverse, ord}"
begin

definition plus_jsnum :: "jsnum \<Rightarrow> jsnum \<Rightarrow> jsnum" where
  "plus_jsnum a b = js_add a b"

definition uminus_jsnum :: "jsnum \<Rightarrow> jsnum" where
  "uminus_jsnum a = js_neg a"

definition minus_jsnum :: "jsnum \<Rightarrow> jsnum \<Rightarrow> jsnum" where
  "minus_jsnum a b = js_add a (js_neg b)"

definition times_jsnum :: "jsnum \<Rightarrow> jsnum \<Rightarrow> jsnum" where
  "times_jsnum a b = js_mul a b"

definition divide_jsnum :: "jsnum \<Rightarrow> jsnum \<Rightarrow> jsnum" where
  "divide_jsnum a b = js_div a b"

definition inverse_jsnum :: "jsnum \<Rightarrow> jsnum" where
  "inverse_jsnum a = js_div (Fin 1) a"

definition less_jsnum :: "jsnum \<Rightarrow> jsnum \<Rightarrow> bool" where
  "less_jsnum a b = js_less a b"

definition less_eq_jsnum :: "jsnum \<Rightarrow> jsnum \<Rightarrow> bool" where
  "less_eq_jsnum a b = (js_less a b \<or> (a = b \<and> a \<noteq> NaN))"

instance ..

end

fun Math_max :: "jsnum \<Rightarrow> jsnum \<Rightarrow> jsnum" where
  "Math_max NaN _ = NaN"
| "Math_max _ NaN = NaN"
| "Math_max a b = (if js_less a b then b else a)"

fun Math_min :: "jsnum \<Rightarrow> jsnum \<Rightarrow> jsnum" where
  "Math_min NaN _ = NaN"
| "Math_min _ NaN = NaN"
| "Math_min a b = (if js_less b a then b else a)"

fun Math_sqrt :: "jsnum \<Rightarrow> jsnum" where
  "Math_sqrt (Fin a) = (if a < 0 then NaN else Fin (sqrt a))"
| "Math_sqrt PInf = PInf"
| "Math_sqrt _ = NaN"

fun Math_floor :: "jsnum \<Rightarrow> jsnum" where
  "Math_floor (Fin a) = Fin (of_int \<lfloor>a\<rfloor>)"
| "Math_floor a = a"

fun Math_abs :: "jsnum \<Rightarrow> jsnum" where
  "Math_abs (Fin a) = Fin \<bar>a\<bar>"
| "Math_abs NaN = NaN"
| "Math_abs _ = PInf"

fun Math_sin :: "jsnum \<Rightarrow> jsnum" where
  "Math_sin (Fin a) = Fin (sin a)"
| "Math_sin _ = NaN"

fun Math_cos :: "jsnum \<Rightarrow> jsnum" where
  "Math_cos (Fin a) = Fin (cos a)"
| "Math_cos _ = NaN"

fun Math_acos :: "jsnum \<Rightarrow> jsnum" where
  "Math_acos (Fin a) = (if -1 \<le> a \<and> a \<le> 1 then Fin (arccos a) else NaN)"
| "Math_acos _ = NaN"

definition Math_PI :: jsnum where
  "Math_PI = Fin pi"

text \<open>The angle of the point \<open>(x, y)\<close>, in \<open>(-\<pi>, \<pi>]\<close>; \<open>atan2(0, 0)\<close> is 0.\<close>

definition atan2_real :: "real \<Rightarrow> real \<Rightarrow> real" where
  "atan2_real y x =
     (if 0 < x then arctan (y / x)
      else if x < 0 then (if 0 \<le> y then arctan (y / x) + pi else arctan (y / x) - pi)
      else if 0 < y then pi / 2
      else if y < 0 then - (pi / 2)
      else 0)"

fun Math_atan2 :: "jsnum \<Rightarrow> jsnum \<Rightarrow> jsnum" where
  "Math_atan2 (Fin y) (Fin x) = Fin (atan2_real y x)"
| "Math_atan2 NaN _ = NaN"
| "Math_atan2 _ NaN = NaN"
| "Math_atan2 (Fin y) PInf = Fin 0"
| "Math_atan2 (Fin y) NInf = (if y < 0 then Fin (- pi) else Fin pi)"
| "Math_atan2 PInf (Fin x) = Fin (pi / 2)"
| "Math_atan2 NInf (Fin x) = Fin (- (pi / 2))"
| "Math_atan2 PInf PInf = Fin (pi / 4)"
| "Math_atan2 PInf NInf = Fin (3 * pi / 4)"
| "Math_atan2 NInf PInf = Fin (- (pi / 4))"
| "Math_atan2 NInf NInf = Fin (- (3 * pi / 4))"

definition isFinite :: "jsnum \<Rightarrow> bool" where
  "isFinite a = (case a of Fin _ \<Rightarrow> True | _ \<Rightarrow> False)"

text \<open>
  A call returns a value, throws, or does not return (a loop whose bound is
  \<open>Infinity\<close>).
\<close>

datatype js_error = TypeError

datatype 'a outcome = Returns 'a | Throws js_error | Diverges

fun bind_outcome :: "'a outcome \<Rightarrow> ('a \<Rightarrow> 'b outcome) \<Rightarrow> 'b outcome" where
  "bind_outcome (Returns a) f = f a"
| "bind_outcome (Throws e) f = Throws e"
| "bind_outcome Diverges f = Diverges"

section \<open>The audio engine (audio-engine.js)\<close>

text \<open>
  The engine's fields, as the constructor declares them.  The audio context is
  represented by its sample rate and the analyser node by its \<open>frequencyBinCount\<close>;
  both are \<open>None\<close> while the field is \<open>null\<close>.  The DOM element, the source node
  and the microphone stream play no part in the analysis and are left out.
\<close>

record AudioEngine =
  audioContext :: "real option"
  analyser :: "nat option"
  dataArray :: "8 word list option"
  bufferLength :: "nat option"
  beatThreshold :: real
  beatDecayRate :: real
  beatMinInterval :: int
  lastBeatTime :: int
  currentBeat :: jsnum

record Bands =
  sub :: jsnum
  bass :: jsnum
  low :: jsnum
  mid :: jsnum
  high :: jsnum
  treble :: jsnum

record AudioData =
  frequencyData :: "8 word list"
  average :: jsnum
  beat :: bool
  beatIntensity :: jsnum
  bands :: Bands

text \<open>
  \<open>initAudioContext\<close> runs inside \<open>try\<close>/\<open>catch\<close>: \<open>ctx\<close> is the sample rate of
  the context the browser hands out (\<open>None\<close> when creating it throws) and
  \<open>analyserOk\<close> says whether \<open>createAnalyser\<close> succeeds.  With \<open>fftSize = 2048\<close>
  the analyser has 1024 bins.
\<close>

definition initAudioContext :: "real option \<Rightarrow> bool \<Rightarrow> AudioEngine \<Rightarrow> AudioEngine" where
  "initAudioContext ctx analyserOk e =
     (case ctx of
        None \<Rightarrow> e
      | Some sampleRate \<Rightarrow>
          if analyserOk
          then e\<lparr>audioContext := Some sampleRate, analyser := Some 1024,
                 bufferLength := Some 1024, dataArray := Some (replicate 1024 0)\<rparr>
          else e\<lparr>audioContext := Some sampleRate\<rparr>)"

definition AudioEngine_new :: "real option \<Rightarrow> bool \<Rightarrow> AudioEngine" where
  "AudioEngine_new ctx analyserOk =
     initAudioContext ctx analyserOk
       \<lparr>audioContext = None, analyser = None, dataArray = None, bufferLength = None,
        beatThreshold = 1.3, beatDecayRate = 0.98, beatMinInterval = 200,
        lastBeatTime = 0, currentBeat = Fin 0\<rparr>"

subsection \<open>Beat detection\<close>

text \<open>\<open>now\<close> is the value \<open>Date.now()\<close> returns in this call, in milliseconds.\<close>

definition detectBeat :: "jsnum \<Rightarrow> int \<Rightarrow> AudioEngine \<Rightarrow> bool \<times> AudioEngine" where
  "detectBeat currentAverage now e =
     (let beatDetected =
            (now - lastBeatTime e > beatMinInterval e \<and>
             currentAverage > currentBeat e * Fin (beatThreshold e));
          e1 = (if beatDetected
                then e\<lparr>lastBeatTime := now, currentBeat := currentAverage\<rparr>
                else e);
          e2 = e1\<lparr>currentBeat := currentBeat e1 * Fin (beatDecayRate e1)\<rparr>;
          e3 = e2\<lparr>currentBeat := Math_max (currentBeat e2) (currentAverage * Fin 0.5)\<rparr>
      in (beatDetected, e3))"

subsection \<open>Frequency bands\<close>

text \<open>
  Reading a typed array at an index that is not one of its elements gives
  \<open>undefined\<close>, which turns into NaN as soon as it is added to a number.
\<close>

definition byte_at :: "8 word list \<Rightarrow> real \<Rightarrow> jsnum" where
  "byte_at d r =
     (if 0 \<le> r \<and> r = of_int \<lfloor>r\<rfloor> \<and> nat \<lfloor>r\<rfloor> < length d
      then Fin (real (unat (d ! nat \<lfloor>r\<rfloor>))) else NaN)"

text \<open>
  \<open>for (let i = startBin; i < endBin; i++) sum += dataArray[i]\<close>.  The loop runs
  while the comparison holds; with a finite start and a finite bound it makes
  \<open>\<lceil>endBin - startBin\<rceil>\<close> steps, with an infinite bound (or start) it never ends.
\<close>

definition sum_bins :: "8 word list \<Rightarrow> jsnum \<Rightarrow> jsnum \<Rightarrow> jsnum outcome" where
  "sum_bins d startBin endBin =
     (if startBin < endBin
      then (case (startBin, endBin) of
              (Fin a, Fin b) \<Rightarrow>
                Returns (fold (\<lambda>k sum. sum + byte_at d (a + real k)) [0..<nat \<lceil>b - a\<rceil>] (Fin 0))
            | _ \<Rightarrow> Diverges)
      else Returns (Fin 0))"

definition js_length :: "nat option \<Rightarrow> jsnum" where
  "js_length n = (case n of None \<Rightarrow> Fin 0 | Some k \<Rightarrow> Fin (real k))"

definition band_energy :: "jsnum \<Rightarrow> jsnum \<Rightarrow> 8 word list \<Rightarrow> real \<times> real \<Rightarrow> jsnum outcome" where
  "band_energy nyquist len d hz =
     (let startBin = Math_floor ((Fin (fst hz) / nyquist) * len);
          endBin = Math_floor ((Fin (snd hz) / nyquist) * len)
      in bind_outcome (sum_bins d startBin endBin)
           (\<lambda>sum. Returns ((sum / (endBin - startBin)) / Fin 255)))"

text \<open>The six bands of the constructor, in Hz.\<close>

definition frequencyBands :: "(string \<times> real \<times> real) list" where
  "frequencyBands =
     [(''sub'', 0, 60), (''bass'', 60, 250), (''low'', 250, 500),
      (''mid'', 500, 2000), (''high'', 2000, 4000), (''treble'', 4000, 8000)]"

fun bands_loop ::
  "jsnum \<Rightarrow> jsnum \<Rightarrow> 8 word list \<Rightarrow> (string \<times> real \<times> real) list \<Rightarrow> (string \<times> jsnum) list outcome"
where
  "bands_loop nyquist len d [] = Returns []"
| "bands_loop nyquist len d ((name, hz) # rest) =
     bind_outcome (band_energy nyquist len d hz)
       (\<lambda>v. bind_outcome (bands_loop nyquist len d rest) (\<lambda>vs. Returns ((name, v) # vs)))"

definition band_of :: "(string \<times> jsnum) list \<Rightarrow> string \<Rightarrow> jsnum" where
  "band_of vs name = (case map_of vs name of Some v \<Rightarrow> v | None \<Rightarrow> NaN)"

definition extractFrequencyBands :: "AudioEngine \<Rightarrow> 8 word list \<Rightarrow> Bands outcome" where
  "extractFrequencyBands e d =
     (case audioContext e of
        None \<Rightarrow> Throws TypeError
      | Some sampleRate \<Rightarrow>
          bind_outcome
            (bands_loop (Fin sampleRate / Fin 2) (js_length (bufferLength e)) d frequencyBands)
            (\<lambda>vs. Returns \<lparr>sub = band_of vs ''sub'', bass = band_of vs ''bass'',
                           low = band_of vs ''low'', mid = band_of vs ''mid'',
                           high = band_of vs ''high'', treble = band_of vs ''treble''\<rparr>))"

subsection \<open>One analysis frame\<close>

text \<open>
  \<open>spectrum\<close> is what the analyser node holds in this frame;
  \<open>getByteFrequencyData\<close> copies it into the engine's array (as many bytes as fit).
\<close>

definition getByteFrequencyData :: "8 word list \<Rightarrow> 8 word list \<Rightarrow> 8 word list" where
  "getByteFrequencyData spectrum d = take (length d) spectrum @ drop (length spectrum) d"

definition silence :: AudioData where
  "silence =
     \<lparr>frequencyData = replicate 1024 0, average = Fin 0, beat = False, beatIntensity = Fin 0,
      bands = \<lparr>sub = Fin 0, bass = Fin 0, low = Fin 0, mid = Fin 0, high = Fin 0,
               treble = Fin 0\<rparr>\<rparr>"

definition getFrequencyData ::
  "8 word list \<Rightarrow> int \<Rightarrow> AudioEngine \<Rightarrow> (AudioData \<times> AudioEngine) outcome"
where
  "getFrequencyData spectrum now e =
     (case (analyser e, dataArray e) of
        (Some _, Some d0) \<Rightarrow>
          (let d = getByteFrequencyData spectrum d0;
               e0 = e\<lparr>dataArray := Some d\<rparr>;
               average = fold (\<lambda>v sum. sum + Fin (real (unat v))) d (Fin 0)
                           / js_length (bufferLength e0);
               (beatDetected, e1) = detectBeat average now e0
           in bind_outcome (extractFrequencyBands e1 d)
                (\<lambda>bs. Returns
                   (\<lparr>frequencyData = d, average = average / Fin 255, beat = beatDetected,
                     beatIntensity = currentBeat e1 / Fin 255, bands = bs\<rparr>, e1)))
      | _ \<Rightarrow> Returns (silence, e))"

section \<open>The visualizer (class Visualizer)\<close>

text \<open>
  The particle field and the scalars the update rules read.  \<open>particlePositions\<close>,
  \<open>particleVelocities\<close> and \<open>particleColors\<close> are the arrays of \<open>Vector3\<close> and
  \<open>Color\<close> objects; \<open>positions\<close>, \<open>colors\<close> and \<open>sizes\<close> are the typed arrays of
  the geometry's attributes (three numbers per particle, one for the size).  The scene,
  the renderer and the camera (with the camera shake) only consume this state and are
  left out; \<open>decayQueued\<close> counts the \<open>decayPulse\<close> callbacks waiting in the
  browser's \<open>requestAnimationFrame\<close> queue.
\<close>

datatype vec3 = Vector3 (vx: jsnum) (vy: jsnum) (vz: jsnum)

datatype color = Color (cr: jsnum) (cg: jsnum) (cb: jsnum)

record Palette =
  hueBase :: jsnum
  hueRange :: jsnum
  saturation :: jsnum

record GestureCommands =
  freeze :: bool
  pulse :: bool
  colorPalette :: nat

record Visualizer =
  isRunning :: bool
  particleCount :: nat
  particlePositions :: "vec3 list"
  particleVelocities :: "vec3 list"
  particleColors :: "color list"
  positions :: "jsnum list"
  colors :: "jsnum list"
  sizes :: "jsnum list"
  time :: jsnum
  bassIntensity :: jsnum
  midIntensity :: jsnum
  trebleIntensity :: jsnum
  isFrozen :: bool
  pulseEffect :: bool
  pulseIntensity :: jsnum
  decayQueued :: nat
  currentPalette :: nat
  radialSymmetry :: bool
  symmetrySegments :: nat
  visualMode :: string
  particleConnections :: "(nat \<times> nat \<times> jsnum) list"
  spiralAngle :: jsnum
  spiralTightness :: jsnum
  spikeIntensity :: jsnum

text \<open>
  What the class takes from outside the repository: \<open>THREE.Color.setHSL\<close> (the colour
  for a hue, a saturation and a lightness) and \<open>Math.random\<close> (\<open>Math_random k\<close> is the
  value of the \<open>k\<close>-th draw of the loop that is running).

  \<open>kaleidoscope\<close> stands for the loops of \<open>applyRadialSymmetry\<close>.  They only assign
  elements of the \<open>positions\<close> attribute, at the indices
  \<open>(i + (particleCount / symmetrySegments) * segment) * 3\<close>; an assignment at an index
  that is not an integer does nothing, and with the constructor's values
  (\<open>2000 / 6\<close>) whether the index is an integer depends on the rounding of each
  product.  The model therefore takes the sequence of assignments that take effect
  (index and value, in order) as given, for the particle count, the segment count and
  the attribute's contents.
\<close>

record Runtime =
  setHSL :: "jsnum \<Rightarrow> jsnum \<Rightarrow> jsnum \<Rightarrow> color"
  Math_random :: "nat \<Rightarrow> jsnum"
  kaleidoscope :: "nat \<Rightarrow> nat \<Rightarrow> jsnum list \<Rightarrow> (nat \<times> jsnum) list"

definition colorPalettes :: "string \<Rightarrow> Palette option" where
  "colorPalettes name =
     (if name = ''cyberpunk''
      then Some \<lparr>hueBase = Fin 0.5, hueRange = Fin 0.3, saturation = Fin 1.0\<rparr>
      else if name = ''sunset''
      then Some \<lparr>hueBase = Fin 0.05, hueRange = Fin 0.15, saturation = Fin 0.9\<rparr>
      else if name = ''ocean''
      then Some \<lparr>hueBase = Fin 0.55, hueRange = Fin 0.15, saturation = Fin 0.8\<rparr>
      else None)"

text \<open>
  \<open>this.colorPalettes[paletteNames[this.currentPalette]]\<close>: \<open>undefined\<close> (here
  \<open>None\<close>) for an index other than 0, 1 or 2; reading a field of it then throws.
\<close>

definition palette_of :: "nat \<Rightarrow> Palette option" where
  "palette_of k =
     (let paletteNames = [''cyberpunk'', ''sunset'', ''ocean'']
      in if k < length paletteNames then colorPalettes (paletteNames ! k) else None)"

text \<open>An element of a \<open>Uint8Array\<close> read at a number, as a number.\<close>

definition element_at :: "8 word list \<Rightarrow> jsnum \<Rightarrow> jsnum" where
  "element_at d idx = (case idx of Fin r \<Rightarrow> byte_at d r | _ \<Rightarrow> NaN)"

definition multiplyScalar :: "vec3 \<Rightarrow> jsnum \<Rightarrow> vec3" where
  "multiplyScalar v k = Vector3 (vx v * k) (vy v * k) (vz v * k)"

text \<open>A \<open>for\<close> loop over the given indices whose body may throw.\<close>

fun for_each :: "(nat \<Rightarrow> 's \<Rightarrow> 's outcome) \<Rightarrow> nat list \<Rightarrow> 's \<Rightarrow> 's outcome" where
  "for_each body [] s = Returns s"
| "for_each body (i # rest) s = bind_outcome (body i s) (for_each body rest)"

subsection \<open>Construction\<close>

text \<open>
  \<open>createParticleSystem\<close>: particle \<open>i\<close> takes five draws, in the order of the source
  (radius, theta, phi, hue, size); the particles lie between radius 50 and 150.
\<close>

definition initial_position :: "Runtime \<Rightarrow> nat \<Rightarrow> vec3" where
  "initial_position rt i =
     (let radius = Math_random rt (5 * i) * Fin 100 + Fin 50;
          theta = Math_random rt (5 * i + 1) * Math_PI * Fin 2;
          phi = Math_acos (Math_random rt (5 * i + 2) * Fin 2 - Fin 1)
      in Vector3 (radius * Math_sin phi * Math_cos theta)
                 (radius * Math_sin phi * Math_sin theta)
                 (radius * Math_cos phi))"

definition initial_color :: "Runtime \<Rightarrow> nat \<Rightarrow> color" where
  "initial_color rt i = setHSL rt (Fin 0.5 + Math_random rt (5 * i + 3) * Fin 0.3) (Fin 1.0) (Fin 0.5)"

definition Visualizer_new :: "Runtime \<Rightarrow> Visualizer" where
  "Visualizer_new rt =
     (let n = 2000 in
      \<lparr>isRunning = False, particleCount = n,
       particlePositions = map (initial_position rt) [0..<n],
       particleVelocities = replicate n (Vector3 (Fin 0) (Fin 0) (Fin 0)),
       particleColors = map (initial_color rt) [0..<n],
       positions = concat (map (\<lambda>i. let p = initial_position rt i in [vx p, vy p, vz p]) [0..<n]),
       colors = concat (map (\<lambda>i. let c = initial_color rt i in [cr c, cg c, cb c]) [0..<n]),
       sizes = map (\<lambda>i. Math_random rt (5 * i + 4) * Fin 2 + Fin 1) [0..<n],
       time = Fin 0, bassIntensity = Fin 0, midIntensity = Fin 0, trebleIntensity = Fin 0,
       isFrozen = False, pulseEffect = False, pulseIntensity = Fin 0, decayQueued = 0,
       currentPalette = 0, radialSymmetry = False, symmetrySegments = 6,
       visualMode = ''cosmic'', particleConnections = [],
       spiralAngle = Fin 0, spiralTightness = Fin 0.1, spikeIntensity = Fin 0\<rparr>)"

definition start :: "Visualizer \<Rightarrow> Visualizer" where
  "start s = s\<lparr>isRunning := True\<rparr>"

definition stop :: "Visualizer \<Rightarrow> Visualizer" where
  "stop s = s\<lparr>isRunning := False\<rparr>"

definition setVisualMode :: "string \<Rightarrow> Visualizer \<Rightarrow> Visualizer" where
  "setVisualMode mode s = s\<lparr>visualMode := mode\<rparr>"

subsection \<open>The pulse\<close>

text \<open>
  \<open>decayPulse\<close> is the closure inside \<open>triggerPulse\<close>: it multiplies the intensity by
  0.85 and either asks for another animation frame or clears the pulse.
  \<open>triggerPulse\<close> runs it once at once.  \<open>animationFrame\<close> is the browser running
  the callbacks that are waiting (each may ask for the next frame).
\<close>

definition decayPulse :: "Visualizer \<Rightarrow> Visualizer" where
  "decayPulse s =
     (let s1 = s\<lparr>pulseIntensity := pulseIntensity s * Fin 0.85\<rparr>
      in if pulseIntensity s1 > Fin 0.1
         then s1\<lparr>decayQueued := decayQueued s1 + 1\<rparr>
         else s1\<lparr>pulseEffect := False, pulseIntensity := Fin 0\<rparr>)"

definition triggerPulse :: "jsnum \<Rightarrow> Visualizer \<Rightarrow> Visualizer" where
  "triggerPulse intensity s =
     decayPulse (s\<lparr>pulseEffect := True, pulseIntensity := intensity + Fin 1.5\<rparr>)"

definition animationFrame :: "Visualizer \<Rightarrow> Visualizer" where
  "animationFrame s = (decayPulse ^^ decayQueued s) (s\<lparr>decayQueued := 0\<rparr>)"

definition processGestureCommands ::
  "GestureCommands \<Rightarrow> bool \<Rightarrow> jsnum \<Rightarrow> Visualizer \<Rightarrow> Visualizer"
where
  "processGestureCommands commands onBeat intensity s =
     (let s1 = s\<lparr>isFrozen := freeze commands\<rparr>;
          s2 = (if pulse commands \<and> \<not> pulseEffect s1 then triggerPulse intensity s1 else s1)
      in if colorPalette commands \<noteq> currentPalette s2
         then s2\<lparr>currentPalette := colorPalette commands\<rparr>
         else s2)"

subsection \<open>The per-particle loops\<close>

text \<open>
  The loops of \<open>updateParticles\<close>, \<open>updateParticlesCosmic\<close>,
  \<open>updateParticlesPulse\<close> and \<open>updateParticlesChaos\<close> have one shape: for
  \<open>i = 0, \<dots>, particleCount - 1\<close> read \<open>particlePositions[i]\<close> and
  \<open>particleVelocities[i]\<close>, compute, and write the position, the velocity, the colour
  and the size of particle \<open>i\<close>.  \<open>store_particle\<close> is the writing half of the body
  (the two objects are mutated in place; a write into a typed array outside its length
  does nothing), \<open>particle_step\<close> one pass through the body, and each rule supplies
  the computation.  The other fields of the visualizer do not change while a loop runs,
  so the computation reads them from the state at the start of the loop.  In the
  parameters, \<open>fd\<close>, \<open>avg\<close>, \<open>onBeat\<close> and \<open>intensity\<close> are the source's
  \<open>frequencyData\<close>, \<open>average\<close>, \<open>beat\<close> and \<open>beatIntensity\<close>.
\<close>

definition store_particle :: "nat \<Rightarrow> vec3 \<times> vec3 \<times> color \<times> jsnum \<Rightarrow> Visualizer \<Rightarrow> Visualizer" where
  "store_particle i r s =
     (case r of (pos, vel, col, sz) \<Rightarrow>
        s\<lparr>particlePositions := (particlePositions s)[i := pos],
          particleVelocities := (particleVelocities s)[i := vel],
          particleColors := (particleColors s)[i := col],
          positions := (positions s)[3 * i := vx pos, 3 * i + 1 := vy pos, 3 * i + 2 := vz pos],
          colors := (colors s)[3 * i := cr col, 3 * i + 1 := cg col, 3 * i + 2 := cb col],
          sizes := (sizes s)[i := sz]\<rparr>)"

definition particle_step ::
  "(nat \<Rightarrow> vec3 \<Rightarrow> vec3 \<Rightarrow> vec3 \<times> vec3 \<times> color \<times> jsnum) \<Rightarrow> nat \<Rightarrow> Visualizer \<Rightarrow> Visualizer outcome"
where
  "particle_step compute i s =
     (if i < length (particlePositions s) \<and> i < length (particleVelocities s) \<and>
         i < length (particleColors s)
      then Returns (store_particle i (compute i (particlePositions s ! i) (particleVelocities s ! i)) s)
      else Throws TypeError)"

text \<open>
  A loop over the particles with the palette looked up before it: the first pass through
  the body throws when the palette is \<open>undefined\<close>.
\<close>

definition particle_loop ::
  "(Palette \<Rightarrow> nat \<Rightarrow> vec3 \<Rightarrow> vec3 \<Rightarrow> vec3 \<times> vec3 \<times> color \<times> jsnum) \<Rightarrow> Visualizer \<Rightarrow> Visualizer outcome"
where
  "particle_loop compute s =
     (case palette_of (currentPalette s) of
        None \<Rightarrow> if particleCount s = 0 then Returns s else Throws TypeError
      | Some palette \<Rightarrow> for_each (particle_step (compute palette)) [0..<particleCount s] s)"

text \<open>\<open>Math.floor((i / this.particleCount) * frequencyData.length)\<close> and the sample there.\<close>

definition freqIndex_of :: "Visualizer \<Rightarrow> 8 word list \<Rightarrow> nat \<Rightarrow> jsnum" where
  "freqIndex_of s fd i =
     Math_floor ((Fin (real i) / Fin (real (particleCount s))) * Fin (real (length fd)))"

definition freqValue_of :: "Visualizer \<Rightarrow> 8 word list \<Rightarrow> nat \<Rightarrow> jsnum" where
  "freqValue_of s fd i = element_at fd (freqIndex_of s fd i) / Fin 255"

subsubsection \<open>updateParticles (the default rule, also the first half of neural)\<close>

definition updateParticles_body ::
  "Runtime \<Rightarrow> 8 word list \<Rightarrow> jsnum \<Rightarrow> bool \<Rightarrow> jsnum \<Rightarrow> Visualizer \<Rightarrow> Palette \<Rightarrow>
   nat \<Rightarrow> vec3 \<Rightarrow> vec3 \<Rightarrow> vec3 \<times> vec3 \<times> color \<times> jsnum"
where
  "updateParticles_body rt fd avg onBeat intensity s palette i pos vel =
     (let freqValue = freqValue_of s fd i;
          distance = Math_sqrt (vx pos * vx pos + vy pos * vy pos + vz pos * vz pos);
          force = freqValue * Fin 5;
          directionX = vx pos / distance;
          directionY = vy pos / distance;
          directionZ = vz pos / distance;
          vel1 = Vector3 (vx vel + directionX * force * Fin 0.1)
                         (vy vel + directionY * force * Fin 0.1)
                         (vz vel + directionZ * force * Fin 0.1);
          vel2 = (if onBeat \<or> pulseEffect s
                  then (let pulseStrength = (if pulseEffect s then pulseIntensity s else intensity)
                        in Vector3 (vx vel1 + directionX * pulseStrength * Fin 0.5)
                                   (vy vel1 + directionY * pulseStrength * Fin 0.5)
                                   (vz vel1 + directionZ * pulseStrength * Fin 0.5))
                  else vel1);
          pos1 = Vector3 (vx pos + vx vel2) (vy pos + vy vel2) (vz pos + vz vel2);
          vel3 = multiplyScalar vel2 (Fin 0.95);
          targetDistance = Fin 100 + bassIntensity s * Fin 50;
          restoreForce = (targetDistance - distance) * Fin 0.01;
          pos2 = Vector3 (vx pos1 + directionX * restoreForce)
                         (vy pos1 + directionY * restoreForce)
                         (vz pos1 + directionZ * restoreForce);
          hue = hueBase palette + freqValue * hueRange palette - avg * Fin 0.2;
          sat = saturation palette + freqValue * Fin 0.1;
          lightness = Fin 0.4 + freqValue * Fin 0.4;
          pulseSize = (if pulseEffect s then pulseIntensity s * Fin 2 else Fin 0)
      in (pos2, vel3, setHSL rt hue sat lightness,
          Fin 1 + freqValue * Fin 3 + (if onBeat then intensity else Fin 0) + pulseSize))"

definition updateParticles ::
  "Runtime \<Rightarrow> 8 word list \<Rightarrow> jsnum \<Rightarrow> bool \<Rightarrow> jsnum \<Rightarrow> Visualizer \<Rightarrow> Visualizer outcome"
where
  "updateParticles rt fd avg onBeat intensity s =
     particle_loop (updateParticles_body rt fd avg onBeat intensity s) s"

subsubsection \<open>updateParticleColors (the frozen field)\<close>

definition updateParticleColors_body ::
  "Runtime \<Rightarrow> 8 word list \<Rightarrow> jsnum \<Rightarrow> Visualizer \<Rightarrow> Palette \<Rightarrow> nat \<Rightarrow> color \<times> jsnum"
where
  "updateParticleColors_body rt fd avg s palette i =
     (let freqValue = freqValue_of s fd i;
          hue = hueBase palette + freqValue * hueRange palette - avg * Fin 0.2;
          sat = saturation palette + freqValue * Fin 0.1;
          lightness = Fin 0.4 + freqValue * Fin 0.4;
          pulseSize = (if pulseEffect s then pulseIntensity s * Fin 2 else Fin 0)
      in (setHSL rt hue sat lightness, Fin 1 + freqValue * Fin 3 + pulseSize))"

definition store_color :: "nat \<Rightarrow> color \<times> jsnum \<Rightarrow> Visualizer \<Rightarrow> Visualizer" where
  "store_color i r s =
     (case r of (col, sz) \<Rightarrow>
        s\<lparr>particleColors := (particleColors s)[i := col],
          colors := (colors s)[3 * i := cr col, 3 * i + 1 := cg col, 3 * i + 2 := cb col],
          sizes := (sizes s)[i := sz]\<rparr>)"

definition color_step :: "(nat \<Rightarrow> color \<times> jsnum) \<Rightarrow> nat \<Rightarrow> Visualizer \<Rightarrow> Visualizer outcome" where
  "color_step compute i s =
     (if i < length (particleColors s) then Returns (store_color i (compute i) s)
      else Throws TypeError)"

definition updateParticleColors :: "Runtime \<Rightarrow> 8 word list \<Rightarrow> jsnum \<Rightarrow> Visualizer \<Rightarrow> Visualizer outcome" where
  "updateParticleColors rt fd avg s =
     (case palette_of (currentPalette s) of
        None \<Rightarrow> if particleCount s = 0 then Returns s else Throws TypeError
      | Some palette \<Rightarrow>
          for_each (color_step (updateParticleColors_body rt fd avg s palette)) [0..<particleCount s] s)"

subsubsection \<open>Cosmic\<close>

definition updateParticlesCosmic_body ::
  "Runtime \<Rightarrow> 8 word list \<Rightarrow> jsnum \<Rightarrow> bool \<Rightarrow> jsnum \<Rightarrow> Visualizer \<Rightarrow> Palette \<Rightarrow>
   nat \<Rightarrow> vec3 \<Rightarrow> vec3 \<Rightarrow> vec3 \<times> vec3 \<times> color \<times> jsnum"
where
  "updateParticlesCosmic_body rt fd avg onBeat intensity s palette i pos vel =
     (let freqValue = freqValue_of s fd i;
          distance = Math_sqrt (vx pos * vx pos + vz pos * vz pos);
          angle = Math_atan2 (vz pos) (vx pos) + spiralAngle s * spiralTightness s;
          targetRadius = Fin 100 + bassIntensity s * Fin 80 + freqValue * Fin 50;
          targetX = Math_cos angle * targetRadius;
          targetZ = Math_sin angle * targetRadius;
          vel1 = Vector3 (vx vel + (targetX - vx pos) * Fin 0.01)
                         (vy vel + (freqValue * Fin 50 - vy pos) * Fin 0.01)
                         (vz vel + (targetZ - vz pos) * Fin 0.01);
          vel2 = (if onBeat \<or> pulseEffect s
                  then (let pulseStrength = (if pulseEffect s then pulseIntensity s else intensity);
                            directionX = vx pos / Math_max distance (Fin 1);
                            directionZ = vz pos / Math_max distance (Fin 1)
                        in Vector3 (vx vel1 + directionX * pulseStrength * Fin 0.5)
                                   (vy vel1)
                                   (vz vel1 + directionZ * pulseStrength * Fin 0.5))
                  else vel1);
          pos1 = Vector3 (vx pos + vx vel2) (vy pos + vy vel2) (vz pos + vz vel2);
          vel3 = multiplyScalar vel2 (Fin 0.92);
          normalizedDist = Math_min (distance / Fin 200) (Fin 1);
          hue = hueBase palette + normalizedDist * hueRange palette
      in (pos1, vel3, setHSL rt hue (saturation palette) (Fin 0.5 + freqValue * Fin 0.5),
          Fin 1 + freqValue * Fin 4 + (if onBeat then intensity else Fin 0)))"

definition updateParticlesCosmic ::
  "Runtime \<Rightarrow> 8 word list \<Rightarrow> jsnum \<Rightarrow> bool \<Rightarrow> jsnum \<Rightarrow> Visualizer \<Rightarrow> Visualizer outcome"
where
  "updateParticlesCosmic rt fd avg onBeat intensity s =
     particle_loop (updateParticlesCosmic_body rt fd avg onBeat intensity s) s"

subsubsection \<open>Pulse\<close>

definition updateParticlesPulse_body ::
  "Runtime \<Rightarrow> 8 word list \<Rightarrow> jsnum \<Rightarrow> bool \<Rightarrow> jsnum \<Rightarrow> Visualizer \<Rightarrow> Palette \<Rightarrow>
   nat \<Rightarrow> vec3 \<Rightarrow> vec3 \<Rightarrow> vec3 \<times> vec3 \<times> color \<times> jsnum"
where
  "updateParticlesPulse_body rt fd avg onBeat intensity s palette i pos vel =
     (let freqValue = freqValue_of s fd i;
          distance = Math_sqrt (vx pos * vx pos + vy pos * vy pos + vz pos * vz pos);
          directionX = vx pos / Math_max distance (Fin 1);
          directionY = vy pos / Math_max distance (Fin 1);
          directionZ = vz pos / Math_max distance (Fin 1);
          pulsePhase = Math_sin (time s * Fin 2
                         + (Fin (real i) / Fin (real (particleCount s))) * Math_PI * Fin 4);
          targetDistance = Fin 80 + pulsePhase * Fin 40 + freqValue * Fin 60
                             + bassIntensity s * Fin 40;
          force = (targetDistance - distance) * Fin 0.05;
          vel1 = Vector3 (vx vel + directionX * force) (vy vel + directionY * force)
                         (vz vel + directionZ * force);
          vel2 = (if onBeat
                  then Vector3 (vx vel1 + directionX * intensity * Fin 2)
                               (vy vel1 + directionY * intensity * Fin 2)
                               (vz vel1 + directionZ * intensity * Fin 2)
                  else vel1);
          pos1 = Vector3 (vx pos + vx vel2) (vy pos + vy vel2) (vz pos + vz vel2);
          vel3 = multiplyScalar vel2 (Fin 0.88);
          hue = hueBase palette + (pulsePhase * Fin 0.5 + Fin 0.5) * hueRange palette
      in (pos1, vel3, setHSL rt hue (saturation palette) (Fin 0.4 + freqValue * Fin 0.6),
          Fin 2 + freqValue * Fin 5 + Math_abs pulsePhase * Fin 2))"

definition updateParticlesPulse ::
  "Runtime \<Rightarrow> 8 word list \<Rightarrow> jsnum \<Rightarrow> bool \<Rightarrow> jsnum \<Rightarrow> Visualizer \<Rightarrow> Visualizer outcome"
where
  "updateParticlesPulse rt fd avg onBeat intensity s =
     particle_loop (updateParticlesPulse_body rt fd avg onBeat intensity s) s"

subsubsection \<open>Chaos\<close>

text \<open>On a beat particle \<open>i\<close> takes the draws \<open>3 i\<close>, \<open>3 i + 1\<close> and \<open>3 i + 2\<close>.\<close>

definition updateParticlesChaos_body ::
  "Runtime \<Rightarrow> 8 word list \<Rightarrow> jsnum \<Rightarrow> bool \<Rightarrow> jsnum \<Rightarrow> Visualizer \<Rightarrow> Palette \<Rightarrow>
   nat \<Rightarrow> vec3 \<Rightarrow> vec3 \<Rightarrow> vec3 \<times> vec3 \<times> color \<times> jsnum"
where
  "updateParticlesChaos_body rt fd avg onBeat intensity s palette i pos vel =
     (let freqValue = freqValue_of s fd i;
          chaosX = Math_sin (time s * Fin 3 + Fin (real i) * Fin 0.1) * freqValue * Fin 5;
          chaosY = Math_cos (time s * Fin 4 + Fin (real i) * Fin 0.15) * freqValue * Fin 5;
          chaosZ = Math_sin (time s * Fin 2.5 + Fin (real i) * Fin 0.12) * freqValue * Fin 5;
          vel1 = Vector3 (vx vel + chaosX * Fin 0.1) (vy vel + chaosY * Fin 0.1)
                         (vz vel + chaosZ * Fin 0.1);
          vel2 = (if onBeat
                  then Vector3 (vx vel1 + (Math_random rt (3 * i) - Fin 0.5) * intensity * Fin 3)
                               (vy vel1 + (Math_random rt (3 * i + 1) - Fin 0.5) * intensity * Fin 3)
                               (vz vel1 + (Math_random rt (3 * i + 2) - Fin 0.5) * intensity * Fin 3)
                  else vel1);
          distance = Math_sqrt (vx pos * vx pos + vy pos * vy pos + vz pos * vz pos);
          vel3 = (if distance > Fin 200
                  then Vector3 (vx vel2 + (- vx pos / distance) * Fin 0.5)
                               (vy vel2 + (- vy pos / distance) * Fin 0.5)
                               (vz vel2 + (- vz pos / distance) * Fin 0.5)
                  else vel2);
          pos1 = Vector3 (vx pos + vx vel3) (vy pos + vy vel3) (vz pos + vz vel3);
          vel4 = multiplyScalar vel3 (Fin 0.96);
          hue = hueBase palette + Math_sin (time s * Fin 5 + Fin (real i) * Fin 0.1) * hueRange palette
      in (pos1, vel4, setHSL rt hue (saturation palette) (Fin 0.3 + freqValue * Fin 0.7),
          Fin 1 + freqValue * Fin 6))"

definition updateParticlesChaos ::
  "Runtime \<Rightarrow> 8 word list \<Rightarrow> jsnum \<Rightarrow> bool \<Rightarrow> jsnum \<Rightarrow> Visualizer \<Rightarrow> Visualizer outcome"
where
  "updateParticlesChaos rt fd avg onBeat intensity s =
     particle_loop (updateParticlesChaos_body rt fd avg onBeat intensity s) s"

subsubsection \<open>Neural\<close>

text \<open>
  The default rule, then the connections between every fifth particle of the first 200,
  read from the \<open>positions\<close> attribute; a connection is kept as the two indices and
  the line's opacity.
\<close>

definition buffer_at :: "jsnum list \<Rightarrow> nat \<Rightarrow> jsnum" where
  "buffer_at xs k = (if k < length xs then xs ! k else NaN)"

definition connection :: "jsnum list \<Rightarrow> jsnum \<Rightarrow> nat \<Rightarrow> nat \<Rightarrow> (nat \<times> nat \<times> jsnum) list" where
  "connection ps connectionThreshold i j =
     (let dx = buffer_at ps (3 * i) - buffer_at ps (3 * j);
          dy = buffer_at ps (3 * i + 1) - buffer_at ps (3 * j + 1);
          dz = buffer_at ps (3 * i + 2) - buffer_at ps (3 * j + 2);
          distance = Math_sqrt (dx * dx + dy * dy + dz * dz)
      in if distance < connectionThreshold
         then [(i, j, (Fin 1 - distance / connectionThreshold) * Fin 0.5)]
         else [])"

definition connections :: "jsnum list \<Rightarrow> jsnum \<Rightarrow> nat \<Rightarrow> (nat \<times> nat \<times> jsnum) list" where
  "connections ps connectionThreshold n =
     (let sampled = filter (\<lambda>i. i mod 5 = 0) [0..<min n 200]
      in concat (map (\<lambda>i. concat (map (connection ps connectionThreshold i)
                                      (filter (\<lambda>j. i < j) sampled))) sampled))"

definition updateParticlesNeural ::
  "Runtime \<Rightarrow> 8 word list \<Rightarrow> jsnum \<Rightarrow> bool \<Rightarrow> jsnum \<Rightarrow> Visualizer \<Rightarrow> Visualizer outcome"
where
  "updateParticlesNeural rt fd avg onBeat intensity s =
     bind_outcome (updateParticles rt fd avg onBeat intensity s)
       (\<lambda>s1. Returns (s1\<lparr>particleConnections :=
                 connections (positions s1) (Fin 60 + midIntensity s1 * Fin 30) (particleCount s1)\<rparr>))"

subsubsection \<open>Minimal\<close>

text \<open>
  64 bars of \<open>particlesPerBar = \<lfloor>particleCount / 64\<rfloor>\<close> particles.  The inner loop
  runs over \<open>p = 0, 1, \<dots>\<close> below \<open>particlesPerBar\<close> and leaves at the first \<open>p\<close>
  whose particle index is not below \<open>particleCount\<close>.  The body moves the position
  towards its place in the bar and does not touch the velocity.
\<close>

definition updateParticlesMinimal_body ::
  "Runtime \<Rightarrow> 8 word list \<Rightarrow> Visualizer \<Rightarrow> Palette \<Rightarrow> nat \<Rightarrow> nat \<Rightarrow> vec3 \<Rightarrow> vec3 \<times> color \<times> jsnum"
where
  "updateParticlesMinimal_body rt fd s palette bar p pos =
     (let barCount = Fin 64;
          particlesPerBar = Fin (real (particleCount s div 64));
          freqIndex = Math_floor ((Fin (real bar) / barCount) * Fin (real (length fd)));
          freqValue = element_at fd freqIndex / Fin 255;
          barHeight = freqValue * Fin 150;
          x = (Fin (real bar) - barCount / Fin 2) * Fin 8;
          y = (Fin (real p) / particlesPerBar) * barHeight - Fin 50;
          z = Fin 0;
          pos1 = Vector3 (vx pos + (x - vx pos) * Fin 0.15)
                         (vy pos + (y - vy pos) * Fin 0.15)
                         (vz pos + (z - vz pos) * Fin 0.15);
          hue = hueBase palette + (y / Fin 100 + Fin 0.5) * hueRange palette
      in (pos1, setHSL rt hue (saturation palette) (Fin 0.5 + freqValue * Fin 0.5),
          Fin 3 + freqValue * Fin 4))"

definition store_minimal :: "nat \<Rightarrow> vec3 \<times> color \<times> jsnum \<Rightarrow> Visualizer \<Rightarrow> Visualizer" where
  "store_minimal i r s =
     (case r of (pos, col, sz) \<Rightarrow>
        s\<lparr>particlePositions := (particlePositions s)[i := pos],
          particleColors := (particleColors s)[i := col],
          positions := (positions s)[3 * i := vx pos, 3 * i + 1 := vy pos, 3 * i + 2 := vz pos],
          colors := (colors s)[3 * i := cr col, 3 * i + 1 := cg col, 3 * i + 2 := cb col],
          sizes := (sizes s)[i := sz]\<rparr>)"

definition minimal_step ::
  "(nat \<Rightarrow> nat \<Rightarrow> vec3 \<Rightarrow> vec3 \<times> color \<times> jsnum) \<Rightarrow> nat \<Rightarrow> nat \<Rightarrow> nat \<Rightarrow> Visualizer \<Rightarrow> Visualizer outcome"
where
  "minimal_step compute particlesPerBar bar p s =
     (let i = bar * particlesPerBar + p
      in if i < length (particlePositions s) \<and> i < length (particleColors s)
         then Returns (store_minimal i (compute bar p (particlePositions s ! i)) s)
         else Throws TypeError)"

definition minimal_bar ::
  "(nat \<Rightarrow> nat \<Rightarrow> vec3 \<Rightarrow> vec3 \<times> color \<times> jsnum) \<Rightarrow> nat \<Rightarrow> nat \<Rightarrow> Visualizer \<Rightarrow> Visualizer outcome"
where
  "minimal_bar compute particlesPerBar bar s =
     for_each (minimal_step compute particlesPerBar bar)
       (takeWhile (\<lambda>p. bar * particlesPerBar + p < particleCount s) [0..<particlesPerBar]) s"

definition updateParticlesMinimal ::
  "Runtime \<Rightarrow> 8 word list \<Rightarrow> jsnum \<Rightarrow> bool \<Rightarrow> jsnum \<Rightarrow> Visualizer \<Rightarrow> Visualizer outcome"
where
  "updateParticlesMinimal rt fd avg onBeat intensity s =
     (let barCount = 64; particlesPerBar = particleCount s div barCount
      in case palette_of (currentPalette s) of
           None \<Rightarrow> if particlesPerBar = 0 then Returns s else Throws TypeError
         | Some palette \<Rightarrow>
             for_each (minimal_bar (updateParticlesMinimal_body rt fd s palette) particlesPerBar)
               [0..<barCount] s)"

subsection \<open>One frame\<close>

text \<open>
  \<open>update(audioData, gestureCommands)\<close>; a missing argument is \<open>None\<close>.  The camera
  and the renderer are not part of the state.  \<open>update_controls\<close> is the first half of
  the method's body, up to the \<open>switch\<close>: the clock, the intensities, the gesture
  commands, the spike intensity and the spiral angle.
\<close>

definition update_controls :: "AudioData \<Rightarrow> GestureCommands option \<Rightarrow> Visualizer \<Rightarrow> Visualizer" where
  "update_controls a gestureCommands s =
     (let s1 = s\<lparr>time := time s + Fin 0.01\<rparr>;
          s2 = s1\<lparr>bassIntensity := bass (bands a) * Fin 2,
                  midIntensity := mid (bands a) * Fin 1.5,
                  trebleIntensity := treble (bands a) * Fin 1.2\<rparr>;
          s3 = (case gestureCommands of
                  None \<Rightarrow> s2
                | Some commands \<Rightarrow> processGestureCommands commands (beat a) (beatIntensity a) s2);
          s4 = s3\<lparr>spikeIntensity := treble (bands a) * Fin 3\<rparr>
      in s4\<lparr>spiralAngle := spiralAngle s4 + (Fin 0.01 + bass (bands a) * Fin 0.05)\<rparr>)"

definition applyRadialSymmetry :: "Runtime \<Rightarrow> Visualizer \<Rightarrow> Visualizer" where
  "applyRadialSymmetry rt s =
     s\<lparr>positions :=
         fold (\<lambda>w ps. ps[fst w := snd w])
           (kaleidoscope rt (particleCount s) (symmetrySegments s) (positions s)) (positions s)\<rparr>"

definition update ::
  "Runtime \<Rightarrow> AudioData option \<Rightarrow> GestureCommands option \<Rightarrow> Visualizer \<Rightarrow> Visualizer outcome"
where
  "update rt audioData gestureCommands s =
     (case audioData of
        None \<Rightarrow> Returns s
      | Some a \<Rightarrow>
          if \<not> isRunning s then Returns s
          else
            (let s5 = update_controls a gestureCommands s;
                 fd = frequencyData a; avg = average a; onBeat = beat a;
                 intensity = beatIntensity a
             in bind_outcome
                  (if \<not> isFrozen s5
                   then (if visualMode s5 = ''cosmic''
                         then updateParticlesCosmic rt fd avg onBeat intensity s5
                         else if visualMode s5 = ''neural''
                         then updateParticlesNeural rt fd avg onBeat intensity s5
                         else if visualMode s5 = ''pulse''
                         then updateParticlesPulse rt fd avg onBeat intensity s5
                         else if visualMode s5 = ''chaos''
                         then updateParticlesChaos rt fd avg onBeat intensity s5
                         else if visualMode s5 = ''minimal''
                         then updateParticlesMinimal rt fd avg onBeat intensity s5
                         else updateParticles rt fd avg onBeat intensity s5)
                   else updateParticleColors rt fd avg s5)
                  (\<lambda>s6. Returns (if radialSymmetry s6 then applyRadialSymmetry rt s6 else s6))))"

section \<open>Scenarios the properties speak about\<close>

text \<open>
  The detector called again and again with the same average \<open>a\<close>, at the times
  \<open>t0\<close>, \<open>t0 + dt\<close>, \<open>t0 + 2 dt\<close>, \<dots>: the engine after \<open>n\<close> calls, and
  whether call number \<open>n\<close> (counted from 0) reports a beat.
\<close>

fun detector_after :: "real \<Rightarrow> int \<Rightarrow> int \<Rightarrow> AudioEngine \<Rightarrow> nat \<Rightarrow> AudioEngine" where
  "detector_after a t0 dt e 0 = e"
| "detector_after a t0 dt e (Suc n) =
     snd (detectBeat (Fin a) (t0 + int n * dt) (detector_after a t0 dt e n))"

definition beat_at :: "real \<Rightarrow> int \<Rightarrow> int \<Rightarrow> AudioEngine \<Rightarrow> nat \<Rightarrow> bool" where
  "beat_at a t0 dt e n = fst (detectBeat (Fin a) (t0 + int n * dt) (detector_after a t0 dt e n))"

text \<open>The detector's three constants as the constructor sets them.\<close>

definition default_detector :: "AudioEngine \<Rightarrow> bool" where
  "default_detector e =
     (beatThreshold e = 1.3 \<and> beatDecayRate e = 0.98 \<and> beatMinInterval e = 200)"

text \<open>
  ``For every \<open>\<epsilon> > 0\<close> the running level is eventually within \<open>\<epsilon>\<close> of the
  input and stays there.''
\<close>

definition level_converges :: "real \<Rightarrow> int \<Rightarrow> int \<Rightarrow> AudioEngine \<Rightarrow> bool" where
  "level_converges a t0 dt e =
     (\<forall>eps>0. \<exists>N. \<forall>n\<ge>N. \<exists>c. currentBeat (detector_after a t0 dt e n) = Fin c \<and> \<bar>c - a\<bar> < eps)"

subsection \<open>Ranges\<close>

text \<open>A finite number between 0 and 1; a vector of three finite numbers.\<close>

definition in_unit_interval :: "jsnum \<Rightarrow> bool" where
  "in_unit_interval x = (case x of Fin v \<Rightarrow> 0 \<le> v \<and> v \<le> 1 | _ \<Rightarrow> False)"

definition finite_vec :: "vec3 \<Rightarrow> bool" where
  "finite_vec v = (isFinite (vx v) \<and> isFinite (vy v) \<and> isFinite (vz v))"

subsection \<open>The particle field\<close>

text \<open>
  \<open>same_controls s s'\<close>: \<open>s'\<close> differs from \<open>s\<close> in the six particle arrays at most.
  \<open>same_lengths\<close>: the six arrays have kept their lengths.
\<close>

definition same_controls :: "Visualizer \<Rightarrow> Visualizer \<Rightarrow> bool" where
  "same_controls s s' =
     (s'\<lparr>particlePositions := particlePositions s, particleVelocities := particleVelocities s,
         particleColors := particleColors s, positions := positions s, colors := colors s,
         sizes := sizes s\<rparr> = s)"

definition same_lengths :: "Visualizer \<Rightarrow> Visualizer \<Rightarrow> bool" where
  "same_lengths s s' =
     (length (particlePositions s') = length (particlePositions s) \<and>
      length (particleVelocities s') = length (particleVelocities s) \<and>
      length (particleColors s') = length (particleColors s) \<and>
      length (positions s') = length (positions s) \<and>
      length (colors s') = length (colors s) \<and>
      length (sizes s') = length (sizes s))"

text \<open>
  The arrays have the lengths \<open>createParticleSystem\<close> gives them, and the palette index
  is one of the three palettes.
\<close>

definition well_formed :: "Visualizer \<Rightarrow> bool" where
  "well_formed s =
     (length (particlePositions s) = particleCount s \<and>
      length (particleVelocities s) = particleCount s \<and>
      length (particleColors s) = particleCount s \<and>
      length (positions s) = 3 * particleCount s \<and>
      length (colors s) = 3 * particleCount s \<and>
      length (sizes s) = particleCount s \<and>
      currentPalette s < 3)"

text \<open>
  Whether a frame runs frozen: the freeze command of this frame if there are gesture
  commands, the flag left by the last ones otherwise.  Gesture commands are valid when
  they name one of the three palettes (the gesture controller cycles through 0, 1, 2).
\<close>

definition frozen_by :: "GestureCommands option \<Rightarrow> Visualizer \<Rightarrow> bool" where
  "frozen_by gestureCommands s =
     (case gestureCommands of None \<Rightarrow> isFrozen s | Some commands \<Rightarrow> freeze commands)"

definition valid_commands :: "GestureCommands option \<Rightarrow> bool" where
  "valid_commands gestureCommands =
     (case gestureCommands of None \<Rightarrow> True | Some commands \<Rightarrow> colorPalette commands < 3)"

text \<open>
  A runtime to instantiate the statements with: the colour is the triple it was asked
  for, every random draw is 0.5, and the kaleidoscope assigns nothing.
\<close>

definition still_runtime :: Runtime where
  "still_runtime =
     \<lparr>setHSL = (\<lambda>h s l. Color h s l), Math_random = (\<lambda>k. Fin 0.5),
      kaleidoscope = (\<lambda>n m ps. [])\<rparr>"

text \<open>
  What the minimal rule has done once the first \<open>m\<close> particles are through, for the
  computation \<open>C\<close> of the loop body and \<open>ppb\<close> particles per bar: particle
  \<open>i < m\<close> holds what \<open>C\<close> gives for bar \<open>i div ppb\<close> and place \<open>i mod ppb\<close>,
  and nothing from particle \<open>m\<close> on has been written.
\<close>

definition minimal_written ::
  "(nat \<Rightarrow> nat \<Rightarrow> vec3 \<Rightarrow> vec3 \<times> color \<times> jsnum) \<Rightarrow> nat \<Rightarrow> nat \<Rightarrow> Visualizer \<Rightarrow> Visualizer \<Rightarrow> bool"
where
  "minimal_written C ppb m s s' =
     (same_controls s s' \<and> same_lengths s s' \<and>
      particleVelocities s' = particleVelocities s \<and>
      (\<forall>i<m. particlePositions s' ! i = fst (C (i div ppb) (i mod ppb) (particlePositions s ! i)) \<and>
             particleColors s' ! i = fst (snd (C (i div ppb) (i mod ppb) (particlePositions s ! i))) \<and>
             (i < length (sizes s) \<longrightarrow>
                sizes s' ! i = snd (snd (C (i div ppb) (i mod ppb) (particlePositions s ! i))))) \<and>
      (\<forall>i\<ge>m. particlePositions s' ! i = particlePositions s ! i \<and>
             particleColors s' ! i = particleColors s ! i \<and>
             sizes s' ! i = sizes s ! i) \<and>
      (\<forall>j\<ge>3 * m. positions s' ! j = positions s ! j \<and> colors s' ! j = colors s ! j))"

text \<open>
  The bin \<open>\<lfloor>i / N * binCount\<rfloor>\<close> of particle \<open>i\<close> of \<open>N\<close>, and the bin of the bar
  that particle \<open>i\<close> stands in under the minimal rule.
\<close>

definition particle_bin :: "nat \<Rightarrow> nat \<Rightarrow> nat \<Rightarrow> nat" where
  "particle_bin n binCount i = nat \<lfloor>real i / real n * real binCount\<rfloor>"

definition bar_bin :: "nat \<Rightarrow> nat \<Rightarrow> nat \<Rightarrow> nat" where
  "bar_bin n binCount i = nat \<lfloor>real (i div (n div 64)) / 64 * real binCount\<rfloor>"

text \<open>
  The sample of bin \<open>k\<close> as the update rules use it, \<open>frequencyData[k] / 255\<close>: the
  byte over 255, and NaN where the spectrum has no bin \<open>k\<close> (the read gives
  \<open>undefined\<close>).
\<close>

definition bin_sample :: "8 word list \<Rightarrow> nat \<Rightarrow> jsnum" where
  "bin_sample fd k = (if k < length fd then Fin (real (unat (fd ! k))) / Fin 255 else NaN)"

subsection \<open>The pulse\<close>

text \<open>
  The visualizer \<open>k\<close> animation frames after \<open>triggerPulse(intensity)\<close>; the number
  of frames after which a pulse of intensity \<open>I\<close> is over at the latest; and the bound
  \<open>\<lceil>log(0.1 / I) / log(0.85)\<rceil>\<close>.
\<close>

definition pulse_frames :: "nat \<Rightarrow> jsnum \<Rightarrow> Visualizer \<Rightarrow> Visualizer" where
  "pulse_frames k intensity s = (animationFrame ^^ k) (triggerPulse intensity s)"

definition pulse_ticks :: "real \<Rightarrow> nat" where
  "pulse_ticks I = nat \<lceil>ln (0.1 / (I + 1.5)) / ln 0.85\<rceil>"

definition claimed_pulse_ticks :: "real \<Rightarrow> nat" where
  "claimed_pulse_ticks I = nat \<lceil>ln (0.1 / I) / ln 0.85\<rceil>"

subsection \<open>Sequences of operations\<close>

text \<open>
  What can happen to a visualizer after construction: a mode switch, gesture commands
  (with the freeze toggle and the pulse command), a pulse trigger, an animation frame
  of the pulse decay, a frame of the render loop.
\<close>

datatype operation =
    SetVisualMode string
  | ProcessGestureCommands GestureCommands bool jsnum
  | TriggerPulse jsnum
  | AnimationFrame
  | Update "AudioData option" "GestureCommands option"

fun apply_operation :: "Runtime \<Rightarrow> operation \<Rightarrow> Visualizer \<Rightarrow> Visualizer outcome" where
  "apply_operation rt (SetVisualMode mode) s = Returns (setVisualMode mode s)"
| "apply_operation rt (ProcessGestureCommands commands onBeat intensity) s =
     Returns (processGestureCommands commands onBeat intensity s)"
| "apply_operation rt (TriggerPulse intensity) s = Returns (triggerPulse intensity s)"
| "apply_operation rt AnimationFrame s = Returns (animationFrame s)"
| "apply_operation rt (Update audioData gestureCommands) s = update rt audioData gestureCommands s"

fun run_operations :: "Runtime \<Rightarrow> operation list \<Rightarrow> Visualizer \<Rightarrow> Visualizer outcome" where
  "run_operations rt [] s = Returns s"
| "run_operations rt (x # xs) s = bind_outcome (apply_operation rt x s) (run_operations rt xs)"

text \<open>
  An operation is valid when its gesture commands are; a control operation is any
  operation but a frame of the render loop.  \<open>same_arrays s s'\<close>: the six particle
  arrays of \<open>s'\<close> are those of \<open>s\<close>.
\<close>

fun valid_operation :: "operation \<Rightarrow> bool" where
  "valid_operation (ProcessGestureCommands commands onBeat intensity) = (colorPalette commands < 3)"
| "valid_operation (Update audioData gestureCommands) = valid_commands gestureCommands"
| "valid_operation _ = True"

fun control_operation :: "operation \<Rightarrow> bool" where
  "control_operation (Update audioData gestureCommands) = False"
| "control_operation _ = True"

definition same_arrays :: "Visualizer \<Rightarrow> Visualizer \<Rightarrow> bool" where
  "same_arrays s s' =
     (particlePositions s' = particlePositions s \<and>
      particleVelocities s' = particleVelocities s \<and>
      particleColors s' = particleColors s \<and>
      positions s' = positions s \<and> colors s' = colors s \<and> sizes s' = sizes s)"

section \<open>Arithmetic of finite numbers and of NaN\<close>

lemma Fin_plus [simp]: "Fin a + Fin b = Fin (a + b)" by (simp add: plus_jsnum_def)
lemma Fin_minus [simp]: "Fin a - Fin b = Fin (a - b)" by (simp add: minus_jsnum_def)
lemma Fin_times [simp]: "Fin a * Fin b = Fin (a * b)" by (simp add: times_jsnum_def)
lemma Fin_divide [simp]: "b \<noteq> 0 \<Longrightarrow> Fin a / Fin b = Fin (a / b)" by (simp add: divide_jsnum_def)
lemma Fin_less [simp]: "Fin a < Fin b \<longleftrightarrow> a < b" by (simp add: less_jsnum_def)
lemma zero_div_zero [simp]: "Fin 0 / Fin 0 = NaN" by (simp add: divide_jsnum_def)
lemma NaN_plus [simp]: "NaN + a = NaN" "a + NaN = NaN" by (cases a; simp add: plus_jsnum_def)+
lemma NaN_times [simp]: "NaN * a = NaN" "a * NaN = NaN" by (cases a; simp add: times_jsnum_def)+
lemma NaN_divide [simp]: "NaN / a = NaN" "a / NaN = NaN" by (cases a; simp add: divide_jsnum_def)+
lemma NaN_minus [simp]: "NaN - a = NaN" "a - NaN = NaN" by (cases a; simp add: minus_jsnum_def)+
lemma Math_max_Fin [simp]: "Math_max (Fin a) (Fin b) = Fin (max a b)" by (simp add: max_def)

section \<open>The beat detector\<close>

lemma detectBeat_Fin:
  assumes "currentBeat e = Fin c"
  shows "detectBeat (Fin a) now e =
     (let b = (now - lastBeatTime e > beatMinInterval e \<and> a > c * beatThreshold e)
      in (b, e\<lparr>lastBeatTime := (if b then now else lastBeatTime e),
              currentBeat := Fin (max ((if b then a else c) * beatDecayRate e) (a * 0.5))\<rparr>))"
  using assms by (simp add: detectBeat_def Let_def)

text \<open>
  C2 (as amended).  One call of the detector with a finite average and a finite running
  level: a beat is reported exactly when \<^emph>\<open>more than\<close> 200 ms have passed since the last
  detected beat and the average exceeds 1.3 times the running level; a beat sets the
  time of the last beat to \<open>now\<close> and the running level to the average; and in every
  call the running level (the one just set, on a beat) is then multiplied by 0.98 and
  raised to at least half the average.
\<close>

theorem detectBeat_rule:
  assumes "default_detector e" and "currentBeat e = Fin runningLevel"
  shows "(case detectBeat (Fin currentAverage) now e of
            (beatDetected, e') \<Rightarrow>
              beatDetected = (now - lastBeatTime e > 200 \<and> currentAverage > runningLevel * 1.3) \<and>
              lastBeatTime e' = (if beatDetected then now else lastBeatTime e) \<and>
              currentBeat e' =
                Fin (max ((if beatDetected then currentAverage else runningLevel) * 0.98)
                         (currentAverage * 0.5)))"
proof -
  have cfg: "beatThreshold e = 1.3" "beatDecayRate e = 0.98" "beatMinInterval e = 200"
    using assms(1) unfolding default_detector_def by blast+
  show ?thesis
    unfolding detectBeat_Fin [OF assms(2)] cfg Let_def by simp
qed

lemma default_detector_new: "default_detector (AudioEngine_new ctx ok)"
  by (simp add: default_detector_def AudioEngine_new_def initAudioContext_def split: option.splits)

text \<open>The first call on a fresh engine, with average 100: a beat, and the level ends at 98.\<close>

theorem detectBeat_rule_witness:
  "default_detector (AudioEngine_new None False) \<and>
   currentBeat (AudioEngine_new None False) = Fin 0 \<and>
   (case detectBeat (Fin 100) 1700000000000 (AudioEngine_new None False) of
      (beatDetected, e') \<Rightarrow>
        beatDetected = True \<and> lastBeatTime e' = 1700000000000 \<and> currentBeat e' = Fin 98)"
proof -
  have c: "currentBeat (AudioEngine_new None False) = Fin 0"
    and l: "lastBeatTime (AudioEngine_new None False) = 0"
    by (simp_all add: AudioEngine_new_def initAudioContext_def)
  show ?thesis
    using detectBeat_rule [OF default_detector_new c, where currentAverage = 100 and now = 1700000000000]
      default_detector_new [of None False] c l
    by (simp split: prod.splits)
qed

text \<open>
  C2 as stated asks for a beat once \<^emph>\<open>at least\<close> 200 ms have passed.  Exactly 200 ms after
  a beat, with an average ten times the running level, the detector reports none.
\<close>

theorem detectBeat_at_exactly_min_interval:
  "1000200 - lastBeatTime ((AudioEngine_new None False)\<lparr>lastBeatTime := 1000000, currentBeat := Fin 10\<rparr>)
     \<ge> beatMinInterval ((AudioEngine_new None False)\<lparr>lastBeatTime := 1000000, currentBeat := Fin 10\<rparr>) \<and>
   Fin 100 > currentBeat ((AudioEngine_new None False)\<lparr>lastBeatTime := 1000000, currentBeat := Fin 10\<rparr>)
              * Fin (beatThreshold (AudioEngine_new None False)) \<and>
   \<not> fst (detectBeat (Fin 100) 1000200
            ((AudioEngine_new None False)\<lparr>lastBeatTime := 1000000, currentBeat := Fin 10\<rparr>))"
  by (simp add: detectBeat_def AudioEngine_new_def initAudioContext_def Let_def)

lemma default_detector_after: "default_detector e \<Longrightarrow> default_detector (detector_after a t0 dt e n)"
  by (induction n) (simp_all add: detectBeat_def Let_def default_detector_def)

lemma level_bounds:
  assumes d: "default_detector e" and c0: "currentBeat e = Fin c0" and a: "0 \<le> a"
  shows "\<exists>c. currentBeat (detector_after a t0 dt e n) = Fin c \<and> (0 < n \<longrightarrow> a * 0.5 \<le> c) \<and>
             c \<le> max (a * 0.98) (0.98 ^ n * c0)"
proof (induction n)
  case 0
  then show ?case using c0 by simp
next
  case (Suc n)
  let ?e = "detector_after a t0 dt e n"
  from Suc obtain c where c: "currentBeat ?e = Fin c" "c \<le> max (a * 0.98) (0.98 ^ n * c0)"
    by blast
  have dd: "default_detector ?e" using d by (rule default_detector_after)
  have cfg: "beatThreshold ?e = 1.3" "beatDecayRate ?e = 0.98" "beatMinInterval ?e = 200"
    using dd unfolding default_detector_def by blast+
  define P where "P = 0.98 ^ n * c0"
  define b where "b = (t0 + int n * dt - lastBeatTime ?e > 200 \<and> a > c * 1.3)"
  define c' where "c' = max ((if b then a else c) * 0.98) (a * 0.5)"
  have eq: "currentBeat (detector_after a t0 dt e (Suc n)) = Fin c'"
    unfolding detector_after.simps detectBeat_Fin [OF c(1)] cfg Let_def c'_def b_def by simp
  have P: "(0.98::real) ^ Suc n * c0 = 0.98 * P" by (simp add: P_def)
  have cP: "c \<le> max (a * 0.98) P" using c(2) by (simp add: P_def)
  have "a * 0.5 \<le> c'" unfolding c'_def by (rule max.cobounded2)
  moreover have "c' \<le> max (a * 0.98) (0.98 * P)"
    unfolding c'_def using cP a by (cases b) (auto simp add: max_def split: if_splits)
  ultimately show ?case unfolding P using eq by blast
qed


subsection \<open>Constant input\<close>

lemma detectBeat_last:
  "lastBeatTime (snd (detectBeat x now e)) = (if fst (detectBeat x now e) then now else lastBeatTime e)"
  by (simp add: detectBeat_def Let_def)

lemma detectBeat_gate:
  "fst (detectBeat x now e) \<Longrightarrow> now - lastBeatTime e > beatMinInterval e"
  by (simp add: detectBeat_def Let_def)

lemma last_beat_covers:
  assumes dt: "0 \<le> dt"
  shows "i < n \<Longrightarrow> beat_at a t0 dt e i \<Longrightarrow>
         t0 + int i * dt \<le> lastBeatTime (detector_after a t0 dt e n)"
proof (induction n)
  case 0
  then show ?case by simp
next
  case (Suc n)
  let ?e = "detector_after a t0 dt e n"
  let ?now = "t0 + int n * dt"
  have last: "lastBeatTime (detector_after a t0 dt e (Suc n)) =
                (if beat_at a t0 dt e n then ?now else lastBeatTime ?e)"
    by (simp add: detectBeat_last beat_at_def)
  have mono: "t0 + int i * dt \<le> ?now"
    using Suc.prems(1) dt by (simp add: mult_right_mono)
  show ?case
  proof (cases "beat_at a t0 dt e n")
    case True
    then show ?thesis using last mono by simp
  next
    case False
    then have "i \<noteq> n" using Suc.prems(2) by blast
    then have "i < n" using Suc.prems(1) by simp
    then show ?thesis using Suc.IH Suc.prems(2) last False by simp
  qed
qed

lemma pow_small:
  fixes c0 eps :: real
  assumes "0 < eps"
  shows "\<exists>N. \<forall>n\<ge>N. 0.98 ^ n * c0 \<le> eps"
proof (cases "c0 \<le> 0")
  case True
  have "(0.98::real) ^ n * c0 \<le> eps" for n
  proof -
    have "(0.98::real) ^ n * c0 \<le> 0" using True by (simp add: mult_nonneg_nonpos)
    then show ?thesis using assms by linarith
  qed
  then show ?thesis by blast
next
  case False
  then have c0: "0 < c0" by simp
  then have "0 < eps / c0" using assms by simp
  then obtain N where N: "(0.98::real) ^ N < eps / c0"
    using real_arch_pow_inv [of "eps / c0" "0.98"] by auto
  have "(0.98::real) ^ n * c0 \<le> eps" if "N \<le> n" for n
  proof -
    have "(0.98::real) ^ n \<le> 0.98 ^ N" using that by (simp add: power_decreasing)
    then have "(0.98::real) ^ n < eps / c0" using N by linarith
    then show ?thesis using c0 by (simp add: pos_less_divide_eq less_imp_le)
  qed
  then show ?thesis by blast
qed

text \<open>
  C3 (as amended).  With a constant input \<open>a \<ge> 0\<close>, called at a fixed tick interval:
  the running level eventually stays between \<open>a / 2\<close> and \<open>0.98 a\<close> (up to any
  \<open>\<epsilon> > 0\<close>, which only matters for \<open>a = 0\<close>, where the level tends to 0); and any two
  calls that both report a beat are more than 200 ms apart.
\<close>

theorem beat_detector_constant_input:
  assumes "default_detector e" and "currentBeat e = Fin c0" and "0 \<le> a" and "0 \<le> dt"
  shows "(\<forall>eps>0. \<exists>N. \<forall>n\<ge>N. \<exists>c. currentBeat (detector_after a t0 dt e n) = Fin c \<and>
             a * 0.5 \<le> c \<and> c \<le> max (a * 0.98) eps) \<and>
         (\<forall>i j. i < j \<and> beat_at a t0 dt e i \<and> beat_at a t0 dt e j \<longrightarrow>
             (t0 + int j * dt) - (t0 + int i * dt) > 200)"
proof (intro conjI allI impI)
  fix eps :: real
  assume eps: "0 < eps"
  from pow_small [OF eps, of c0] obtain N where N: "\<forall>n\<ge>N. 0.98 ^ n * c0 \<le> eps" by blast
  have "\<exists>c. currentBeat (detector_after a t0 dt e n) = Fin c \<and> a * 0.5 \<le> c \<and> c \<le> max (a * 0.98) eps"
    if n: "Suc N \<le> n" for n
  proof -
    from level_bounds [OF assms(1,2,3), of t0 dt n] obtain c where
      c: "currentBeat (detector_after a t0 dt e n) = Fin c" "0 < n \<longrightarrow> a * 0.5 \<le> c"
         "c \<le> max (a * 0.98) (0.98 ^ n * c0)" by blast
    have "0.98 ^ n * c0 \<le> eps" using N n by simp
    then have "c \<le> max (a * 0.98) eps" using c(3) by (auto simp add: max_def split: if_splits)
    moreover have "a * 0.5 \<le> c" using c(2) n by simp
    ultimately show ?thesis using c(1) by blast
  qed
  then show "\<exists>N. \<forall>n\<ge>N. \<exists>c. currentBeat (detector_after a t0 dt e n) = Fin c \<and>
                a * 0.5 \<le> c \<and> c \<le> max (a * 0.98) eps" by blast
next
  fix i j
  assume h: "i < j \<and> beat_at a t0 dt e i \<and> beat_at a t0 dt e j"
  let ?e = "detector_after a t0 dt e j"
  have "beatMinInterval ?e = 200"
    using default_detector_after [OF assms(1)] by (simp add: default_detector_def)
  moreover have "t0 + int j * dt - lastBeatTime ?e > beatMinInterval ?e"
    using h detectBeat_gate unfolding beat_at_def by blast
  moreover have "t0 + int i * dt \<le> lastBeatTime ?e"
    using last_beat_covers [OF assms(4)] h by blast
  ultimately show "(t0 + int j * dt) - (t0 + int i * dt) > 200" by linarith
qed

text \<open>
  C3 as stated says the running level converges to the input.  For the input 100 on a
  fresh engine it never comes closer than 2: after every call it is at most 98.
\<close>

theorem beat_detector_does_not_converge:
  "\<not> level_converges 100 1700000000000 16 (AudioEngine_new None False)"
proof
  assume "level_converges 100 1700000000000 16 (AudioEngine_new None False)"
  then obtain N where N: "\<forall>n\<ge>N. \<exists>c. currentBeat (detector_after 100 1700000000000 16
      (AudioEngine_new None False) n) = Fin c \<and> \<bar>c - 100\<bar> < 1"
    unfolding level_converges_def by (metis zero_less_one)
  then obtain c where c: "currentBeat (detector_after 100 1700000000000 16
      (AudioEngine_new None False) N) = Fin c" "\<bar>c - 100\<bar> < 1" by blast
  have "currentBeat (AudioEngine_new None False) = Fin 0"
    by (simp add: AudioEngine_new_def initAudioContext_def)
  from level_bounds [OF default_detector_new this, of 100 1700000000000 16 N]
  obtain c' where c': "currentBeat (detector_after 100 1700000000000 16
      (AudioEngine_new None False) N) = Fin c'" "c' \<le> max (100 * 0.98) (0.98 ^ N * 0)" by auto
  then have "c \<le> 98" using c(1) by simp
  then show False using c(2) by linarith
qed

text \<open>The amended statement at the input 100, 16 ms ticks, \<open>\<epsilon> = 1\<close>.\<close>

theorem beat_detector_constant_input_witness:
  "default_detector (AudioEngine_new None False) \<and>
   currentBeat (AudioEngine_new None False) = Fin 0 \<and> (0::real) \<le> 100 \<and> (0::int) \<le> 16 \<and>
   (\<exists>N. \<forall>n\<ge>N. \<exists>c.
       currentBeat (detector_after 100 1700000000000 16 (AudioEngine_new None False) n) = Fin c \<and>
       100 * 0.5 \<le> c \<and> c \<le> max (100 * 0.98) 1)"
proof -
  have c: "currentBeat (AudioEngine_new None False) = Fin 0"
    by (simp add: AudioEngine_new_def initAudioContext_def)
  have h: "(0::real) \<le> 100" "(0::int) \<le> 16" by simp_all
  have "\<exists>N. \<forall>n\<ge>N. \<exists>c.
       currentBeat (detector_after 100 1700000000000 16 (AudioEngine_new None False) n) = Fin c \<and>
       100 * 0.5 \<le> c \<and> c \<le> max (100 * 0.98) 1"
    using beat_detector_constant_input [OF default_detector_new c h, of 1700000000000]
      zero_less_one by blast
  then show ?thesis
    using default_detector_new [of None False] c h by blast
qed

section \<open>Feature extraction\<close>

text \<open>
  C9.  While the analyser or the data array is missing, \<open>getFrequencyData\<close> returns
  (it neither throws nor loops) the all-zero feature vector: 1024 zero bins, average 0,
  no beat, beat intensity 0 and six zero bands; the engine is left as it was.
\<close>

theorem getFrequencyData_missing_audio:
  assumes "analyser e = None \<or> dataArray e = None"
  shows "\<exists>r. getFrequencyData spectrum now e = Returns (r, e) \<and>
             frequencyData r = replicate 1024 0 \<and> average r = Fin 0 \<and> beat r = False \<and>
             beatIntensity r = Fin 0 \<and>
             sub (bands r) = Fin 0 \<and> bass (bands r) = Fin 0 \<and> low (bands r) = Fin 0 \<and>
             mid (bands r) = Fin 0 \<and> high (bands r) = Fin 0 \<and> treble (bands r) = Fin 0"
  using assms by (auto simp add: getFrequencyData_def silence_def split: option.splits)

text \<open>An engine built where no audio context can be created.\<close>

theorem getFrequencyData_missing_audio_witness:
  "(analyser (AudioEngine_new None False) = None \<or> dataArray (AudioEngine_new None False) = None) \<and>
   (\<exists>r. getFrequencyData [1, 2, 3] 1700000000000 (AudioEngine_new None False)
          = Returns (r, AudioEngine_new None False) \<and>
        frequencyData r = replicate 1024 0 \<and> average r = Fin 0 \<and> beat r = False \<and>
        beatIntensity r = Fin 0 \<and>
        sub (bands r) = Fin 0 \<and> bass (bands r) = Fin 0 \<and> low (bands r) = Fin 0 \<and>
        mid (bands r) = Fin 0 \<and> high (bands r) = Fin 0 \<and> treble (bands r) = Fin 0)"
proof -
  have a: "analyser (AudioEngine_new None False) = None \<or> dataArray (AudioEngine_new None False) = None"
    by (simp add: AudioEngine_new_def initAudioContext_def)
  show ?thesis using getFrequencyData_missing_audio [OF a, of "[1, 2, 3]" 1700000000000] a by blast
qed

subsection \<open>Band energies\<close>

lemma sum_bins_Fin: "\<exists>v. sum_bins d (Fin a) (Fin b) = Returns v"
  by (simp add: sum_bins_def)

lemma band_energy_returns:
  assumes "nyq \<noteq> 0"
  shows "\<exists>v. band_energy (Fin nyq) (Fin len) d hz = Returns v"
proof -
  obtain v where "sum_bins d (Math_floor ((Fin (fst hz) / Fin nyq) * Fin len))
     (Math_floor ((Fin (snd hz) / Fin nyq) * Fin len)) = Returns v"
    using assms sum_bins_Fin by (metis Fin_divide Fin_times Math_floor.simps(1))
  then show ?thesis by (simp add: band_energy_def Let_def)
qed

lemma bands_loop_returns:
  assumes "nyq \<noteq> 0"
  shows "\<exists>vs. bands_loop (Fin nyq) (Fin len) d bs = Returns vs \<and> map fst vs = map fst bs"
proof (induction bs)
  case Nil
  then show ?case by simp
next
  case (Cons b bs)
  obtain name hz where b: "b = (name, hz)" by (cases b)
  from band_energy_returns [OF assms] obtain v where
    v: "band_energy (Fin nyq) (Fin len) d hz = Returns v" by blast
  from Cons obtain vs where "bands_loop (Fin nyq) (Fin len) d bs = Returns vs" "map fst vs = map fst bs"
    by blast
  then show ?case using b v by simp
qed

text \<open>
  C4 at a failing input.  On an audio context that runs at 192 kHz the sub band
  (0 to 60 Hz) covers no bin of the 1024: its bin range is \<open>[0, 0)\<close>, the sum 0 is
  divided by 0, and the band's energy is NaN for the all-255 spectrum (and for every
  other), not 1.
\<close>

theorem sub_band_at_192kHz:
  "\<exists>bs. extractFrequencyBands (AudioEngine_new (Some 192000) True) (replicate 1024 255) = Returns bs \<and>
        sub bs = NaN"
proof -
  have sub: "band_energy (Fin 96000) (Fin 1024) d (0, 60) = Returns NaN" for d
    by (simp add: band_energy_def sum_bins_def)
  obtain vs where vs: "bands_loop (Fin 96000) (Fin 1024) (replicate 1024 255) (tl frequencyBands) = Returns vs"
    using bands_loop_returns [of 96000 1024] by (metis zero_neq_numeral)
  have "bands_loop (Fin 96000) (Fin 1024) (replicate 1024 255) frequencyBands
          = Returns ((''sub'', NaN) # vs)"
    using vs sub by (simp add: frequencyBands_def)
  then show ?thesis
    by (simp add: extractFrequencyBands_def AudioEngine_new_def initAudioContext_def js_length_def
        band_of_def)
qed

text \<open>
  Where every band covers at least one bin and ends inside the array, the energies are
  what the comment in the source promises: with the engine's 1024 bins that is the case
  for every sample rate from 16 kHz to 122.88 kHz (44.1 kHz and 48 kHz among them).
  There each band's energy is the mean of its bins over 255, a number between 0 and 1,
  and exactly 1 for the all-255 spectrum.
\<close>

lemma unat_byte_le: "unat (w :: 8 word) \<le> 255"
proof -
  have "unat w < 2 ^ LENGTH(8)" by (rule unsigned_less)
  then show ?thesis by simp
qed

lemma fold_bins:
  assumes "na + n \<le> length d"
  shows "fold (\<lambda>k sum. sum + byte_at d (real na + real k)) [0..<n] (Fin 0)
           = Fin (real (\<Sum>k<n. unat (d ! (na + k))))"
  using assms
proof (induction n)
  case 0
  show ?case by simp
next
  case (Suc n)
  have r: "real na + real n = real (na + n)" by simp
  have f: "\<lfloor>real (na + n)\<rfloor> = int (na + n)" by (rule floor_of_nat)
  have "byte_at d (real na + real n) = Fin (real (unat (d ! (na + n))))"
    unfolding r byte_at_def f nat_int using Suc.prems by simp
  then show ?case using Suc by simp
qed

lemma band_energy_value:
  assumes "nyq \<noteq> 0"
    and "A = \<lfloor>lo / nyq * real len\<rfloor>" and "B = \<lfloor>hi / nyq * real len\<rfloor>"
    and "0 \<le> A" and "A < B" and "nat B \<le> length d"
  shows "band_energy (Fin nyq) (Fin (real len)) d (lo, hi)
           = Returns (Fin (real (\<Sum>k<nat (B - A). unat (d ! (nat A + k))) / real_of_int (B - A) / 255))"
proof -
  have s: "Math_floor ((Fin lo / Fin nyq) * Fin (real len)) = Fin (of_int A)"
    and e: "Math_floor ((Fin hi / Fin nyq) * Fin (real len)) = Fin (of_int B)"
    using assms(1,2,3) by simp_all
  have n: "nat \<lceil>real_of_int B - real_of_int A\<rceil> = nat (B - A)"
    by (metis ceiling_of_int of_int_diff)
  have idx: "real_of_int A + real k = real (nat A) + real k" for k using assms(4) by simp
  have len: "nat A + nat (B - A) \<le> length d" using assms(4,5,6) by simp
  have "sum_bins d (Fin (of_int A)) (Fin (of_int B))
          = Returns (Fin (real (\<Sum>k<nat (B - A). unat (d ! (nat A + k)))))"
    using assms(5) fold_bins [OF len] by (simp add: sum_bins_def n idx)
  moreover have "real_of_int B - real_of_int A \<noteq> 0" using assms(5) by simp
  ultimately show ?thesis
    unfolding band_energy_def Let_def fst_conv snd_conv s e by simp
qed

lemma band_energy_range:
  assumes "nyq \<noteq> 0"
    and "A = \<lfloor>lo / nyq * real len\<rfloor>" and "B = \<lfloor>hi / nyq * real len\<rfloor>"
    and "0 \<le> A" and "A < B" and "nat B \<le> length d"
  shows "\<exists>v. band_energy (Fin nyq) (Fin (real len)) d (lo, hi) = Returns (Fin v) \<and>
             0 \<le> v \<and> v \<le> 1 \<and> ((\<forall>w\<in>set d. w = 255) \<longrightarrow> v = 1)"
proof -
  define S where "S = (\<Sum>k<nat (B - A). unat (d ! (nat A + k)))"
  define n where "n = nat (B - A)"
  have n: "0 < n" "real_of_int (B - A) = real n" using assms(5) by (simp_all add: n_def)
  have "S \<le> (\<Sum>k<n. 255)" unfolding S_def n_def by (intro sum_mono unat_byte_le)
  then have S: "S \<le> 255 * n" by simp
  have v: "real S / real n / 255 \<le> 1"
  proof -
    have "real S \<le> 255 * real n" using S by (metis of_nat_le_iff of_nat_mult of_nat_numeral)
    then show ?thesis using n(1) by (simp add: divide_le_eq)
  qed
  have all: "real S / real n / 255 = 1" if "\<forall>w\<in>set d. w = 255"
  proof -
    have "nat A + k < length d" if "k < nat (B - A)" for k using that assms(4,5,6) by simp
    then have "d ! (nat A + k) = 255" if "k < nat (B - A)" for k
      using that \<open>\<forall>w\<in>set d. w = 255\<close> nth_mem by blast
    then have "unat (d ! (nat A + k)) = 255" if "k < nat (B - A)" for k
      using that by simp
    then have "S = 255 * n" by (simp add: S_def n_def)
    then show ?thesis using n(1) by simp
  qed
  have "band_energy (Fin nyq) (Fin (real len)) d (lo, hi) = Returns (Fin (real S / real n / 255))"
    unfolding band_energy_value [OF assms] S_def [symmetric] n(2) ..
  moreover have "0 \<le> real S / real n / 255" by simp
  ultimately show ?thesis using v all by blast
qed


lemma band_in_range:
  assumes "16000 \<le> sr" and "sr \<le> 122880" and "length d = 1024"
    and "0 \<le> lo" and "lo + 60 \<le> hi" and "hi \<le> 8000"
  shows "\<exists>v. band_energy (Fin (sr / 2)) (Fin (real (1024::nat))) d (lo, hi) = Returns (Fin v) \<and>
             0 \<le> v \<and> v \<le> 1 \<and> ((\<forall>w\<in>set d. w = 255) \<longrightarrow> v = 1)"
proof -
  define A where "A = \<lfloor>lo / (sr / 2) * real (1024::nat)\<rfloor>"
  define B where "B = \<lfloor>hi / (sr / 2) * real (1024::nat)\<rfloor>"
  have sr: "0 < sr" using assms(1) by simp
  have x: "lo / (sr / 2) * real (1024::nat) = lo * 2048 / sr"
    and y: "hi / (sr / 2) * real (1024::nat) = hi * 2048 / sr"
    by simp_all
  have A0: "0 \<le> A" unfolding A_def x using assms(4) sr by simp
  have "sr \<le> (hi - lo) * 2048" using assms(2,5) by simp
  then have "1 \<le> (hi - lo) * 2048 / sr" using sr by (simp add: le_divide_eq)
  then have "lo * 2048 / sr + 1 \<le> hi * 2048 / sr"
    by (simp add: diff_divide_distrib left_diff_distrib)
  then have "\<lfloor>lo * 2048 / sr + 1\<rfloor> \<le> \<lfloor>hi * 2048 / sr\<rfloor>" by (rule floor_mono)
  then have AB: "A < B" unfolding A_def B_def x y by simp
  have "hi * 2048 \<le> 1024 * sr" using assms(1,6) by simp
  then have "hi * 2048 / sr \<le> 1024" using sr by (simp add: divide_le_eq)
  then have "\<lfloor>hi * 2048 / sr\<rfloor> \<le> \<lfloor>1024::real\<rfloor>" by (rule floor_mono)
  then have "B \<le> 1024" unfolding B_def y by simp
  then have B: "nat B \<le> length d" using assms(3) by simp
  have n: "sr / 2 \<noteq> 0" using sr by simp
  show ?thesis using band_energy_range [OF n A_def B_def A0 AB B] .
qed

lemma band_energies_at_common_rates:
  assumes "audioContext e = Some sr" and "bufferLength e = Some 1024" and "length d = 1024"
    and "16000 \<le> sr" and "sr \<le> 122880"
  shows "\<exists>bs. extractFrequencyBands e d = Returns bs \<and>
           in_unit_interval (sub bs) \<and> in_unit_interval (bass bs) \<and> in_unit_interval (low bs) \<and>
           in_unit_interval (mid bs) \<and> in_unit_interval (high bs) \<and> in_unit_interval (treble bs) \<and>
           ((\<forall>w\<in>set d. w = 255) \<longrightarrow>
              sub bs = Fin 1 \<and> bass bs = Fin 1 \<and> low bs = Fin 1 \<and> mid bs = Fin 1 \<and>
              high bs = Fin 1 \<and> treble bs = Fin 1)"
proof -
  note b = band_in_range [OF assms(4,5,3)]
  obtain v1 where v1: "band_energy (Fin (sr / 2)) (Fin (real (1024::nat))) d (0, 60) = Returns (Fin v1)"
    "0 \<le> v1" "v1 \<le> 1" "(\<forall>w\<in>set d. w = 255) \<longrightarrow> v1 = 1" using b [of 0 60] by auto
  obtain v2 where v2: "band_energy (Fin (sr / 2)) (Fin (real (1024::nat))) d (60, 250) = Returns (Fin v2)"
    "0 \<le> v2" "v2 \<le> 1" "(\<forall>w\<in>set d. w = 255) \<longrightarrow> v2 = 1" using b [of 60 250] by auto
  obtain v3 where v3: "band_energy (Fin (sr / 2)) (Fin (real (1024::nat))) d (250, 500) = Returns (Fin v3)"
    "0 \<le> v3" "v3 \<le> 1" "(\<forall>w\<in>set d. w = 255) \<longrightarrow> v3 = 1" using b [of 250 500] by auto
  obtain v4 where v4: "band_energy (Fin (sr / 2)) (Fin (real (1024::nat))) d (500, 2000) = Returns (Fin v4)"
    "0 \<le> v4" "v4 \<le> 1" "(\<forall>w\<in>set d. w = 255) \<longrightarrow> v4 = 1" using b [of 500 2000] by auto
  obtain v5 where v5: "band_energy (Fin (sr / 2)) (Fin (real (1024::nat))) d (2000, 4000) = Returns (Fin v5)"
    "0 \<le> v5" "v5 \<le> 1" "(\<forall>w\<in>set d. w = 255) \<longrightarrow> v5 = 1" using b [of 2000 4000] by auto
  obtain v6 where v6: "band_energy (Fin (sr / 2)) (Fin (real (1024::nat))) d (4000, 8000) = Returns (Fin v6)"
    "0 \<le> v6" "v6 \<le> 1" "(\<forall>w\<in>set d. w = 255) \<longrightarrow> v6 = 1" using b [of 4000 8000] by auto
  have loop: "bands_loop (Fin (sr / 2)) (Fin (real (1024::nat))) d frequencyBands
      = Returns [(''sub'', Fin v1), (''bass'', Fin v2), (''low'', Fin v3), (''mid'', Fin v4),
                 (''high'', Fin v5), (''treble'', Fin v6)]"
    unfolding frequencyBands_def bands_loop.simps v1(1) v2(1) v3(1) v4(1) v5(1) v6(1)
    by simp
  have "extractFrequencyBands e d
      = Returns \<lparr>sub = Fin v1, bass = Fin v2, low = Fin v3, mid = Fin v4, high = Fin v5,
                 treble = Fin v6\<rparr>"
    using loop by (simp add: extractFrequencyBands_def assms(1,2) js_length_def band_of_def)
  then show ?thesis
    using v1(2-) v2(2-) v3(2-) v4(2-) v5(2-) v6(2-) by (simp add: in_unit_interval_def)
qed

lemma band_energies_at_44100:
  "audioContext (AudioEngine_new (Some 44100) True) = Some 44100 \<and>
   bufferLength (AudioEngine_new (Some 44100) True) = Some 1024 \<and>
   length (replicate 1024 255 :: 8 word list) = 1024 \<and> (16000::real) \<le> 44100 \<and>
   (44100::real) \<le> 122880 \<and>
   (\<exists>bs. extractFrequencyBands (AudioEngine_new (Some 44100) True) (replicate 1024 255) = Returns bs \<and>
         sub bs = Fin 1 \<and> bass bs = Fin 1 \<and> low bs = Fin 1 \<and> mid bs = Fin 1 \<and>
         high bs = Fin 1 \<and> treble bs = Fin 1)"
proof -
  have h: "audioContext (AudioEngine_new (Some 44100) True) = Some 44100"
    "bufferLength (AudioEngine_new (Some 44100) True) = Some 1024"
    "length (replicate 1024 255 :: 8 word list) = 1024" "(16000::real) \<le> 44100"
    "(44100::real) \<le> 122880"
    by (simp_all add: AudioEngine_new_def initAudioContext_def)
  from band_energies_at_common_rates [OF h]
  show ?thesis using h by auto
qed

section \<open>The particle loops\<close>

lemma for_each_append:
  "for_each body (xs @ ys) s = bind_outcome (for_each body xs s) (for_each body ys)"
proof (induction xs arbitrary: s)
  case Nil
  show ?case by simp
next
  case (Cons x xs)
  show ?case by (cases "body x s") (simp_all add: Cons)
qed

lemma same_controls_refl [simp]: "same_controls s s"
  by (simp add: same_controls_def)

lemma same_lengths_refl [simp]: "same_lengths s s"
  by (simp add: same_lengths_def)

lemma same_controls_store_particle:
  "same_controls s s' \<Longrightarrow> same_controls s (store_particle i r s')"
  by (cases r) (auto simp add: same_controls_def store_particle_def)

lemma same_lengths_store_particle:
  "same_lengths s s' \<Longrightarrow> same_lengths s (store_particle i r s')"
  by (cases r) (simp add: same_lengths_def store_particle_def)

lemma store_particle_arrays [simp]:
  "particlePositions (store_particle i r s) = (particlePositions s)[i := fst r]"
  "particleVelocities (store_particle i r s) = (particleVelocities s)[i := fst (snd r)]"
  "particleColors (store_particle i r s) = (particleColors s)[i := fst (snd (snd r))]"
  "sizes (store_particle i r s) = (sizes s)[i := snd (snd (snd r))]"
  by (cases r; simp add: store_particle_def)+

lemma particle_loop_steps:
  assumes "n \<le> length (particlePositions s)" "n \<le> length (particleVelocities s)"
    "n \<le> length (particleColors s)"
  shows "\<exists>s'. for_each (particle_step K) [0..<n] s = Returns s' \<and>
           same_controls s s' \<and> same_lengths s s' \<and>
           (\<forall>i<n. particlePositions s' ! i = fst (K i (particlePositions s ! i) (particleVelocities s ! i)) \<and>
                  particleVelocities s' ! i = fst (snd (K i (particlePositions s ! i) (particleVelocities s ! i))) \<and>
                  particleColors s' ! i = fst (snd (snd (K i (particlePositions s ! i) (particleVelocities s ! i)))) \<and>
                  (i < length (sizes s) \<longrightarrow>
                     sizes s' ! i = snd (snd (snd (K i (particlePositions s ! i) (particleVelocities s ! i)))))) \<and>
           (\<forall>i\<ge>n. particlePositions s' ! i = particlePositions s ! i \<and>
                  particleVelocities s' ! i = particleVelocities s ! i \<and>
                  particleColors s' ! i = particleColors s ! i \<and>
                  sizes s' ! i = sizes s ! i)"
  using assms
proof (induction n)
  case 0
  show ?case by simp
next
  case (Suc n)
  then obtain s1 where s1: "for_each (particle_step K) [0..<n] s = Returns s1"
    and c1: "same_controls s s1" and l1: "same_lengths s s1"
    and d1: "\<forall>i<n. particlePositions s1 ! i = fst (K i (particlePositions s ! i) (particleVelocities s ! i)) \<and>
                  particleVelocities s1 ! i = fst (snd (K i (particlePositions s ! i) (particleVelocities s ! i))) \<and>
                  particleColors s1 ! i = fst (snd (snd (K i (particlePositions s ! i) (particleVelocities s ! i)))) \<and>
                  (i < length (sizes s) \<longrightarrow>
                     sizes s1 ! i = snd (snd (snd (K i (particlePositions s ! i) (particleVelocities s ! i)))))"
    and u1: "\<forall>i\<ge>n. particlePositions s1 ! i = particlePositions s ! i \<and>
                  particleVelocities s1 ! i = particleVelocities s ! i \<and>
                  particleColors s1 ! i = particleColors s ! i \<and>
                  sizes s1 ! i = sizes s ! i"
    by force
  define r where "r = K n (particlePositions s ! n) (particleVelocities s ! n)"
  define s2 where "s2 = store_particle n r s1"
  have len: "n < length (particlePositions s1)" "n < length (particleVelocities s1)"
    "n < length (particleColors s1)" "length (sizes s1) = length (sizes s)"
    using Suc.prems l1 by (simp_all add: same_lengths_def)
  have step: "particle_step K n s1 = Returns s2"
    using len u1 by (simp add: particle_step_def s2_def r_def)
  have run: "for_each (particle_step K) [0..<Suc n] s = Returns s2"
    by (simp add: for_each_append s1 step)
  have c2: "same_controls s s2" unfolding s2_def using c1 by (rule same_controls_store_particle)
  have l2: "same_lengths s s2" unfolding s2_def using l1 by (rule same_lengths_store_particle)
  have d2: "particlePositions s2 ! i = fst (K i (particlePositions s ! i) (particleVelocities s ! i)) \<and>
            particleVelocities s2 ! i = fst (snd (K i (particlePositions s ! i) (particleVelocities s ! i))) \<and>
            particleColors s2 ! i = fst (snd (snd (K i (particlePositions s ! i) (particleVelocities s ! i)))) \<and>
            (i < length (sizes s) \<longrightarrow>
               sizes s2 ! i = snd (snd (snd (K i (particlePositions s ! i) (particleVelocities s ! i)))))"
    if "i < Suc n" for i
  proof (cases "i = n")
    case True
    then show ?thesis using len by (simp add: s2_def r_def)
  next
    case False
    then have "i < n" using that by simp
    then show ?thesis using d1 False by (simp add: s2_def)
  qed
  have u2: "particlePositions s2 ! i = particlePositions s ! i \<and>
            particleVelocities s2 ! i = particleVelocities s ! i \<and>
            particleColors s2 ! i = particleColors s ! i \<and>
            sizes s2 ! i = sizes s ! i" if "Suc n \<le> i" for i
    using that u1 by (simp add: s2_def)
  show ?case using run c2 l2 d2 u2 by blast
qed


lemma same_controls_fields:
  assumes "same_controls s s'"
  shows "particleCount s' = particleCount s" "currentPalette s' = currentPalette s"
    "pulseEffect s' = pulseEffect s" "pulseIntensity s' = pulseIntensity s"
    "radialSymmetry s' = radialSymmetry s" "symmetrySegments s' = symmetrySegments s"
    "visualMode s' = visualMode s" "isFrozen s' = isFrozen s" "isRunning s' = isRunning s"
    "decayQueued s' = decayQueued s" "time s' = time s" "bassIntensity s' = bassIntensity s"
    "midIntensity s' = midIntensity s"
proof -
  let ?t = "s'\<lparr>particlePositions := particlePositions s, particleVelocities := particleVelocities s,
         particleColors := particleColors s, positions := positions s, colors := colors s,
         sizes := sizes s\<rparr>"
  have eq: "?t = s" using assms by (simp add: same_controls_def)
  have "particleCount ?t = particleCount s" by (simp only: eq)
  then show "particleCount s' = particleCount s" by simp
  have "currentPalette ?t = currentPalette s" by (simp only: eq)
  then show "currentPalette s' = currentPalette s" by simp
  have "pulseEffect ?t = pulseEffect s" by (simp only: eq)
  then show "pulseEffect s' = pulseEffect s" by simp
  have "pulseIntensity ?t = pulseIntensity s" by (simp only: eq)
  then show "pulseIntensity s' = pulseIntensity s" by simp
  have "radialSymmetry ?t = radialSymmetry s" by (simp only: eq)
  then show "radialSymmetry s' = radialSymmetry s" by simp
  have "symmetrySegments ?t = symmetrySegments s" by (simp only: eq)
  then show "symmetrySegments s' = symmetrySegments s" by simp
  have "visualMode ?t = visualMode s" by (simp only: eq)
  then show "visualMode s' = visualMode s" by simp
  have "isFrozen ?t = isFrozen s" by (simp only: eq)
  then show "isFrozen s' = isFrozen s" by simp
  have "isRunning ?t = isRunning s" by (simp only: eq)
  then show "isRunning s' = isRunning s" by simp
  have "decayQueued ?t = decayQueued s" by (simp only: eq)
  then show "decayQueued s' = decayQueued s" by simp
  have "time ?t = time s" by (simp only: eq)
  then show "time s' = time s" by simp
  have "bassIntensity ?t = bassIntensity s" by (simp only: eq)
  then show "bassIntensity s' = bassIntensity s" by simp
  have "midIntensity ?t = midIntensity s" by (simp only: eq)
  then show "midIntensity s' = midIntensity s" by simp
qed

lemma palette_of_valid: "k < 3 \<Longrightarrow> \<exists>palette. palette_of k = Some palette"
proof -
  assume "k < 3"
  then have "k = 0 \<or> k = 1 \<or> k = 2" by auto
  then show ?thesis by (auto simp add: palette_of_def colorPalettes_def Let_def)
qed

lemma length_triples: "length (concat (map (\<lambda>i. [f i, g i, h i]) xs)) = 3 * length xs"
  by (induction xs) simp_all

lemma well_formed_new: "well_formed (Visualizer_new rt)"
  by (simp add: well_formed_def Visualizer_new_def Let_def length_triples)

lemma particle_loop_returns:
  assumes "well_formed s"
  shows "\<exists>palette s'. palette_of (currentPalette s) = Some palette \<and>
           particle_loop K s = Returns s' \<and> same_controls s s' \<and> same_lengths s s' \<and>
           (\<forall>i<particleCount s.
              particlePositions s' ! i = fst (K palette i (particlePositions s ! i) (particleVelocities s ! i)) \<and>
              particleVelocities s' ! i = fst (snd (K palette i (particlePositions s ! i) (particleVelocities s ! i))) \<and>
              particleColors s' ! i = fst (snd (snd (K palette i (particlePositions s ! i) (particleVelocities s ! i)))) \<and>
              sizes s' ! i = snd (snd (snd (K palette i (particlePositions s ! i) (particleVelocities s ! i)))))"
proof -
  from assms obtain palette where p: "palette_of (currentPalette s) = Some palette"
    using palette_of_valid by (auto simp add: well_formed_def)
  have len: "particleCount s \<le> length (particlePositions s)"
    "particleCount s \<le> length (particleVelocities s)"
    "particleCount s \<le> length (particleColors s)" "length (sizes s) = particleCount s"
    using assms by (simp_all add: well_formed_def)
  from particle_loop_steps [OF len(1,2,3), of "K palette"] len(4) p
  show ?thesis by (auto simp add: particle_loop_def)
qed


lemma decayPulse_frame:
  "particleCount (decayPulse s) = particleCount s"
  "particlePositions (decayPulse s) = particlePositions s"
  "particleVelocities (decayPulse s) = particleVelocities s"
  "particleColors (decayPulse s) = particleColors s"
  "positions (decayPulse s) = positions s"
  "colors (decayPulse s) = colors s"
  "sizes (decayPulse s) = sizes s"
  "currentPalette (decayPulse s) = currentPalette s"
  "isFrozen (decayPulse s) = isFrozen s"
  "visualMode (decayPulse s) = visualMode s"
  "radialSymmetry (decayPulse s) = radialSymmetry s"
  "symmetrySegments (decayPulse s) = symmetrySegments s"
  "isRunning (decayPulse s) = isRunning s"
  by (simp_all add: decayPulse_def Let_def)

lemma triggerPulse_frame:
  "particleCount (triggerPulse x s) = particleCount s"
  "particlePositions (triggerPulse x s) = particlePositions s"
  "particleVelocities (triggerPulse x s) = particleVelocities s"
  "particleColors (triggerPulse x s) = particleColors s"
  "positions (triggerPulse x s) = positions s"
  "colors (triggerPulse x s) = colors s"
  "sizes (triggerPulse x s) = sizes s"
  "currentPalette (triggerPulse x s) = currentPalette s"
  "isFrozen (triggerPulse x s) = isFrozen s"
  "visualMode (triggerPulse x s) = visualMode s"
  "radialSymmetry (triggerPulse x s) = radialSymmetry s"
  "symmetrySegments (triggerPulse x s) = symmetrySegments s"
  "isRunning (triggerPulse x s) = isRunning s"
  by (simp_all add: triggerPulse_def decayPulse_frame)

lemma processGestureCommands_frame:
  "particleCount (processGestureCommands c b x s) = particleCount s"
  "particlePositions (processGestureCommands c b x s) = particlePositions s"
  "particleVelocities (processGestureCommands c b x s) = particleVelocities s"
  "particleColors (processGestureCommands c b x s) = particleColors s"
  "positions (processGestureCommands c b x s) = positions s"
  "colors (processGestureCommands c b x s) = colors s"
  "sizes (processGestureCommands c b x s) = sizes s"
  "currentPalette (processGestureCommands c b x s) = colorPalette c"
  "isFrozen (processGestureCommands c b x s) = freeze c"
  "visualMode (processGestureCommands c b x s) = visualMode s"
  "radialSymmetry (processGestureCommands c b x s) = radialSymmetry s"
  "symmetrySegments (processGestureCommands c b x s) = symmetrySegments s"
  "isRunning (processGestureCommands c b x s) = isRunning s"
  by (simp_all add: processGestureCommands_def Let_def triggerPulse_frame)

lemma update_controls_frame:
  "particleCount (update_controls a g s) = particleCount s"
  "particlePositions (update_controls a g s) = particlePositions s"
  "particleVelocities (update_controls a g s) = particleVelocities s"
  "particleColors (update_controls a g s) = particleColors s"
  "positions (update_controls a g s) = positions s"
  "colors (update_controls a g s) = colors s"
  "sizes (update_controls a g s) = sizes s"
  "currentPalette (update_controls a g s) =
     (case g of None \<Rightarrow> currentPalette s | Some c \<Rightarrow> colorPalette c)"
  "isFrozen (update_controls a g s) = frozen_by g s"
  "visualMode (update_controls a g s) = visualMode s"
  "radialSymmetry (update_controls a g s) = radialSymmetry s"
  "symmetrySegments (update_controls a g s) = symmetrySegments s"
  "isRunning (update_controls a g s) = isRunning s"
  by (cases g; simp add: update_controls_def Let_def processGestureCommands_frame frozen_by_def)+

lemma well_formed_update_controls:
  "well_formed s \<Longrightarrow> valid_commands g \<Longrightarrow> well_formed (update_controls a g s)"
  by (cases g) (simp_all add: well_formed_def update_controls_frame valid_commands_def)


section \<open>A particle at the origin\<close>

lemma updateParticles_body_origin:
  "fst (updateParticles_body rt fd avg b x s pal i (Vector3 (Fin 0) (Fin 0) (Fin 0)) vel)
     = Vector3 NaN NaN NaN"
  "fst (snd (updateParticles_body rt fd avg b x s pal i (Vector3 (Fin 0) (Fin 0) (Fin 0)) vel))
     = Vector3 NaN NaN NaN"
  by (simp_all add: updateParticles_body_def Let_def multiplyScalar_def)

text \<open>
  C1 at a failing input.  The default rule \<open>updateParticles\<close> (which is also the first
  half of the neural rule) divides the position by the distance itself, not by
  \<open>Math.max(distance, 1)\<close> as the cosmic and the pulse rule do.  For a particle at the
  origin the direction is \<open>0 / 0\<close>: after one frame in neural mode the particle's
  position and velocity are NaN in all three components, for every runtime and every
  audio frame.
\<close>

theorem neural_particle_at_origin:
  "\<exists>s'. update rt (Some a) None
           ((Visualizer_new rt)\<lparr>isRunning := True, visualMode := ''neural'',
              particlePositions :=
                (particlePositions (Visualizer_new rt))[0 := Vector3 (Fin 0) (Fin 0) (Fin 0)]\<rparr>)
         = Returns s' \<and>
        particlePositions s' ! 0 = Vector3 NaN NaN NaN \<and>
        particleVelocities s' ! 0 = Vector3 NaN NaN NaN"
proof -
  define s0 where "s0 = (Visualizer_new rt)\<lparr>isRunning := True, visualMode := ''neural'',
              particlePositions :=
                (particlePositions (Visualizer_new rt))[0 := Vector3 (Fin 0) (Fin 0) (Fin 0)]\<rparr>"
  define s5 where "s5 = update_controls a None s0"
  have wf0: "well_formed s0"
    using well_formed_new [of rt] by (simp add: s0_def well_formed_def)
  have f0: "isRunning s0" "visualMode s0 = ''neural''" "\<not> isFrozen s0" "\<not> radialSymmetry s0"
    "particleCount s0 = 2000" "particlePositions s0 ! 0 = Vector3 (Fin 0) (Fin 0) (Fin 0)"
    by (simp_all add: s0_def Visualizer_new_def Let_def)
  have wf5: "well_formed s5"
    unfolding s5_def using wf0 by (rule well_formed_update_controls) (simp add: valid_commands_def)
  have f5: "visualMode s5 = ''neural''" "\<not> isFrozen s5" "\<not> radialSymmetry s5"
    "particleCount s5 = 2000" "particlePositions s5 ! 0 = Vector3 (Fin 0) (Fin 0) (Fin 0)"
    using f0 by (simp_all add: s5_def update_controls_frame frozen_by_def)
  let ?K = "updateParticles_body rt (frequencyData a) (average a) (beat a) (beatIntensity a) s5"
  from particle_loop_returns [OF wf5, of ?K] obtain palette s1 where
    s1: "particle_loop ?K s5 = Returns s1" "same_controls s5 s1"
      "\<forall>i<particleCount s5.
         particlePositions s1 ! i = fst (?K palette i (particlePositions s5 ! i) (particleVelocities s5 ! i)) \<and>
         particleVelocities s1 ! i = fst (snd (?K palette i (particlePositions s5 ! i) (particleVelocities s5 ! i)))"
    by blast
  have p0: "particlePositions s1 ! 0 = Vector3 NaN NaN NaN"
    and v0: "particleVelocities s1 ! 0 = Vector3 NaN NaN NaN"
    using s1(3) f5(4,5) by (simp_all add: updateParticles_body_origin)
  define s6 where "s6 = s1\<lparr>particleConnections :=
      connections (positions s1) (Fin 60 + midIntensity s1 * Fin 30) (particleCount s1)\<rparr>"
  have n: "updateParticlesNeural rt (frequencyData a) (average a) (beat a) (beatIntensity a) s5
             = Returns s6"
    by (simp add: updateParticlesNeural_def updateParticles_def s1(1) s6_def)
  have r6: "\<not> radialSymmetry s6"
    using same_controls_fields(5) [OF s1(2)] f5(3) by (simp add: s6_def)
  have "update rt (Some a) None s0 = Returns s6"
    using f0(1) f5(1,2) n r6 by (simp add: update_def Let_def s5_def [symmetric])
  moreover have "particlePositions s6 ! 0 = Vector3 NaN NaN NaN"
    "particleVelocities s6 ! 0 = Vector3 NaN NaN NaN"
    using p0 v0 by (simp_all add: s6_def)
  ultimately show ?thesis unfolding s0_def by blast
qed


text \<open>
  The cosmic, the pulse and the chaos rule keep a finite particle finite, wherever it is
  (the origin included): the first two divide by \<open>Math.max(distance, 1)\<close>, the third
  divides by the distance only where it exceeds 200.
\<close>

lemma isFinite_iff: "isFinite x \<longleftrightarrow> (\<exists>r. x = Fin r)"
  by (cases x) (simp_all add: isFinite_def)

lemma finite_vec_iff: "finite_vec v \<longleftrightarrow> (\<exists>a b c. v = Vector3 (Fin a) (Fin b) (Fin c))"
  by (cases v) (auto simp add: finite_vec_def isFinite_iff)

lemma max_one_nonzero: "max (d::real) 1 \<noteq> 0"
  by (simp add: max_def)

lemma Math_sqrt_squares:
  "Math_sqrt (Fin (x * x + z * z)) = Fin (sqrt (x * x + z * z))"
  "Math_sqrt (Fin (x * x + y * y + z * z)) = Fin (sqrt (x * x + y * y + z * z))"
proof -
  have "\<not> x * x + z * z < 0" by (simp add: not_less)
  then show "Math_sqrt (Fin (x * x + z * z)) = Fin (sqrt (x * x + z * z))" by simp
  have "\<not> x * x + y * y + z * z < 0" by (simp add: not_less)
  then show "Math_sqrt (Fin (x * x + y * y + z * z)) = Fin (sqrt (x * x + y * y + z * z))" by simp
qed

lemma Fin_divide_far: "200 < b \<Longrightarrow> Fin a / Fin b = Fin (a / b)"
  by simp

lemma guarded_rules_stay_finite:
  assumes "finite_vec pos" and "finite_vec vel" and "i < particleCount s"
    and "isFinite (freqValue_of s fd i)" and "isFinite intensity"
    and "isFinite (time s)" and "isFinite (bassIntensity s)" and "isFinite (pulseIntensity s)"
    and "isFinite (spiralAngle s)" and "isFinite (spiralTightness s)"
    and "isFinite (Math_random rt (3 * i))" and "isFinite (Math_random rt (3 * i + 1))"
    and "isFinite (Math_random rt (3 * i + 2))"
  shows "finite_vec (fst (updateParticlesCosmic_body rt fd avg onBeat intensity s palette i pos vel)) \<and>
         finite_vec (fst (snd (updateParticlesCosmic_body rt fd avg onBeat intensity s palette i pos vel))) \<and>
         finite_vec (fst (updateParticlesPulse_body rt fd avg onBeat intensity s palette i pos vel)) \<and>
         finite_vec (fst (snd (updateParticlesPulse_body rt fd avg onBeat intensity s palette i pos vel))) \<and>
         finite_vec (fst (updateParticlesChaos_body rt fd avg onBeat intensity s palette i pos vel)) \<and>
         finite_vec (fst (snd (updateParticlesChaos_body rt fd avg onBeat intensity s palette i pos vel)))"
proof -
  obtain px py pz where pos: "pos = Vector3 (Fin px) (Fin py) (Fin pz)"
    using assms(1) finite_vec_iff by blast
  obtain wx wy wz where vel: "vel = Vector3 (Fin wx) (Fin wy) (Fin wz)"
    using assms(2) finite_vec_iff by blast
  obtain fv where fv: "freqValue_of s fd i = Fin fv" using assms(4) isFinite_iff by blast
  obtain q where q: "intensity = Fin q" using assms(5) isFinite_iff by blast
  obtain t where t: "time s = Fin t" using assms(6) isFinite_iff by blast
  obtain g where g: "bassIntensity s = Fin g" using assms(7) isFinite_iff by blast
  obtain u where u: "pulseIntensity s = Fin u" using assms(8) isFinite_iff by blast
  obtain sa where sa: "spiralAngle s = Fin sa" using assms(9) isFinite_iff by blast
  obtain st where st: "spiralTightness s = Fin st" using assms(10) isFinite_iff by blast
  obtain r0 r1 r2 where r: "Math_random rt (3 * i) = Fin r0" "Math_random rt (3 * i + 1) = Fin r1"
    "Math_random rt (3 * i + 2) = Fin r2"
    using assms(11,12,13) isFinite_iff by blast
  have r': "Math_random rt (Suc (3 * i)) = Fin r1" "Math_random rt (Suc (Suc (3 * i))) = Fin r2"
    using r by simp_all
  have n: "real (particleCount s) \<noteq> 0" using assms(3) by simp
  have cosmic: "finite_vec (fst (updateParticlesCosmic_body rt fd avg onBeat intensity s palette i pos vel))"
    "finite_vec (fst (snd (updateParticlesCosmic_body rt fd avg onBeat intensity s palette i pos vel)))"
    by (simp_all add: updateParticlesCosmic_body_def Let_def pos vel fv q g u sa st
        multiplyScalar_def finite_vec_def isFinite_def max_one_nonzero Math_sqrt_squares
        del: Math_max.simps Math_sqrt.simps)
  have pulse: "finite_vec (fst (updateParticlesPulse_body rt fd avg onBeat intensity s palette i pos vel))"
    "finite_vec (fst (snd (updateParticlesPulse_body rt fd avg onBeat intensity s palette i pos vel)))"
    using n
    by (simp_all add: updateParticlesPulse_body_def Let_def pos vel fv q g t Math_PI_def
        multiplyScalar_def finite_vec_def isFinite_def max_one_nonzero Math_sqrt_squares
        del: Math_max.simps Math_sqrt.simps)
  have chaos: "finite_vec (fst (updateParticlesChaos_body rt fd avg onBeat intensity s palette i pos vel))"
    "finite_vec (fst (snd (updateParticlesChaos_body rt fd avg onBeat intensity s palette i pos vel)))"
    by (simp_all add: updateParticlesChaos_body_def Let_def pos vel fv q t r r'
        multiplyScalar_def finite_vec_def isFinite_def uminus_jsnum_def Math_sqrt_squares
        Fin_divide_far del: Math_sqrt.simps)
  show ?thesis using cosmic pulse chaos by blast
qed


lemma guarded_rules_at_origin:
  "finite_vec (fst (updateParticlesCosmic_body still_runtime (replicate 1024 255) (Fin 1) True (Fin 1)
      (Visualizer_new still_runtime) palette 0 (Vector3 (Fin 0) (Fin 0) (Fin 0)) (Vector3 (Fin 0) (Fin 0) (Fin 0)))) \<and>
   finite_vec (fst (snd (updateParticlesCosmic_body still_runtime (replicate 1024 255) (Fin 1) True (Fin 1)
      (Visualizer_new still_runtime) palette 0 (Vector3 (Fin 0) (Fin 0) (Fin 0)) (Vector3 (Fin 0) (Fin 0) (Fin 0))))) \<and>
   finite_vec (fst (updateParticlesPulse_body still_runtime (replicate 1024 255) (Fin 1) True (Fin 1)
      (Visualizer_new still_runtime) palette 0 (Vector3 (Fin 0) (Fin 0) (Fin 0)) (Vector3 (Fin 0) (Fin 0) (Fin 0)))) \<and>
   finite_vec (fst (snd (updateParticlesPulse_body still_runtime (replicate 1024 255) (Fin 1) True (Fin 1)
      (Visualizer_new still_runtime) palette 0 (Vector3 (Fin 0) (Fin 0) (Fin 0)) (Vector3 (Fin 0) (Fin 0) (Fin 0))))) \<and>
   finite_vec (fst (updateParticlesChaos_body still_runtime (replicate 1024 255) (Fin 1) True (Fin 1)
      (Visualizer_new still_runtime) palette 0 (Vector3 (Fin 0) (Fin 0) (Fin 0)) (Vector3 (Fin 0) (Fin 0) (Fin 0)))) \<and>
   finite_vec (fst (snd (updateParticlesChaos_body still_runtime (replicate 1024 255) (Fin 1) True (Fin 1)
      (Visualizer_new still_runtime) palette 0 (Vector3 (Fin 0) (Fin 0) (Fin 0)) (Vector3 (Fin 0) (Fin 0) (Fin 0)))))"
proof -
  have v: "finite_vec (Vector3 (Fin 0) (Fin 0) (Fin 0))" by (simp add: finite_vec_def isFinite_def)
  have s: "0 < particleCount (Visualizer_new still_runtime)"
    "isFinite (time (Visualizer_new still_runtime))"
    "isFinite (bassIntensity (Visualizer_new still_runtime))"
    "isFinite (pulseIntensity (Visualizer_new still_runtime))"
    "isFinite (spiralAngle (Visualizer_new still_runtime))"
    "isFinite (spiralTightness (Visualizer_new still_runtime))"
    by (simp_all add: Visualizer_new_def Let_def isFinite_def)
  have f: "isFinite (freqValue_of (Visualizer_new still_runtime) (replicate 1024 255) 0)"
    by (simp add: freqValue_of_def freqIndex_of_def element_at_def byte_at_def isFinite_def
        Visualizer_new_def Let_def)
  have q: "isFinite (Fin 1)" by (simp add: isFinite_def)
  have r: "isFinite (Math_random still_runtime (3 * 0))" "isFinite (Math_random still_runtime (3 * 0 + 1))"
    "isFinite (Math_random still_runtime (3 * 0 + 2))"
    by (simp_all add: still_runtime_def isFinite_def)
  show ?thesis by (rule guarded_rules_stay_finite [OF v v s(1) f q s(2-) r])
qed

section \<open>The frozen field\<close>

lemma store_color_arrays [simp]:
  "particlePositions (store_color i r s) = particlePositions s"
  "particleVelocities (store_color i r s) = particleVelocities s"
  "positions (store_color i r s) = positions s"
  "particleColors (store_color i r s) = (particleColors s)[i := fst r]"
  "sizes (store_color i r s) = (sizes s)[i := snd r]"
  by (cases r; simp add: store_color_def)+

lemma same_controls_store_color:
  "same_controls s s' \<Longrightarrow> same_controls s (store_color i r s')"
  by (cases r) (auto simp add: same_controls_def store_color_def)

lemma same_lengths_store_color:
  "same_lengths s s' \<Longrightarrow> same_lengths s (store_color i r s')"
  by (cases r) (simp add: same_lengths_def store_color_def)

lemma color_loop_steps:
  assumes "n \<le> length (particleColors s)"
  shows "\<exists>s'. for_each (color_step K) [0..<n] s = Returns s' \<and>
           same_controls s s' \<and> same_lengths s s' \<and>
           particlePositions s' = particlePositions s \<and>
           particleVelocities s' = particleVelocities s \<and>
           positions s' = positions s \<and>
           (\<forall>i<n. particleColors s' ! i = fst (K i) \<and>
                  (i < length (sizes s) \<longrightarrow> sizes s' ! i = snd (K i))) \<and>
           (\<forall>i\<ge>n. particleColors s' ! i = particleColors s ! i \<and> sizes s' ! i = sizes s ! i)"
  using assms
proof (induction n)
  case 0
  show ?case by simp
next
  case (Suc n)
  then obtain s1 where s1: "for_each (color_step K) [0..<n] s = Returns s1"
    and c1: "same_controls s s1" and l1: "same_lengths s s1"
    and a1: "particlePositions s1 = particlePositions s"
      "particleVelocities s1 = particleVelocities s" "positions s1 = positions s"
    and d1: "\<forall>i<n. particleColors s1 ! i = fst (K i) \<and>
                  (i < length (sizes s) \<longrightarrow> sizes s1 ! i = snd (K i))"
    and u1: "\<forall>i\<ge>n. particleColors s1 ! i = particleColors s ! i \<and> sizes s1 ! i = sizes s ! i"
    by force
  define s2 where "s2 = store_color n (K n) s1"
  have len: "n < length (particleColors s1)" "length (sizes s1) = length (sizes s)"
    using Suc.prems l1 by (simp_all add: same_lengths_def)
  have step: "color_step K n s1 = Returns s2"
    using len by (simp add: color_step_def s2_def)
  have run: "for_each (color_step K) [0..<Suc n] s = Returns s2"
    by (simp add: for_each_append s1 step)
  have c2: "same_controls s s2" unfolding s2_def using c1 by (rule same_controls_store_color)
  have l2: "same_lengths s s2" unfolding s2_def using l1 by (rule same_lengths_store_color)
  have a2: "particlePositions s2 = particlePositions s"
    "particleVelocities s2 = particleVelocities s" "positions s2 = positions s"
    using a1 by (simp_all add: s2_def)
  have d2: "particleColors s2 ! i = fst (K i) \<and>
            (i < length (sizes s) \<longrightarrow> sizes s2 ! i = snd (K i))" if "i < Suc n" for i
  proof (cases "i = n")
    case True
    then show ?thesis using len by (simp add: s2_def)
  next
    case False
    then have "i < n" using that by simp
    then show ?thesis using d1 False by (simp add: s2_def)
  qed
  have u2: "particleColors s2 ! i = particleColors s ! i \<and> sizes s2 ! i = sizes s ! i"
    if "Suc n \<le> i" for i
    using that u1 by (simp add: s2_def)
  show ?case using run c2 l2 a2 d2 u2 by blast
qed

text \<open>The colour attribute after the loop of \<open>updateParticleColors\<close>.\<close>

lemma store_color_attribute:
  "colors (store_color i r s)
     = (colors s)[3 * i := cr (fst r), 3 * i + 1 := cg (fst r), 3 * i + 2 := cb (fst r)]"
  by (cases r) (simp add: store_color_def)

lemma color_loop_attribute:
  assumes "n \<le> length (particleColors s)" and "3 * n \<le> length (colors s)"
  shows "\<exists>s'. for_each (color_step K) [0..<n] s = Returns s' \<and>
           length (colors s') = length (colors s) \<and>
           (\<forall>i<n. colors s' ! (3 * i) = cr (fst (K i)) \<and>
                  colors s' ! (3 * i + 1) = cg (fst (K i)) \<and>
                  colors s' ! (3 * i + 2) = cb (fst (K i)))"
  using assms
proof (induction n)
  case 0
  show ?case by simp
next
  case (Suc n)
  then obtain s1 where s1: "for_each (color_step K) [0..<n] s = Returns s1"
    and l1: "length (colors s1) = length (colors s)"
    and d1: "\<forall>i<n. colors s1 ! (3 * i) = cr (fst (K i)) \<and>
                  colors s1 ! (3 * i + 1) = cg (fst (K i)) \<and>
                  colors s1 ! (3 * i + 2) = cb (fst (K i))"
    by force
  have "n \<le> length (particleColors s)" using Suc.prems by simp
  from color_loop_steps [OF this, of K] s1 have "same_lengths s s1" by auto
  then have len: "n < length (particleColors s1)"
    using Suc.prems by (simp add: same_lengths_def)
  define s2 where "s2 = store_color n (K n) s1"
  have step: "color_step K n s1 = Returns s2"
    using len by (simp add: color_step_def s2_def)
  have run: "for_each (color_step K) [0..<Suc n] s = Returns s2"
    by (simp add: for_each_append s1 step)
  have l2: "length (colors s2) = length (colors s)"
    using l1 by (simp add: s2_def store_color_attribute)
  have n3: "3 * n + 2 < length (colors s1)" using Suc.prems l1 by simp
  have d2: "colors s2 ! (3 * i) = cr (fst (K i)) \<and>
            colors s2 ! (3 * i + 1) = cg (fst (K i)) \<and>
            colors s2 ! (3 * i + 2) = cb (fst (K i))" if "i < Suc n" for i
  proof (cases "i = n")
    case True
    then show ?thesis using n3 by (simp add: s2_def store_color_attribute)
  next
    case False
    then have "i < n" using that by simp
    then show ?thesis using d1 by (simp add: s2_def store_color_attribute)
  qed
  show ?case using run l2 d2 by blast
qed

lemma updateParticleColors_returns:
  assumes "well_formed s"
  shows "\<exists>palette s'. palette_of (currentPalette s) = Some palette \<and>
           updateParticleColors rt fd avg s = Returns s' \<and>
           same_controls s s' \<and> same_lengths s s' \<and>
           particlePositions s' = particlePositions s \<and>
           particleVelocities s' = particleVelocities s \<and>
           positions s' = positions s \<and>
           (\<forall>i<particleCount s.
              particleColors s' ! i = fst (updateParticleColors_body rt fd avg s palette i) \<and>
              sizes s' ! i = snd (updateParticleColors_body rt fd avg s palette i))"
proof -
  from assms obtain palette where p: "palette_of (currentPalette s) = Some palette"
    using palette_of_valid by (auto simp add: well_formed_def)
  have len: "particleCount s \<le> length (particleColors s)" "length (sizes s) = particleCount s"
    using assms by (simp_all add: well_formed_def)
  from color_loop_steps [OF len(1), of "updateParticleColors_body rt fd avg s palette"] len(2) p
  show ?thesis by (auto simp add: updateParticleColors_def)
qed

text \<open>
  The sample a particle reads, the colour attribute, and the pulse that the frame's
  gesture commands leave behind.
\<close>

lemma element_sample:
  assumes "0 \<le> k"
  shows "element_at fd (Fin (of_int k)) / Fin 255 = bin_sample fd (nat k)"
  using assms by (simp add: element_at_def byte_at_def bin_sample_def)

lemma floor_sample:
  assumes "0 \<le> x"
  shows "element_at fd (Math_floor (Fin x)) / Fin 255 = bin_sample fd (nat \<lfloor>x\<rfloor>)"
  using assms by (simp add: element_at_def byte_at_def bin_sample_def)

lemma freqValue_of_sample:
  assumes "i < particleCount s"
  shows "freqValue_of s fd i = bin_sample fd (particle_bin (particleCount s) (length fd) i)"
proof -
  have n: "real (particleCount s) \<noteq> 0" using assms by simp
  have x: "0 \<le> real i / real (particleCount s) * real (length fd)" by simp
  show ?thesis
    unfolding freqValue_of_def freqIndex_of_def particle_bin_def
    using n floor_sample [OF x, of fd] by simp
qed

lemma updateParticleColors_attribute:
  assumes "well_formed s"
    and "updateParticleColors rt fd avg s = Returns s'"
    and "palette_of (currentPalette s) = Some palette"
    and "i < particleCount s"
  shows "colors s' ! (3 * i) = cr (fst (updateParticleColors_body rt fd avg s palette i))"
    "colors s' ! (3 * i + 1) = cg (fst (updateParticleColors_body rt fd avg s palette i))"
    "colors s' ! (3 * i + 2) = cb (fst (updateParticleColors_body rt fd avg s palette i))"
proof -
  have len: "particleCount s \<le> length (particleColors s)" "3 * particleCount s \<le> length (colors s)"
    using assms(1) by (simp_all add: well_formed_def)
  from color_loop_attribute [OF len, of "updateParticleColors_body rt fd avg s palette"] assms(2,3)
  have d: "\<forall>i<particleCount s.
             colors s' ! (3 * i) = cr (fst (updateParticleColors_body rt fd avg s palette i)) \<and>
             colors s' ! (3 * i + 1) = cg (fst (updateParticleColors_body rt fd avg s palette i)) \<and>
             colors s' ! (3 * i + 2) = cb (fst (updateParticleColors_body rt fd avg s palette i))"
    by (auto simp add: updateParticleColors_def)
  show "colors s' ! (3 * i) = cr (fst (updateParticleColors_body rt fd avg s palette i))"
    "colors s' ! (3 * i + 1) = cg (fst (updateParticleColors_body rt fd avg s palette i))"
    "colors s' ! (3 * i + 2) = cb (fst (updateParticleColors_body rt fd avg s palette i))"
    using d assms(4) by simp_all
qed

lemma update_controls_pulse:
  "(if pulseEffect (update_controls a g s) then pulseIntensity (update_controls a g s) * Fin 2 else Fin 0)
     = (if (case g of None \<Rightarrow> False | Some commands \<Rightarrow> pulse commands) \<and> \<not> pulseEffect s
        then (if (beatIntensity a + Fin 1.5) * Fin 0.85 > Fin 0.1
              then (beatIntensity a + Fin 1.5) * Fin 0.85 * Fin 2 else Fin 0)
        else (if pulseEffect s then pulseIntensity s * Fin 2 else Fin 0))"
  by (cases g)
    (simp_all add: update_controls_def processGestureCommands_def triggerPulse_def decayPulse_def Let_def)

lemma updateParticleColors_body_sample:
  assumes "i < particleCount s"
  shows "updateParticleColors_body rt fd avg s palette i =
     (let freqValue = bin_sample fd (particle_bin (particleCount s) (length fd) i)
      in (setHSL rt (hueBase palette + freqValue * hueRange palette - avg * Fin 0.2)
            (saturation palette + freqValue * Fin 0.1) (Fin 0.4 + freqValue * Fin 0.4),
          Fin 1 + freqValue * Fin 3 + (if pulseEffect s then pulseIntensity s * Fin 2 else Fin 0)))"
  by (simp add: updateParticleColors_body_def Let_def freqValue_of_sample [OF assms])

text \<open>
  C5.  A frame that runs frozen (on a well-formed, running visualizer, in whatever visual
  mode) returns, and leaves every particle's position and velocity as they were; the
  \<open>positions\<close> attribute is not written by the frame either, except by the
  kaleidoscope pass when radial symmetry is switched on.  Colour and size of every
  particle are computed anew from the frame's features and the palette: with
  \<open>freqValue\<close> the sample of the particle's bin \<open>\<lfloor>i / N * binCount\<rfloor>\<close> and the
  palette the one the gesture commands name (the current one without commands), the
  colour is \<open>setHSL(hueBase + freqValue * hueRange - average * 0.2,
  saturation + freqValue * 0.1, 0.4 + freqValue * 0.4)\<close>, the size is
  \<open>1 + freqValue * 3\<close> plus twice the intensity of a running pulse (when none is
  running, a pulse command of this frame starts one at \<open>(beatIntensity + 1.5) * 0.85\<close>
  first), and the particle's three elements of the \<open>colors\<close> attribute are the
  components of that colour.
\<close>

theorem update_frozen:
  assumes "well_formed s" and "isRunning s" and "frozen_by gestureCommands s"
    and "valid_commands gestureCommands"
  shows "\<exists>palette s'. update rt (Some a) gestureCommands s = Returns s' \<and>
           particlePositions s' = particlePositions s \<and>
           particleVelocities s' = particleVelocities s \<and>
           positions s' =
             (if radialSymmetry s then positions (applyRadialSymmetry rt s) else positions s) \<and>
           palette_of (case gestureCommands of None \<Rightarrow> currentPalette s
                       | Some commands \<Rightarrow> colorPalette commands) = Some palette \<and>
           (\<forall>i<particleCount s.
              (let freqValue = bin_sample (frequencyData a)
                                 (particle_bin (particleCount s) (length (frequencyData a)) i);
                   hue = hueBase palette + freqValue * hueRange palette - average a * Fin 0.2;
                   sat = saturation palette + freqValue * Fin 0.1;
                   lightness = Fin 0.4 + freqValue * Fin 0.4;
                   pulseSize =
                     (if (case gestureCommands of None \<Rightarrow> False | Some commands \<Rightarrow> pulse commands)
                         \<and> \<not> pulseEffect s
                      then (if (beatIntensity a + Fin 1.5) * Fin 0.85 > Fin 0.1
                            then (beatIntensity a + Fin 1.5) * Fin 0.85 * Fin 2 else Fin 0)
                      else (if pulseEffect s then pulseIntensity s * Fin 2 else Fin 0))
               in particleColors s' ! i = setHSL rt hue sat lightness \<and>
                  sizes s' ! i = Fin 1 + freqValue * Fin 3 + pulseSize \<and>
                  colors s' ! (3 * i) = cr (setHSL rt hue sat lightness) \<and>
                  colors s' ! (3 * i + 1) = cg (setHSL rt hue sat lightness) \<and>
                  colors s' ! (3 * i + 2) = cb (setHSL rt hue sat lightness)))"
proof -
  define s5 where "s5 = update_controls a gestureCommands s"
  have wf5: "well_formed s5"
    unfolding s5_def using assms(1,4) by (rule well_formed_update_controls)
  have f5: "isFrozen s5" "particleCount s5 = particleCount s"
    "particlePositions s5 = particlePositions s" "particleVelocities s5 = particleVelocities s"
    "positions s5 = positions s" "radialSymmetry s5 = radialSymmetry s"
    "symmetrySegments s5 = symmetrySegments s"
    using assms(3) by (simp_all add: s5_def update_controls_frame)
  have p5: "currentPalette s5 = (case gestureCommands of None \<Rightarrow> currentPalette s
                                 | Some commands \<Rightarrow> colorPalette commands)"
    by (simp add: s5_def update_controls_frame)
  from updateParticleColors_returns [OF wf5, of rt "frequencyData a" "average a"]
  obtain palette s6 where
    p: "palette_of (currentPalette s5) = Some palette"
    and r: "updateParticleColors rt (frequencyData a) (average a) s5 = Returns s6"
    and c: "same_controls s5 s6"
    and k: "particlePositions s6 = particlePositions s5" "particleVelocities s6 = particleVelocities s5"
      "positions s6 = positions s5"
    and d: "\<forall>i<particleCount s5.
              particleColors s6 ! i = fst (updateParticleColors_body rt (frequencyData a) (average a) s5 palette i) \<and>
              sizes s6 ! i = snd (updateParticleColors_body rt (frequencyData a) (average a) s5 palette i)"
    by blast
  define s7 where "s7 = (if radialSymmetry s6 then applyRadialSymmetry rt s6 else s6)"
  have run: "update rt (Some a) gestureCommands s = Returns s7"
    using assms(2) f5(1) r by (simp add: update_def Let_def s5_def [symmetric] s7_def)
  have a7: "particlePositions s7 = particlePositions s" "particleVelocities s7 = particleVelocities s"
    "particleColors s7 = particleColors s6" "sizes s7 = sizes s6" "colors s7 = colors s6"
    using k f5 by (simp_all add: s7_def applyRadialSymmetry_def)
  have b7: "positions s7 =
             (if radialSymmetry s then positions (applyRadialSymmetry rt s) else positions s)"
    using k f5 same_controls_fields(1,5,6) [OF c] by (simp add: s7_def applyRadialSymmetry_def)
  have p7: "palette_of (case gestureCommands of None \<Rightarrow> currentPalette s
                        | Some commands \<Rightarrow> colorPalette commands) = Some palette"
    using p p5 by simp
  have d7: "let freqValue = bin_sample (frequencyData a)
                                 (particle_bin (particleCount s) (length (frequencyData a)) i);
                   hue = hueBase palette + freqValue * hueRange palette - average a * Fin 0.2;
                   sat = saturation palette + freqValue * Fin 0.1;
                   lightness = Fin 0.4 + freqValue * Fin 0.4;
                   pulseSize =
                     (if (case gestureCommands of None \<Rightarrow> False | Some commands \<Rightarrow> pulse commands)
                         \<and> \<not> pulseEffect s
                      then (if (beatIntensity a + Fin 1.5) * Fin 0.85 > Fin 0.1
                            then (beatIntensity a + Fin 1.5) * Fin 0.85 * Fin 2 else Fin 0)
                      else (if pulseEffect s then pulseIntensity s * Fin 2 else Fin 0))
               in particleColors s7 ! i = setHSL rt hue sat lightness \<and>
                  sizes s7 ! i = Fin 1 + freqValue * Fin 3 + pulseSize \<and>
                  colors s7 ! (3 * i) = cr (setHSL rt hue sat lightness) \<and>
                  colors s7 ! (3 * i + 1) = cg (setHSL rt hue sat lightness) \<and>
                  colors s7 ! (3 * i + 2) = cb (setHSL rt hue sat lightness)"
    if i: "i < particleCount s" for i
  proof -
    have i5: "i < particleCount s5" using i f5(2) by simp
    note body = updateParticleColors_body_sample [OF i5, of rt "frequencyData a" "average a" palette]
    note att = updateParticleColors_attribute [OF wf5 r p i5]
    have cs: "particleColors s6 ! i = fst (updateParticleColors_body rt (frequencyData a) (average a) s5 palette i)"
      "sizes s6 ! i = snd (updateParticleColors_body rt (frequencyData a) (average a) s5 palette i)"
      using d i5 by simp_all
    have pu: "(if pulseEffect s5 then pulseIntensity s5 * Fin 2 else Fin 0)
       = (if (case gestureCommands of None \<Rightarrow> False | Some commands \<Rightarrow> pulse commands) \<and> \<not> pulseEffect s
        then (if (beatIntensity a + Fin 1.5) * Fin 0.85 > Fin 0.1
              then (beatIntensity a + Fin 1.5) * Fin 0.85 * Fin 2 else Fin 0)
        else (if pulseEffect s then pulseIntensity s * Fin 2 else Fin 0))"
      unfolding s5_def by (rule update_controls_pulse)
    show ?thesis
      unfolding a7 cs att body pu f5(2) by (simp add: Let_def)
  qed
  show ?thesis using run a7(1,2) b7 p7 d7 by blast
qed


section \<open>The minimal rule\<close>

lemma store_minimal_arrays [simp]:
  "particlePositions (store_minimal i r s) = (particlePositions s)[i := fst r]"
  "particleVelocities (store_minimal i r s) = particleVelocities s"
  "particleColors (store_minimal i r s) = (particleColors s)[i := fst (snd r)]"
  "sizes (store_minimal i r s) = (sizes s)[i := snd (snd r)]"
  "positions (store_minimal i r s) =
     (positions s)[3 * i := vx (fst r), 3 * i + 1 := vy (fst r), 3 * i + 2 := vz (fst r)]"
  "colors (store_minimal i r s) =
     (colors s)[3 * i := cr (fst (snd r)), 3 * i + 1 := cg (fst (snd r)), 3 * i + 2 := cb (fst (snd r))]"
  by (cases r; simp add: store_minimal_def)+

lemma same_controls_store_minimal:
  "same_controls s s' \<Longrightarrow> same_controls s (store_minimal i r s')"
  by (cases r) (auto simp add: same_controls_def store_minimal_def)

lemma same_lengths_store_minimal:
  "same_lengths s s' \<Longrightarrow> same_lengths s (store_minimal i r s')"
  by (cases r) (simp add: same_lengths_def store_minimal_def)

lemma minimal_written_start: "minimal_written C ppb 0 s s"
  by (simp add: minimal_written_def)

lemma minimal_inner:
  assumes "minimal_written C ppb (b * ppb) s s1" and "q \<le> ppb"
    and "b * ppb + q \<le> length (particlePositions s)"
    and "b * ppb + q \<le> length (particleColors s)"
  shows "\<exists>s2. for_each (minimal_step C ppb b) [0..<q] s1 = Returns s2 \<and>
              minimal_written C ppb (b * ppb + q) s s2"
  using assms(2,3,4)
proof (induction q)
  case 0
  show ?case using assms(1) by simp
next
  case (Suc q)
  then obtain s2 where s2: "for_each (minimal_step C ppb b) [0..<q] s1 = Returns s2"
    and w2: "minimal_written C ppb (b * ppb + q) s s2"
    by force
  let ?i = "b * ppb + q"
  define r where "r = C b q (particlePositions s ! ?i)"
  define s3 where "s3 = store_minimal ?i r s2"
  have c2: "same_controls s s2" and l2: "same_lengths s s2"
    and v2: "particleVelocities s2 = particleVelocities s"
    and d2: "\<forall>i<?i. particlePositions s2 ! i = fst (C (i div ppb) (i mod ppb) (particlePositions s ! i)) \<and>
             particleColors s2 ! i = fst (snd (C (i div ppb) (i mod ppb) (particlePositions s ! i))) \<and>
             (i < length (sizes s) \<longrightarrow>
                sizes s2 ! i = snd (snd (C (i div ppb) (i mod ppb) (particlePositions s ! i))))"
    and u2: "\<forall>i\<ge>?i. particlePositions s2 ! i = particlePositions s ! i \<and>
             particleColors s2 ! i = particleColors s ! i \<and>
             sizes s2 ! i = sizes s ! i"
    and b2: "\<forall>j\<ge>3 * ?i. positions s2 ! j = positions s ! j \<and> colors s2 ! j = colors s ! j"
    using w2 unfolding minimal_written_def by blast+
  have len: "?i < length (particlePositions s2)" "?i < length (particleColors s2)"
    "length (sizes s2) = length (sizes s)"
    using Suc.prems l2 by (simp_all add: same_lengths_def)
  have q: "q < ppb" using Suc.prems(1) by simp
  have dm: "?i div ppb = b" "?i mod ppb = q" using q by simp_all
  have step: "minimal_step C ppb b q s2 = Returns s3"
    using len u2 by (simp add: minimal_step_def Let_def s3_def r_def)
  have run: "for_each (minimal_step C ppb b) [0..<Suc q] s1 = Returns s3"
    by (simp add: for_each_append s2 step)
  have c3: "same_controls s s3" unfolding s3_def using c2 by (rule same_controls_store_minimal)
  have l3: "same_lengths s s3" unfolding s3_def using l2 by (rule same_lengths_store_minimal)
  have v3: "particleVelocities s3 = particleVelocities s" using v2 by (simp add: s3_def)
  have d3: "particlePositions s3 ! i = fst (C (i div ppb) (i mod ppb) (particlePositions s ! i)) \<and>
             particleColors s3 ! i = fst (snd (C (i div ppb) (i mod ppb) (particlePositions s ! i))) \<and>
             (i < length (sizes s) \<longrightarrow>
                sizes s3 ! i = snd (snd (C (i div ppb) (i mod ppb) (particlePositions s ! i))))"
    if "i < b * ppb + Suc q" for i
  proof (cases "i = ?i")
    case True
    then show ?thesis using len dm by (simp add: s3_def r_def)
  next
    case False
    then have "i < ?i" using that by simp
    then show ?thesis using d2 False by (simp add: s3_def)
  qed
  have u3: "particlePositions s3 ! i = particlePositions s ! i \<and>
            particleColors s3 ! i = particleColors s ! i \<and>
            sizes s3 ! i = sizes s ! i" if "b * ppb + Suc q \<le> i" for i
    using that u2 by (simp add: s3_def)
  have b3: "positions s3 ! j = positions s ! j \<and> colors s3 ! j = colors s ! j"
    if "3 * (b * ppb + Suc q) \<le> j" for j
    using that b2 by (simp add: s3_def)
  have "minimal_written C ppb (b * ppb + Suc q) s s3"
    unfolding minimal_written_def using c3 l3 v3 d3 u3 b3 by blast
  then show ?case using run by blast
qed

lemma minimal_bar_full:
  assumes "bar < 64" and "ppb = particleCount s div 64"
  shows "minimal_bar C ppb bar s = for_each (minimal_step C ppb bar) [0..<ppb] s"
proof -
  have "bar * ppb + p < particleCount s" if "p < ppb" for p
  proof -
    have "bar * ppb + p < (bar + 1) * ppb" using that by simp
    also have "\<dots> \<le> 64 * ppb" using assms(1) by (simp add: mult_le_mono1)
    also have "\<dots> \<le> particleCount s" using assms(2) by simp
    finally show ?thesis .
  qed
  then have "takeWhile (\<lambda>p. bar * ppb + p < particleCount s) [0..<ppb] = [0..<ppb]"
    by (simp add: takeWhile_eq_all_conv)
  then show ?thesis by (simp only: minimal_bar_def)
qed

lemma minimal_outer:
  assumes "b \<le> 64" and "ppb = particleCount s div 64"
    and "particleCount s \<le> length (particlePositions s)"
    and "particleCount s \<le> length (particleColors s)"
  shows "\<exists>s'. for_each (minimal_bar C ppb) [0..<b] s = Returns s' \<and>
              minimal_written C ppb (b * ppb) s s'"
  using assms(1)
proof (induction b)
  case 0
  show ?case by (simp add: minimal_written_start)
next
  case (Suc b)
  then obtain s1 where s1: "for_each (minimal_bar C ppb) [0..<b] s = Returns s1"
    and w1: "minimal_written C ppb (b * ppb) s s1"
    by force
  have b: "b < 64" using Suc.prems by simp
  have n1: "particleCount s1 = particleCount s"
    using w1 same_controls_fields(1) unfolding minimal_written_def by blast
  have bound: "b * ppb + ppb \<le> particleCount s"
  proof -
    have "b * ppb + ppb = (b + 1) * ppb" by simp
    also have "\<dots> \<le> 64 * ppb" using b by (simp add: mult_le_mono1)
    also have "\<dots> \<le> particleCount s" using assms(2) by simp
    finally show ?thesis .
  qed
  have full: "minimal_bar C ppb b s1 = for_each (minimal_step C ppb b) [0..<ppb] s1"
    using b assms(2) n1 by (simp add: minimal_bar_full)
  from minimal_inner [OF w1, of ppb] bound assms(3,4)
  obtain s2 where s2: "for_each (minimal_step C ppb b) [0..<ppb] s1 = Returns s2"
    and w2: "minimal_written C ppb (b * ppb + ppb) s s2"
    by force
  have "for_each (minimal_bar C ppb) [0..<Suc b] s = Returns s2"
    by (simp add: for_each_append s1 full s2)
  moreover have "minimal_written C ppb (Suc b * ppb) s s2"
    using w2 by (simp add: add.commute)
  ultimately show ?case by blast
qed

lemma updateParticlesMinimal_returns:
  assumes "well_formed s"
  shows "\<exists>palette s'. palette_of (currentPalette s) = Some palette \<and>
           updateParticlesMinimal rt fd avg b x s = Returns s' \<and>
           minimal_written (updateParticlesMinimal_body rt fd s palette) (particleCount s div 64)
             (64 * (particleCount s div 64)) s s'"
proof -
  from assms obtain palette where p: "palette_of (currentPalette s) = Some palette"
    using palette_of_valid by (auto simp add: well_formed_def)
  have len: "particleCount s \<le> length (particlePositions s)"
    "particleCount s \<le> length (particleColors s)"
    using assms by (simp_all add: well_formed_def)
  from minimal_outer [OF order_refl refl len, of "updateParticlesMinimal_body rt fd s palette"] p
  show ?thesis by (auto simp add: updateParticlesMinimal_def Let_def mult.commute)
qed

text \<open>
  C10.  The minimal rule writes the first \<open>64 \<lfloor>N / 64\<rfloor>\<close> particles only: for every
  particle from that index on (1984 to 1999 for 2000 particles) position, velocity,
  colour and size, and the particle's three elements of the \<open>positions\<close> and of the
  \<open>colors\<close> attribute, are as before.
\<close>

theorem minimal_leaves_the_remainder:
  assumes "well_formed s"
  shows "\<exists>s'. updateParticlesMinimal rt fd avg onBeat intensity s = Returns s' \<and>
           (\<forall>i. 64 * (particleCount s div 64) \<le> i \<and> i < particleCount s \<longrightarrow>
              particlePositions s' ! i = particlePositions s ! i \<and>
              particleVelocities s' ! i = particleVelocities s ! i \<and>
              particleColors s' ! i = particleColors s ! i \<and>
              sizes s' ! i = sizes s ! i \<and>
              (\<forall>k<3. positions s' ! (3 * i + k) = positions s ! (3 * i + k) \<and>
                     colors s' ! (3 * i + k) = colors s ! (3 * i + k)))"
proof -
  from updateParticlesMinimal_returns [OF assms, of rt fd avg onBeat intensity]
  obtain palette s' where r: "updateParticlesMinimal rt fd avg onBeat intensity s = Returns s'"
    and w: "minimal_written (updateParticlesMinimal_body rt fd s palette) (particleCount s div 64)
             (64 * (particleCount s div 64)) s s'"
    by blast
  have "particlePositions s' ! i = particlePositions s ! i \<and>
        particleVelocities s' ! i = particleVelocities s ! i \<and>
        particleColors s' ! i = particleColors s ! i \<and>
        sizes s' ! i = sizes s ! i \<and>
        (\<forall>k<3. positions s' ! (3 * i + k) = positions s ! (3 * i + k) \<and>
               colors s' ! (3 * i + k) = colors s ! (3 * i + k))"
    if "64 * (particleCount s div 64) \<le> i" for i
  proof -
    have "3 * (64 * (particleCount s div 64)) \<le> 3 * i + k" for k using that by simp
    then show ?thesis using w that unfolding minimal_written_def by simp
  qed
  then show ?thesis using r by blast
qed


section \<open>Which bin a particle reads\<close>

text \<open>
  The first half of a frame does not look at the spectrum; and what a loop over the
  particles makes of one particle.
\<close>

lemma update_controls_frequencyData:
  "update_controls (a\<lparr>frequencyData := fd'\<rparr>) g s = update_controls a g s"
  by (cases g) (simp_all add: update_controls_def Let_def)

lemma particle_loop_particle:
  assumes "well_formed s" and "i < particleCount s"
  shows "\<exists>palette s'. palette_of (currentPalette s) = Some palette \<and>
           particle_loop K s = Returns s' \<and> same_controls s s' \<and>
           (particlePositions s' ! i, particleVelocities s' ! i, particleColors s' ! i, sizes s' ! i)
             = K palette i (particlePositions s ! i) (particleVelocities s ! i)"
proof -
  from particle_loop_returns [OF assms(1), of K] obtain palette s' where
    p: "palette_of (currentPalette s) = Some palette" and r: "particle_loop K s = Returns s'"
    and c: "same_controls s s'"
    and d: "\<forall>i<particleCount s.
              particlePositions s' ! i = fst (K palette i (particlePositions s ! i) (particleVelocities s ! i)) \<and>
              particleVelocities s' ! i = fst (snd (K palette i (particlePositions s ! i) (particleVelocities s ! i))) \<and>
              particleColors s' ! i = fst (snd (snd (K palette i (particlePositions s ! i) (particleVelocities s ! i)))) \<and>
              sizes s' ! i = snd (snd (snd (K palette i (particlePositions s ! i) (particleVelocities s ! i))))"
    by blast
  have "(particlePositions s' ! i, particleVelocities s' ! i, particleColors s' ! i, sizes s' ! i)
             = K palette i (particlePositions s ! i) (particleVelocities s ! i)"
    using d assms(2) by (simp add: prod_eq_iff)
  then show ?thesis using p r c by blast
qed

lemma minimal_particle:
  assumes "well_formed s" and "i < particleCount s"
  shows "\<exists>palette s'. palette_of (currentPalette s) = Some palette \<and>
           updateParticlesMinimal rt fd avg b x s = Returns s' \<and> same_controls s s' \<and>
           (particlePositions s' ! i, particleVelocities s' ! i, particleColors s' ! i, sizes s' ! i)
             = (if i < 64 * (particleCount s div 64)
                then (case updateParticlesMinimal_body rt fd s palette (i div (particleCount s div 64))
                             (i mod (particleCount s div 64)) (particlePositions s ! i)
                      of (pos, col, sz) \<Rightarrow> (pos, particleVelocities s ! i, col, sz))
                else (particlePositions s ! i, particleVelocities s ! i, particleColors s ! i, sizes s ! i))"
proof -
  let ?ppb = "particleCount s div 64"
  from updateParticlesMinimal_returns [OF assms(1), of rt fd avg b x] obtain palette s' where
    p: "palette_of (currentPalette s) = Some palette"
    and r: "updateParticlesMinimal rt fd avg b x s = Returns s'"
    and w: "minimal_written (updateParticlesMinimal_body rt fd s palette) ?ppb (64 * ?ppb) s s'"
    by blast
  have sz: "i < length (sizes s)" using assms by (simp add: well_formed_def)
  have c: "same_controls s s'" using w unfolding minimal_written_def by blast
  have v: "particleVelocities s' ! i = particleVelocities s ! i"
    using w unfolding minimal_written_def by simp
  have "(particlePositions s' ! i, particleVelocities s' ! i, particleColors s' ! i, sizes s' ! i)
             = (if i < 64 * ?ppb
                then (case updateParticlesMinimal_body rt fd s palette (i div ?ppb)
                             (i mod ?ppb) (particlePositions s ! i)
                      of (pos, col, sz) \<Rightarrow> (pos, particleVelocities s ! i, col, sz))
                else (particlePositions s ! i, particleVelocities s ! i, particleColors s ! i, sizes s ! i))"
  proof (cases "i < 64 * ?ppb")
    case True
    then show ?thesis
      using w sz v unfolding minimal_written_def by (simp add: split_beta)
  next
    case False
    then have "64 * ?ppb \<le> i" by simp
    then show ?thesis using w v False unfolding minimal_written_def by simp
  qed
  then show ?thesis using p r c by blast
qed

text \<open>
  C8 (as amended).  One frame on a well-formed, running visualizer returns, and what it
  makes of particle \<open>i\<close> of \<open>N\<close> (position, velocity, colour, size) is the value
  written out below, for every rule.  The spectrum enters it through \<open>freqValue\<close>
  alone, the sample of bin \<open>\<lfloor>i / N * binCount\<rfloor>\<close> over 255, under the cosmic, pulse,
  chaos, neural and default rules and for the frozen field.  Under the minimal rule the
  spectrum enters through \<open>barValue\<close>, the sample of the bin of the particle's bar,
  \<open>\<lfloor>(i div \<lfloor>N / 64\<rfloor>) / 64 * binCount\<rfloor>\<close>, and the particles from
  \<open>64 \<lfloor>N / 64\<rfloor>\<close> on are left as they were.  \<open>c\<close> is the visualizer once the frame
  has set its clock, intensities, pulse and spiral angle, and the palette is the one the
  gesture commands name (the current one without commands).
\<close>

theorem particle_reads_one_bin:
  assumes "well_formed s" and "isRunning s" and "valid_commands g" and "i < particleCount s"
  shows "\<exists>palette s'. update rt (Some a) g s = Returns s' \<and>
     palette_of (case g of None \<Rightarrow> currentPalette s | Some commands \<Rightarrow> colorPalette commands)
       = Some palette \<and>
     (particlePositions s' ! i, particleVelocities s' ! i, particleColors s' ! i, sizes s' ! i) =
       (let fd = frequencyData a; avg = average a; onBeat = beat a; intensity = beatIntensity a;
            c = update_controls a g s;
            pos = particlePositions s ! i; vel = particleVelocities s ! i;
            freqValue = bin_sample fd (particle_bin (particleCount s) (length fd) i)
        in if frozen_by g s then
             (let hue = hueBase palette + freqValue * hueRange palette - avg * Fin 0.2;
                  sat = saturation palette + freqValue * Fin 0.1;
                  lightness = Fin 0.4 + freqValue * Fin 0.4;
                  pulseSize = (if pulseEffect c then pulseIntensity c * Fin 2 else Fin 0)
              in (pos, vel, setHSL rt hue sat lightness, Fin 1 + freqValue * Fin 3 + pulseSize))
           else if visualMode s = ''cosmic'' then
             (let distance = Math_sqrt (vx pos * vx pos + vz pos * vz pos);
                  angle = Math_atan2 (vz pos) (vx pos) + spiralAngle c * spiralTightness c;
                  targetRadius = Fin 100 + bassIntensity c * Fin 80 + freqValue * Fin 50;
                  targetX = Math_cos angle * targetRadius;
                  targetZ = Math_sin angle * targetRadius;
                  vel1 = Vector3 (vx vel + (targetX - vx pos) * Fin 0.01)
                                 (vy vel + (freqValue * Fin 50 - vy pos) * Fin 0.01)
                                 (vz vel + (targetZ - vz pos) * Fin 0.01);
                  vel2 = (if onBeat \<or> pulseEffect c
                          then (let pulseStrength = (if pulseEffect c then pulseIntensity c else intensity);
                                    directionX = vx pos / Math_max distance (Fin 1);
                                    directionZ = vz pos / Math_max distance (Fin 1)
                                in Vector3 (vx vel1 + directionX * pulseStrength * Fin 0.5)
                                           (vy vel1)
                                           (vz vel1 + directionZ * pulseStrength * Fin 0.5))
                          else vel1);
                  pos1 = Vector3 (vx pos + vx vel2) (vy pos + vy vel2) (vz pos + vz vel2);
                  vel3 = multiplyScalar vel2 (Fin 0.92);
                  normalizedDist = Math_min (distance / Fin 200) (Fin 1);
                  hue = hueBase palette + normalizedDist * hueRange palette
              in (pos1, vel3, setHSL rt hue (saturation palette) (Fin 0.5 + freqValue * Fin 0.5),
                  Fin 1 + freqValue * Fin 4 + (if onBeat then intensity else Fin 0)))
           else if visualMode s = ''pulse'' then
             (let distance = Math_sqrt (vx pos * vx pos + vy pos * vy pos + vz pos * vz pos);
                  directionX = vx pos / Math_max distance (Fin 1);
                  directionY = vy pos / Math_max distance (Fin 1);
                  directionZ = vz pos / Math_max distance (Fin 1);
                  pulsePhase = Math_sin (time c * Fin 2
                                 + (Fin (real i) / Fin (real (particleCount s))) * Math_PI * Fin 4);
                  targetDistance = Fin 80 + pulsePhase * Fin 40 + freqValue * Fin 60
                                     + bassIntensity c * Fin 40;
                  force = (targetDistance - distance) * Fin 0.05;
                  vel1 = Vector3 (vx vel + directionX * force) (vy vel + directionY * force)
                                 (vz vel + directionZ * force);
                  vel2 = (if onBeat
                          then Vector3 (vx vel1 + directionX * intensity * Fin 2)
                                       (vy vel1 + directionY * intensity * Fin 2)
                                       (vz vel1 + directionZ * intensity * Fin 2)
                          else vel1);
                  pos1 = Vector3 (vx pos + vx vel2) (vy pos + vy vel2) (vz pos + vz vel2);
                  vel3 = multiplyScalar vel2 (Fin 0.88);
                  hue = hueBase palette + (pulsePhase * Fin 0.5 + Fin 0.5) * hueRange palette
              in (pos1, vel3, setHSL rt hue (saturation palette) (Fin 0.4 + freqValue * Fin 0.6),
                  Fin 2 + freqValue * Fin 5 + Math_abs pulsePhase * Fin 2))
           else if visualMode s = ''chaos'' then
             (let chaosX = Math_sin (time c * Fin 3 + Fin (real i) * Fin 0.1) * freqValue * Fin 5;
                  chaosY = Math_cos (time c * Fin 4 + Fin (real i) * Fin 0.15) * freqValue * Fin 5;
                  chaosZ = Math_sin (time c * Fin 2.5 + Fin (real i) * Fin 0.12) * freqValue * Fin 5;
                  vel1 = Vector3 (vx vel + chaosX * Fin 0.1) (vy vel + chaosY * Fin 0.1)
                                 (vz vel + chaosZ * Fin 0.1);
                  vel2 = (if onBeat
                          then Vector3 (vx vel1 + (Math_random rt (3 * i) - Fin 0.5) * intensity * Fin 3)
                                       (vy vel1 + (Math_random rt (3 * i + 1) - Fin 0.5) * intensity * Fin 3)
                                       (vz vel1 + (Math_random rt (3 * i + 2) - Fin 0.5) * intensity * Fin 3)
                          else vel1);
                  distance = Math_sqrt (vx pos * vx pos + vy pos * vy pos + vz pos * vz pos);
                  vel3 = (if distance > Fin 200
                          then Vector3 (vx vel2 + (- vx pos / distance) * Fin 0.5)
                                       (vy vel2 + (- vy pos / distance) * Fin 0.5)
                                       (vz vel2 + (- vz pos / distance) * Fin 0.5)
                          else vel2);
                  pos1 = Vector3 (vx pos + vx vel3) (vy pos + vy vel3) (vz pos + vz vel3);
                  vel4 = multiplyScalar vel3 (Fin 0.96);
                  hue = hueBase palette
                          + Math_sin (time c * Fin 5 + Fin (real i) * Fin 0.1) * hueRange palette
              in (pos1, vel4, setHSL rt hue (saturation palette) (Fin 0.3 + freqValue * Fin 0.7),
                  Fin 1 + freqValue * Fin 6))
           else if visualMode s = ''minimal'' then
             (if i < 64 * (particleCount s div 64)
              then (let bar = i div (particleCount s div 64);
                        p = i mod (particleCount s div 64);
                        barValue = bin_sample fd (bar_bin (particleCount s) (length fd) i);
                        barCount = Fin 64;
                        particlesPerBar = Fin (real (particleCount s div 64));
                        barHeight = barValue * Fin 150;
                        x = (Fin (real bar) - barCount / Fin 2) * Fin 8;
                        y = (Fin (real p) / particlesPerBar) * barHeight - Fin 50;
                        z = Fin 0;
                        pos1 = Vector3 (vx pos + (x - vx pos) * Fin 0.15)
                                       (vy pos + (y - vy pos) * Fin 0.15)
                                       (vz pos + (z - vz pos) * Fin 0.15);
                        hue = hueBase palette + (y / Fin 100 + Fin 0.5) * hueRange palette
                    in (pos1, vel, setHSL rt hue (saturation palette) (Fin 0.5 + barValue * Fin 0.5),
                        Fin 3 + barValue * Fin 4))
              else (pos, vel, particleColors s ! i, sizes s ! i))
           else
             (let distance = Math_sqrt (vx pos * vx pos + vy pos * vy pos + vz pos * vz pos);
                  force = freqValue * Fin 5;
                  directionX = vx pos / distance;
                  directionY = vy pos / distance;
                  directionZ = vz pos / distance;
                  vel1 = Vector3 (vx vel + directionX * force * Fin 0.1)
                                 (vy vel + directionY * force * Fin 0.1)
                                 (vz vel + directionZ * force * Fin 0.1);
                  vel2 = (if onBeat \<or> pulseEffect c
                          then (let pulseStrength = (if pulseEffect c then pulseIntensity c else intensity)
                                in Vector3 (vx vel1 + directionX * pulseStrength * Fin 0.5)
                                           (vy vel1 + directionY * pulseStrength * Fin 0.5)
                                           (vz vel1 + directionZ * pulseStrength * Fin 0.5))
                          else vel1);
                  pos1 = Vector3 (vx pos + vx vel2) (vy pos + vy vel2) (vz pos + vz vel2);
                  vel3 = multiplyScalar vel2 (Fin 0.95);
                  targetDistance = Fin 100 + bassIntensity c * Fin 50;
                  restoreForce = (targetDistance - distance) * Fin 0.01;
                  pos2 = Vector3 (vx pos1 + directionX * restoreForce)
                                 (vy pos1 + directionY * restoreForce)
                                 (vz pos1 + directionZ * restoreForce);
                  hue = hueBase palette + freqValue * hueRange palette - avg * Fin 0.2;
                  sat = saturation palette + freqValue * Fin 0.1;
                  lightness = Fin 0.4 + freqValue * Fin 0.4;
                  pulseSize = (if pulseEffect c then pulseIntensity c * Fin 2 else Fin 0)
              in (pos2, vel3, setHSL rt hue sat lightness,
                  Fin 1 + freqValue * Fin 3 + (if onBeat then intensity else Fin 0) + pulseSize)))"
  (is "\<exists>palette s'. _ \<and> _ \<and> _ = ?R palette")
proof -
  let ?s5 = "update_controls a g s"
  let ?fd = "frequencyData a"
  let ?F = "\<lambda>s6::Visualizer. Returns (if radialSymmetry s6 then applyRadialSymmetry rt s6 else s6)"
  let ?D = "if \<not> isFrozen ?s5
      then (if visualMode ?s5 = ''cosmic''
            then updateParticlesCosmic rt ?fd (average a) (beat a) (beatIntensity a) ?s5
            else if visualMode ?s5 = ''neural''
            then updateParticlesNeural rt ?fd (average a) (beat a) (beatIntensity a) ?s5
            else if visualMode ?s5 = ''pulse''
            then updateParticlesPulse rt ?fd (average a) (beat a) (beatIntensity a) ?s5
            else if visualMode ?s5 = ''chaos''
            then updateParticlesChaos rt ?fd (average a) (beat a) (beatIntensity a) ?s5
            else if visualMode ?s5 = ''minimal''
            then updateParticlesMinimal rt ?fd (average a) (beat a) (beatIntensity a) ?s5
            else updateParticles rt ?fd (average a) (beat a) (beatIntensity a) ?s5)
      else updateParticleColors rt ?fd (average a) ?s5"
  define R where "R = ?R"
  note lets = Let_def [where s = "frequencyData a"] Let_def [where s = "average a"]
      Let_def [where s = "beat a"] Let_def [where s = "beatIntensity a"]
      Let_def [where s = "update_controls a g s"]
      Let_def [where s = "particlePositions s ! i"] Let_def [where s = "particleVelocities s ! i"]
      Let_def [where s = "bin_sample (frequencyData a) (particle_bin (particleCount s) (length (frequencyData a)) i)"]
      Let_def [where s = "freqValue_of (update_controls a g s) (frequencyData a) i"]
  have u1: "update rt (Some a) g s = bind_outcome ?D ?F"
    using assms(2) by (simp add: update_def Let_def)
  have wf5: "well_formed ?s5"
    using assms(1,3) by (rule well_formed_update_controls)
  have f5: "particleCount ?s5 = particleCount s" "particlePositions ?s5 = particlePositions s"
    "particleVelocities ?s5 = particleVelocities s" "particleColors ?s5 = particleColors s"
    "sizes ?s5 = sizes s"
    by (simp_all add: update_controls_frame)
  have m5: "visualMode ?s5 = visualMode s" "isFrozen ?s5 = frozen_by g s"
    by (simp_all add: update_controls_frame)
  have p5: "currentPalette ?s5 = (case g of None \<Rightarrow> currentPalette s | Some commands \<Rightarrow> colorPalette commands)"
    by (simp add: update_controls_frame)
  have i5: "i < particleCount ?s5" using assms(4) f5 by simp
  note fv = freqValue_of_sample [OF i5, of ?fd, unfolded f5]
  have goal: "\<exists>palette s6. ?D = Returns s6 \<and> palette_of (currentPalette ?s5) = Some palette \<and>
           (particlePositions s6 ! i, particleVelocities s6 ! i, particleColors s6 ! i, sizes s6 ! i)
             = R palette"
  proof (cases "frozen_by g s")
    case True
    then have c: "frozen_by g s = True" by simp
    from updateParticleColors_returns [OF wf5, of rt ?fd "average a"] obtain palette s6 where
      p: "palette_of (currentPalette ?s5) = Some palette"
      and r: "updateParticleColors rt ?fd (average a) ?s5 = Returns s6"
      and k: "particlePositions s6 = particlePositions ?s5" "particleVelocities s6 = particleVelocities ?s5"
      and d: "\<forall>i<particleCount ?s5.
              particleColors s6 ! i = fst (updateParticleColors_body rt ?fd (average a) ?s5 palette i) \<and>
              sizes s6 ! i = snd (updateParticleColors_body rt ?fd (average a) ?s5 palette i)"
      by blast
    have e: "R palette = (particlePositions s ! i, particleVelocities s ! i,
               fst (updateParticleColors_body rt ?fd (average a) ?s5 palette i),
               snd (updateParticleColors_body rt ?fd (average a) ?s5 palette i))"
      unfolding R_def lets c if_True
      by (simp add: Let_def updateParticleColors_body_def fv)
    have t: "(particlePositions s6 ! i, particleVelocities s6 ! i, particleColors s6 ! i, sizes s6 ! i)
             = R palette"
      unfolding e using d i5 k f5 by simp
    have "?D = Returns s6" using True m5 r by simp
    then show ?thesis using p t by blast
  next
    case nf: False
    then have c0: "frozen_by g s = False" by simp
    consider (cosmic) "visualMode s = ''cosmic''" | (pulse) "visualMode s = ''pulse''"
      | (chaos) "visualMode s = ''chaos''" | (minimal) "visualMode s = ''minimal''"
      | (other) "visualMode s \<noteq> ''cosmic''" "visualMode s \<noteq> ''pulse''"
          "visualMode s \<noteq> ''chaos''" "visualMode s \<noteq> ''minimal''"
      by blast
    then show ?thesis
    proof cases
      case cosmic
      then have c: "(visualMode s = ''cosmic'') = True" by simp
      from particle_loop_particle [OF wf5 i5, of
          "updateParticlesCosmic_body rt ?fd (average a) (beat a) (beatIntensity a) ?s5"]
      obtain palette s6 where
        p: "palette_of (currentPalette ?s5) = Some palette"
        and r: "updateParticlesCosmic rt ?fd (average a) (beat a) (beatIntensity a) ?s5 = Returns s6"
        and d: "(particlePositions s6 ! i, particleVelocities s6 ! i, particleColors s6 ! i, sizes s6 ! i)
             = updateParticlesCosmic_body rt ?fd (average a) (beat a) (beatIntensity a) ?s5 palette i
                 (particlePositions ?s5 ! i) (particleVelocities ?s5 ! i)"
        unfolding updateParticlesCosmic_def by blast
      have e: "updateParticlesCosmic_body rt ?fd (average a) (beat a) (beatIntensity a) ?s5 palette i
                 (particlePositions ?s5 ! i) (particleVelocities ?s5 ! i) = R palette"
        unfolding R_def updateParticlesCosmic_body_def lets
        unfolding fv f5 c0 c if_True if_False
        by (rule refl)
      have "?D = Returns s6" using nf cosmic m5 r by simp
      then show ?thesis using p d e by auto
    next
      case pulse
      then have c: "(visualMode s = ''cosmic'') = False" "(visualMode s = ''pulse'') = True" by simp_all
      from particle_loop_particle [OF wf5 i5, of
          "updateParticlesPulse_body rt ?fd (average a) (beat a) (beatIntensity a) ?s5"]
      obtain palette s6 where
        p: "palette_of (currentPalette ?s5) = Some palette"
        and r: "updateParticlesPulse rt ?fd (average a) (beat a) (beatIntensity a) ?s5 = Returns s6"
        and d: "(particlePositions s6 ! i, particleVelocities s6 ! i, particleColors s6 ! i, sizes s6 ! i)
             = updateParticlesPulse_body rt ?fd (average a) (beat a) (beatIntensity a) ?s5 palette i
                 (particlePositions ?s5 ! i) (particleVelocities ?s5 ! i)"
        unfolding updateParticlesPulse_def by blast
      have e: "updateParticlesPulse_body rt ?fd (average a) (beat a) (beatIntensity a) ?s5 palette i
                 (particlePositions ?s5 ! i) (particleVelocities ?s5 ! i) = R palette"
        unfolding R_def updateParticlesPulse_body_def lets
        unfolding fv f5 c0 c if_True if_False
        by (rule refl)
      have "?D = Returns s6" using nf pulse m5 r by simp
      then show ?thesis using p d e by auto
    next
      case chaos
      then have c: "(visualMode s = ''cosmic'') = False" "(visualMode s = ''pulse'') = False"
        "(visualMode s = ''chaos'') = True" by simp_all
      from particle_loop_particle [OF wf5 i5, of
          "updateParticlesChaos_body rt ?fd (average a) (beat a) (beatIntensity a) ?s5"]
      obtain palette s6 where
        p: "palette_of (currentPalette ?s5) = Some palette"
        and r: "updateParticlesChaos rt ?fd (average a) (beat a) (beatIntensity a) ?s5 = Returns s6"
        and d: "(particlePositions s6 ! i, particleVelocities s6 ! i, particleColors s6 ! i, sizes s6 ! i)
             = updateParticlesChaos_body rt ?fd (average a) (beat a) (beatIntensity a) ?s5 palette i
                 (particlePositions ?s5 ! i) (particleVelocities ?s5 ! i)"
        unfolding updateParticlesChaos_def by blast
      have e: "updateParticlesChaos_body rt ?fd (average a) (beat a) (beatIntensity a) ?s5 palette i
                 (particlePositions ?s5 ! i) (particleVelocities ?s5 ! i) = R palette"
        unfolding R_def updateParticlesChaos_body_def lets
        unfolding fv f5 c0 c if_True if_False
        by (rule refl)
      have "?D = Returns s6" using nf chaos m5 r by simp
      then show ?thesis using p d e by auto
    next
      case minimal
      then have c: "(visualMode s = ''cosmic'') = False" "(visualMode s = ''pulse'') = False"
        "(visualMode s = ''chaos'') = False" "(visualMode s = ''minimal'') = True" by simp_all
      from minimal_particle [OF wf5 i5, of rt ?fd "average a" "beat a" "beatIntensity a"]
      obtain palette s6 where
        p: "palette_of (currentPalette ?s5) = Some palette"
        and r: "updateParticlesMinimal rt ?fd (average a) (beat a) (beatIntensity a) ?s5 = Returns s6"
        and d: "(particlePositions s6 ! i, particleVelocities s6 ! i, particleColors s6 ! i, sizes s6 ! i)
             = (if i < 64 * (particleCount ?s5 div 64)
                then (case updateParticlesMinimal_body rt ?fd ?s5 palette (i div (particleCount ?s5 div 64))
                             (i mod (particleCount ?s5 div 64)) (particlePositions ?s5 ! i)
                      of (pos, col, sz) \<Rightarrow> (pos, particleVelocities ?s5 ! i, col, sz))
                else (particlePositions ?s5 ! i, particleVelocities ?s5 ! i, particleColors ?s5 ! i,
                      sizes ?s5 ! i))"
        by blast
      have e: "(if i < 64 * (particleCount ?s5 div 64)
                then (case updateParticlesMinimal_body rt ?fd ?s5 palette (i div (particleCount ?s5 div 64))
                             (i mod (particleCount ?s5 div 64)) (particlePositions ?s5 ! i)
                      of (pos, col, sz) \<Rightarrow> (pos, particleVelocities ?s5 ! i, col, sz))
                else (particlePositions ?s5 ! i, particleVelocities ?s5 ! i, particleColors ?s5 ! i,
                      sizes ?s5 ! i)) = R palette"
        unfolding R_def lets c0 c if_True if_False f5
        by (simp add: Let_def updateParticlesMinimal_body_def element_sample bar_bin_def f5)
      have "?D = Returns s6" using nf minimal m5 r by simp
      then show ?thesis using p d e by auto
    next
      case other
      then have c: "(visualMode s = ''cosmic'') = False" "(visualMode s = ''pulse'') = False"
        "(visualMode s = ''chaos'') = False" "(visualMode s = ''minimal'') = False" by simp_all
      from particle_loop_particle [OF wf5 i5, of
          "updateParticles_body rt ?fd (average a) (beat a) (beatIntensity a) ?s5"]
      obtain palette s6 where
        p: "palette_of (currentPalette ?s5) = Some palette"
        and r: "updateParticles rt ?fd (average a) (beat a) (beatIntensity a) ?s5 = Returns s6"
        and d: "(particlePositions s6 ! i, particleVelocities s6 ! i, particleColors s6 ! i, sizes s6 ! i)
             = updateParticles_body rt ?fd (average a) (beat a) (beatIntensity a) ?s5 palette i
                 (particlePositions ?s5 ! i) (particleVelocities ?s5 ! i)"
        unfolding updateParticles_def by blast
      have e: "updateParticles_body rt ?fd (average a) (beat a) (beatIntensity a) ?s5 palette i
                 (particlePositions ?s5 ! i) (particleVelocities ?s5 ! i) = R palette"
        unfolding R_def updateParticles_body_def lets
        unfolding fv f5 c0 c if_True if_False
        by (rule refl)
      show ?thesis
      proof (cases "visualMode s = ''neural''")
        case True
        define s6' where "s6' = s6\<lparr>particleConnections :=
                   connections (positions s6) (Fin 60 + midIntensity s6 * Fin 30) (particleCount s6)\<rparr>"
        have "updateParticlesNeural rt ?fd (average a) (beat a) (beatIntensity a) ?s5 = Returns s6'"
          using r by (simp add: updateParticlesNeural_def s6'_def)
        then have "?D = Returns s6'" using nf True m5 by simp
        moreover have "(particlePositions s6' ! i, particleVelocities s6' ! i, particleColors s6' ! i,
                        sizes s6' ! i) = R palette"
          using d e by (simp add: s6'_def)
        ultimately show ?thesis using p by blast
      next
        case False
        have "?D = Returns s6" using nf other False m5 r by simp
        then show ?thesis using p d e by auto
      qed
    qed
  qed
  then obtain palette s6 where r: "?D = Returns s6"
    and p: "palette_of (currentPalette ?s5) = Some palette"
    and e: "(particlePositions s6 ! i, particleVelocities s6 ! i, particleColors s6 ! i, sizes s6 ! i)
             = R palette"
    by blast
  obtain s7 where s7: "?F s6 = Returns s7" "particlePositions s7 = particlePositions s6"
    "particleVelocities s7 = particleVelocities s6" "particleColors s7 = particleColors s6"
    "sizes s7 = sizes s6"
    by (simp add: applyRadialSymmetry_def)
  have "update rt (Some a) g s = Returns s7" using u1 r s7(1) by simp
  moreover have "palette_of (case g of None \<Rightarrow> currentPalette s | Some commands \<Rightarrow> colorPalette commands)
       = Some palette"
    using p p5 by simp
  moreover have "(particlePositions s7 ! i, particleVelocities s7 ! i, particleColors s7 ! i, sizes s7 ! i)
             = R palette"
    using e s7 by simp
  ultimately have "\<exists>palette s'. update rt (Some a) g s = Returns s' \<and>
     palette_of (case g of None \<Rightarrow> currentPalette s | Some commands \<Rightarrow> colorPalette commands)
       = Some palette \<and>
     (particlePositions s' ! i, particleVelocities s' ! i, particleColors s' ! i, sizes s' ! i) = R palette"
    by blast
  then show ?thesis unfolding R_def .
qed


text \<open>The size the minimal rule gives a particle, and the frame that computes it.\<close>

lemma minimal_size:
  "snd (snd (updateParticlesMinimal_body rt fd s pal bar p pos))
     = Fin 3 + element_at fd (Math_floor ((Fin (real bar) / Fin 64) * Fin (real (length fd)))) / Fin 255 * Fin 4"
  by (simp add: updateParticlesMinimal_body_def Let_def)

lemma update_minimal_size:
  assumes "well_formed s" and "isRunning s" and "\<not> isFrozen s" and "\<not> radialSymmetry s"
    and "visualMode s = ''minimal''" and "i < 64 * (particleCount s div 64)"
  shows "\<exists>s'. update rt (Some a) None s = Returns s' \<and>
           sizes s' ! i =
             Fin 3 + element_at (frequencyData a)
                       (Math_floor ((Fin (real (i div (particleCount s div 64))) / Fin 64)
                                      * Fin (real (length (frequencyData a))))) / Fin 255 * Fin 4"
proof -
  define s5 where "s5 = update_controls a None s"
  have wf5: "well_formed s5"
    unfolding s5_def using assms(1) by (rule well_formed_update_controls) (simp add: valid_commands_def)
  have f5: "particleCount s5 = particleCount s" "visualMode s5 = ''minimal''" "\<not> isFrozen s5"
    "\<not> radialSymmetry s5"
    using assms by (simp_all add: s5_def update_controls_frame frozen_by_def)
  from updateParticlesMinimal_returns [OF wf5, of rt "frequencyData a" "average a" "beat a" "beatIntensity a"]
  obtain pal s6 where
    r: "updateParticlesMinimal rt (frequencyData a) (average a) (beat a) (beatIntensity a) s5 = Returns s6"
    and w: "minimal_written (updateParticlesMinimal_body rt (frequencyData a) s5 pal)
              (particleCount s5 div 64) (64 * (particleCount s5 div 64)) s5 s6"
    by blast
  have i: "i < length (sizes s5)" using assms(6) wf5 f5(1) by (simp add: well_formed_def)
  have sz: "sizes s6 ! i =
      snd (snd (updateParticlesMinimal_body rt (frequencyData a) s5 pal
                  (i div (particleCount s5 div 64)) (i mod (particleCount s5 div 64))
                  (particlePositions s5 ! i)))"
    using w assms(6) f5(1) i unfolding minimal_written_def by simp
  have "\<not> radialSymmetry s6"
    using w f5(4) same_controls_fields(5) unfolding minimal_written_def by blast
  then have "update rt (Some a) None s = Returns s6"
    using assms(2) f5 r by (simp add: update_def Let_def s5_def [symmetric])
  then show ?thesis using sz f5(1) by (simp add: minimal_size)
qed

text \<open>
  C8 as stated fails for the minimal rule.  With 2000 particles and 1024 bins, particle
  31 should read bin 15; two spectra that agree in bin 15 (all zero, and all zero but for
  bin 16) give it the sizes 3 and 7: it reads bin 16, the bin of bar 1.
\<close>

theorem minimal_particle_reads_the_bar_bin:
  "particle_bin 2000 1024 31 = 15 \<and>
   (replicate 1024 0 :: 8 word list) ! 15 = (replicate 1024 0)[16 := 255] ! 15 \<and>
   (\<exists>s1 s2.
      update still_runtime (Some silence) None
        (start (setVisualMode ''minimal'' (Visualizer_new still_runtime))) = Returns s1 \<and>
      update still_runtime (Some (silence\<lparr>frequencyData := (replicate 1024 0)[16 := 255]\<rparr>)) None
        (start (setVisualMode ''minimal'' (Visualizer_new still_runtime))) = Returns s2 \<and>
      sizes s1 ! 31 = Fin 3 \<and> sizes s2 ! 31 = Fin 7)"
proof -
  define S where "S = start (setVisualMode ''minimal'' (Visualizer_new still_runtime))"
  have wf: "well_formed S"
    using well_formed_new [of still_runtime]
    by (simp add: S_def start_def setVisualMode_def well_formed_def)
  have f: "isRunning S" "\<not> isFrozen S" "\<not> radialSymmetry S" "visualMode S = ''minimal''"
    "particleCount S = 2000"
    by (simp_all add: S_def start_def setVisualMode_def Visualizer_new_def Let_def)
  have i: "31 < 64 * (particleCount S div 64)" using f(5) by simp
  from update_minimal_size [OF wf f(1,2,3,4) i, of still_runtime silence]
  obtain s1 where s1: "update still_runtime (Some silence) None S = Returns s1"
    "sizes s1 ! 31 = Fin 3" 
    by (auto simp add: f(5) silence_def element_at_def byte_at_def)
  from update_minimal_size [OF wf f(1,2,3,4) i, of still_runtime
      "silence\<lparr>frequencyData := (replicate 1024 0)[16 := 255]\<rparr>"]
  obtain s2 where s2: "update still_runtime
      (Some (silence\<lparr>frequencyData := (replicate 1024 0)[16 := 255]\<rparr>)) None S = Returns s2"
    "sizes s2 ! 31 = Fin 7"
    by (auto simp add: f(5) silence_def element_at_def byte_at_def)
  have "particle_bin 2000 1024 31 = 15" by (simp add: particle_bin_def)
  moreover have "(replicate 1024 0 :: 8 word list) ! 15 = (replicate 1024 0)[16 := 255] ! 15"
    by simp
  ultimately show ?thesis using s1 s2 unfolding S_def by blast
qed


section \<open>The pulse\<close>

lemma pulse_state:
  assumes "decayQueued s = 0" and "0 \<le> I"
  shows "if (I + 1.5) * 0.85 ^ Suc k > 0.1
         then pulseEffect (pulse_frames k (Fin I) s) \<and>
              pulseIntensity (pulse_frames k (Fin I) s) = Fin ((I + 1.5) * 0.85 ^ Suc k) \<and>
              decayQueued (pulse_frames k (Fin I) s) = 1
         else \<not> pulseEffect (pulse_frames k (Fin I) s) \<and>
              pulseIntensity (pulse_frames k (Fin I) s) = Fin 0 \<and>
              decayQueued (pulse_frames k (Fin I) s) = 0"
proof (induction k)
  case 0
  show ?case using assms by (simp add: pulse_frames_def triggerPulse_def decayPulse_def Let_def)
next
  case (Suc k)
  define t where "t = pulse_frames k (Fin I) s"
  define p where "p = (I + 1.5) * 0.85 ^ Suc k"
  have next_t: "pulse_frames (Suc k) (Fin I) s = animationFrame t"
    by (simp add: pulse_frames_def t_def)
  have p_pos: "0 < p" using assms(2) by (simp add: p_def)
  have p_next: "(I + 1.5) * 0.85 ^ Suc (Suc k) = p * 0.85" by (simp add: p_def)
  show ?case
  proof (cases "p > 0.1")
    case True
    then have t: "pulseEffect t" "pulseIntensity t = Fin p" "decayQueued t = 1"
      using Suc.IH by (simp_all add: t_def p_def)
    show ?thesis
      unfolding next_t p_next using t
      by (simp add: animationFrame_def decayPulse_def Let_def)
  next
    case False
    then have t: "\<not> pulseEffect t" "pulseIntensity t = Fin 0" "decayQueued t = 0"
      using Suc.IH by (simp_all add: t_def p_def)
    have "\<not> p * 0.85 > 0.1" using False p_pos by simp
    then show ?thesis
      unfolding next_t p_next using t by (simp add: animationFrame_def)
  qed
qed

lemma pulse_ticks_enough:
  assumes "0 \<le> I"
  shows "(I + 1.5) * 0.85 ^ pulse_ticks I \<le> 0.1"
proof -
  define x where "x = 0.1 / (I + 1.5)"
  define K where "K = pulse_ticks I"
  have x: "0 < x" using assms by (simp add: x_def)
  have l: "ln (0.85::real) < 0" by simp
  have "ln x / ln 0.85 \<le> real_of_int \<lceil>ln x / ln 0.85\<rceil>" by (rule le_of_int_ceiling)
  also have "\<dots> \<le> real K" by (simp add: K_def pulse_ticks_def x_def)
  finally have "ln x / ln 0.85 \<le> real K" .
  then have "real K * ln 0.85 \<le> ln x" using l by (simp add: neg_divide_le_eq)
  then have "exp (real K * ln 0.85) \<le> exp (ln x)" by simp
  then have "(0.85::real) ^ K \<le> x" using x by (simp add: exp_of_nat_mult)
  then have "(I + 1.5) * 0.85 ^ K \<le> (I + 1.5) * x" using assms by (simp add: mult_left_mono)
  also have "\<dots> = 0.1" using assms by (simp add: x_def)
  finally show ?thesis by (simp add: K_def)
qed

lemma retrigger:
  assumes "\<not> pulseEffect t" and "0 \<le> J"
  shows "pulseEffect (processGestureCommands \<lparr>freeze = f, pulse = True, colorPalette = c\<rparr> b (Fin J) t) \<and>
         pulseIntensity (processGestureCommands \<lparr>freeze = f, pulse = True, colorPalette = c\<rparr> b (Fin J) t)
           = Fin ((J + 1.5) * 0.85)"
proof -
  have "(J + 1.5) * 0.85 > 0.1" using assms(2) by simp
  then show ?thesis using assms(1)
    by (simp add: processGestureCommands_def triggerPulse_def decayPulse_def Let_def)
qed

text \<open>
  C6 (as amended).  \<open>triggerPulse(I)\<close> with \<open>I \<ge> 0\<close>, when no decay is under way,
  starts the pulse at \<open>I + 1.5\<close> and multiplies it by 0.85 at once and on every
  animation frame after: \<open>k\<close> frames after the trigger the intensity is
  \<open>(I + 1.5) 0.85\<^sup>k\<^sup>+\<^sup>1\<close> as long as that exceeds 0.1, and from the first frame where
  it does not the pulse is cleared and the intensity is exactly 0.  The intensity gets
  strictly smaller with every frame of a pulse; the pulse is over after
  \<open>\<lceil>log(0.1 / (I + 1.5)) / log(0.85)\<rceil>\<close> frames at the latest; and once it is over,
  gesture commands with the pulse command start a new one in the same call.
\<close>

theorem pulse_decay:
  assumes "decayQueued s = 0" and "0 \<le> I"
  shows "(\<forall>k. 0.1 < (I + 1.5) * 0.85 ^ Suc k \<longrightarrow>
            pulseEffect (pulse_frames k (Fin I) s) \<and>
            pulseIntensity (pulse_frames k (Fin I) s) = Fin ((I + 1.5) * 0.85 ^ Suc k)) \<and>
         (\<forall>k. (I + 1.5) * 0.85 ^ Suc k \<le> 0.1 \<longrightarrow>
            \<not> pulseEffect (pulse_frames k (Fin I) s) \<and>
            pulseIntensity (pulse_frames k (Fin I) s) = Fin 0) \<and>
         (\<forall>k. pulseEffect (pulse_frames k (Fin I) s) \<longrightarrow>
            pulseIntensity (pulse_frames (Suc k) (Fin I) s) < pulseIntensity (pulse_frames k (Fin I) s)) \<and>
         \<not> pulseEffect (pulse_frames (pulse_ticks I) (Fin I) s) \<and>
         pulseIntensity (pulse_frames (pulse_ticks I) (Fin I) s) = Fin 0 \<and>
         (\<forall>k J f c b. \<not> pulseEffect (pulse_frames k (Fin I) s) \<and> 0 \<le> J \<longrightarrow>
            pulseEffect (processGestureCommands \<lparr>freeze = f, pulse = True, colorPalette = c\<rparr>
                           b (Fin J) (pulse_frames k (Fin I) s)))"
proof (intro conjI allI impI)
  fix k
  assume "0.1 < (I + 1.5) * 0.85 ^ Suc k"
  then show "pulseEffect (pulse_frames k (Fin I) s)"
    "pulseIntensity (pulse_frames k (Fin I) s) = Fin ((I + 1.5) * 0.85 ^ Suc k)"
    using pulse_state [OF assms, of k] by simp_all
next
  fix k
  assume "(I + 1.5) * 0.85 ^ Suc k \<le> 0.1"
  then show "\<not> pulseEffect (pulse_frames k (Fin I) s)"
    "pulseIntensity (pulse_frames k (Fin I) s) = Fin 0"
    using pulse_state [OF assms, of k] by simp_all
next
  fix k
  assume a: "pulseEffect (pulse_frames k (Fin I) s)"
  define p where "p = (I + 1.5) * 0.85 ^ Suc k"
  have p: "0.1 < p" "pulseIntensity (pulse_frames k (Fin I) s) = Fin p"
    using pulse_state [OF assms, of k] a by (simp_all add: p_def split: if_splits)
  have n: "(I + 1.5) * 0.85 ^ Suc (Suc k) = p * 0.85" by (simp add: p_def)
  have "pulseIntensity (pulse_frames (Suc k) (Fin I) s) = Fin (p * 0.85) \<or>
        pulseIntensity (pulse_frames (Suc k) (Fin I) s) = Fin 0"
    using pulse_state [OF assms, of "Suc k"] unfolding n by (simp split: if_splits)
  then show "pulseIntensity (pulse_frames (Suc k) (Fin I) s) < pulseIntensity (pulse_frames k (Fin I) s)"
    using p by auto
next
  have "(I + 1.5) * 0.85 ^ Suc (pulse_ticks I) \<le> (I + 1.5) * 0.85 ^ pulse_ticks I"
    using assms(2) by simp
  then have le: "(I + 1.5) * 0.85 ^ Suc (pulse_ticks I) \<le> 0.1"
    using pulse_ticks_enough [OF assms(2)] by linarith
  then show "\<not> pulseEffect (pulse_frames (pulse_ticks I) (Fin I) s)"
    "pulseIntensity (pulse_frames (pulse_ticks I) (Fin I) s) = Fin 0"
    using pulse_state [OF assms, of "pulse_ticks I"] by simp_all
next
  fix k :: nat and J :: real and f :: bool and c :: nat and b :: bool
  assume "\<not> pulseEffect (pulse_frames k (Fin I) s) \<and> 0 \<le> J"
  then show "pulseEffect (processGestureCommands \<lparr>freeze = f, pulse = True, colorPalette = c\<rparr>
                           b (Fin J) (pulse_frames k (Fin I) s))"
    using retrigger by blast
qed

text \<open>The bound of the claim for \<open>I = 1\<close> is 15.\<close>

lemma claimed_pulse_ticks_1: "claimed_pulse_ticks 1 = 15"
proof -
  have l: "ln (0.85::real) < 0" by simp
  have a: "ln ((0.85::real) ^ 14) = 14 * ln 0.85" "ln ((0.85::real) ^ 15) = 15 * ln 0.85"
    by (simp_all add: ln_realpow)
  have "(0.1::real) < 0.85 ^ 14" by (simp add: power_divide)
  then have "ln (0.1::real) < ln (0.85 ^ 14)" by (subst ln_less_cancel_iff) simp_all
  then have lo: "ln (0.1::real) < 14 * ln 0.85" by (simp only: a)
  have "(0.85::real) ^ 15 \<le> 0.1" by (simp add: power_divide)
  then have "ln ((0.85::real) ^ 15) \<le> ln 0.1" by (subst ln_le_cancel_iff) simp_all
  then have hi: "15 * ln 0.85 \<le> ln (0.1::real)" by (simp only: a)
  have "14 < ln (0.1::real) / ln 0.85" using lo l by (simp add: less_divide_eq)
  moreover have "ln (0.1::real) / ln 0.85 \<le> 15" using hi l by (simp add: divide_le_eq)
  ultimately have "\<lceil>ln (0.1::real) / ln 0.85\<rceil> = 15" by (intro ceiling_unique) simp_all
  then show ?thesis by (simp add: claimed_pulse_ticks_def)
qed

text \<open>
  C6 as stated has the pulse over within \<open>\<lceil>log(0.1 / I) / log(0.85)\<rceil>\<close> frames.  For
  \<open>I = 1\<close> that is 15 frames; the pulse starts at 2.5, not at 1, and 15 frames after
  the trigger it is still on, with an intensity above 0.1.
\<close>

theorem pulse_outlives_claimed_bound:
  "claimed_pulse_ticks 1 = 15 \<and>
   pulseEffect (pulse_frames 15 (Fin 1) (Visualizer_new still_runtime)) \<and>
   pulseIntensity (pulse_frames 15 (Fin 1) (Visualizer_new still_runtime)) > Fin 0.1"
proof -
  have q: "decayQueued (Visualizer_new still_runtime) = 0"
    by (simp add: Visualizer_new_def Let_def)
  have big: "(0.1::real) < (1 + 1.5) * 0.85 ^ Suc 15" by (simp add: power_divide)
  from pulse_state [OF q, of 1 15] big
  have "pulseEffect (pulse_frames 15 (Fin 1) (Visualizer_new still_runtime))"
    "pulseIntensity (pulse_frames 15 (Fin 1) (Visualizer_new still_runtime))
       = Fin ((1 + 1.5) * 0.85 ^ Suc 15)"
    by simp_all
  then show ?thesis using big claimed_pulse_ticks_1 by simp
qed


section \<open>The particle count\<close>

lemma length_fold_update: "length (fold (\<lambda>w ps. ps[fst w := snd w]) ws ps) = length ps"
  by (induction ws arbitrary: ps) simp_all

lemma well_formed_same:
  assumes "well_formed s" and "same_controls s s'" and "same_lengths s s'"
  shows "well_formed s'" "particleCount s' = particleCount s"
  using assms same_controls_fields(1,2) [OF assms(2)]
  by (simp_all add: well_formed_def same_lengths_def)

lemma well_formed_applyRadialSymmetry:
  "well_formed s \<Longrightarrow> well_formed (applyRadialSymmetry rt s)"
  by (simp add: well_formed_def applyRadialSymmetry_def length_fold_update)

lemma animationFrame_frame:
  "particleCount (animationFrame s) = particleCount s"
  "particlePositions (animationFrame s) = particlePositions s"
  "particleVelocities (animationFrame s) = particleVelocities s"
  "particleColors (animationFrame s) = particleColors s"
  "positions (animationFrame s) = positions s"
  "colors (animationFrame s) = colors s"
  "sizes (animationFrame s) = sizes s"
  "currentPalette (animationFrame s) = currentPalette s"
proof -
  have "particleCount ((decayPulse ^^ n) t) = particleCount t \<and>
        particlePositions ((decayPulse ^^ n) t) = particlePositions t \<and>
        particleVelocities ((decayPulse ^^ n) t) = particleVelocities t \<and>
        particleColors ((decayPulse ^^ n) t) = particleColors t \<and>
        positions ((decayPulse ^^ n) t) = positions t \<and>
        colors ((decayPulse ^^ n) t) = colors t \<and>
        sizes ((decayPulse ^^ n) t) = sizes t \<and>
        currentPalette ((decayPulse ^^ n) t) = currentPalette t" for n t
    by (induction n) (simp_all add: decayPulse_frame)
  then show "particleCount (animationFrame s) = particleCount s"
    "particlePositions (animationFrame s) = particlePositions s"
    "particleVelocities (animationFrame s) = particleVelocities s"
    "particleColors (animationFrame s) = particleColors s"
    "positions (animationFrame s) = positions s"
    "colors (animationFrame s) = colors s"
    "sizes (animationFrame s) = sizes s"
    "currentPalette (animationFrame s) = currentPalette s"
    by (simp_all add: animationFrame_def)
qed

lemma updateParticles_well_formed:
  assumes "well_formed s"
  shows "\<exists>s'. particle_loop K s = Returns s' \<and> well_formed s' \<and> particleCount s' = particleCount s"
  using particle_loop_returns [OF assms, of K] well_formed_same [OF assms] by blast

lemma update_well_formed:
  assumes "well_formed s" and "valid_commands g"
  shows "\<exists>s'. update rt audioData g s = Returns s' \<and> well_formed s' \<and>
              particleCount s' = particleCount s"
proof (cases audioData)
  case None
  then show ?thesis using assms(1) by (simp add: update_def)
next
  case (Some a)
  show ?thesis
  proof (cases "isRunning s")
    case False
    then show ?thesis using assms(1) Some by (simp add: update_def)
  next
    case True
    define s5 where "s5 = update_controls a g s"
    have wf5: "well_formed s5"
      unfolding s5_def using assms by (rule well_formed_update_controls)
    have n5: "particleCount s5 = particleCount s" by (simp add: s5_def update_controls_frame)
    define D where "D =
       (if \<not> isFrozen s5
        then (if visualMode s5 = ''cosmic''
              then updateParticlesCosmic rt (frequencyData a) (average a) (beat a) (beatIntensity a) s5
              else if visualMode s5 = ''neural''
              then updateParticlesNeural rt (frequencyData a) (average a) (beat a) (beatIntensity a) s5
              else if visualMode s5 = ''pulse''
              then updateParticlesPulse rt (frequencyData a) (average a) (beat a) (beatIntensity a) s5
              else if visualMode s5 = ''chaos''
              then updateParticlesChaos rt (frequencyData a) (average a) (beat a) (beatIntensity a) s5
              else if visualMode s5 = ''minimal''
              then updateParticlesMinimal rt (frequencyData a) (average a) (beat a) (beatIntensity a) s5
              else updateParticles rt (frequencyData a) (average a) (beat a) (beatIntensity a) s5)
        else updateParticleColors rt (frequencyData a) (average a) s5)"
    have u: "update rt audioData g s =
        bind_outcome D (\<lambda>s6. Returns (if radialSymmetry s6 then applyRadialSymmetry rt s6 else s6))"
      using True Some by (simp add: update_def Let_def s5_def D_def)
    have loops: "\<exists>s'. particle_loop K s5 = Returns s' \<and> well_formed s' \<and>
                      particleCount s' = particleCount s5" for K
      using wf5 by (rule updateParticles_well_formed)
    have neural: "\<exists>s'. updateParticlesNeural rt (frequencyData a) (average a) (beat a) (beatIntensity a) s5
                    = Returns s' \<and> well_formed s' \<and> particleCount s' = particleCount s5"
    proof -
      from loops obtain t where t: "updateParticles rt (frequencyData a) (average a) (beat a) (beatIntensity a) s5 = Returns t"
        "well_formed t" "particleCount t = particleCount s5"
        unfolding updateParticles_def by blast
      then show ?thesis by (simp add: updateParticlesNeural_def well_formed_def)
    qed
    have minimal: "\<exists>s'. updateParticlesMinimal rt (frequencyData a) (average a) (beat a) (beatIntensity a) s5
                    = Returns s' \<and> well_formed s' \<and> particleCount s' = particleCount s5"
      using updateParticlesMinimal_returns [OF wf5, of rt "frequencyData a" "average a" "beat a" "beatIntensity a"]
        well_formed_same [OF wf5]
      unfolding minimal_written_def by blast
    have frozen: "\<exists>s'. updateParticleColors rt (frequencyData a) (average a) s5 = Returns s' \<and>
                    well_formed s' \<and> particleCount s' = particleCount s5"
      using updateParticleColors_returns [OF wf5, of rt "frequencyData a" "average a"]
        well_formed_same [OF wf5]
      by blast
    have "\<exists>s6. D = Returns s6 \<and> well_formed s6 \<and> particleCount s6 = particleCount s5"
      unfolding D_def updateParticlesCosmic_def updateParticlesPulse_def updateParticlesChaos_def
        updateParticles_def
      using loops neural minimal frozen by (simp add: updateParticles_def)
    then obtain s6 where s6: "D = Returns s6" "well_formed s6" "particleCount s6 = particleCount s5"
      by blast
    have "well_formed (if radialSymmetry s6 then applyRadialSymmetry rt s6 else s6)"
      using s6(2) by (simp add: well_formed_applyRadialSymmetry)
    moreover have "particleCount (if radialSymmetry s6 then applyRadialSymmetry rt s6 else s6)
                   = particleCount s"
      using s6(3) n5 by (simp add: applyRadialSymmetry_def)
    ultimately show ?thesis using u s6(1) by simp
  qed
qed

lemma apply_operation_well_formed:
  assumes "well_formed s" and "valid_operation x"
  shows "\<exists>s'. apply_operation rt x s = Returns s' \<and> well_formed s' \<and>
              particleCount s' = particleCount s \<and> (control_operation x \<longrightarrow> same_arrays s s')"
proof (cases x)
  case (SetVisualMode mode)
  then show ?thesis using assms(1) by (simp add: setVisualMode_def well_formed_def same_arrays_def)
next
  case (ProcessGestureCommands c b i)
  then show ?thesis using assms
    by (simp add: well_formed_def same_arrays_def processGestureCommands_frame)
next
  case (TriggerPulse i)
  then show ?thesis using assms(1)
    by (simp add: well_formed_def same_arrays_def triggerPulse_frame)
next
  case AnimationFrame
  then show ?thesis using assms(1)
    by (simp add: well_formed_def same_arrays_def animationFrame_frame)
next
  case (Update a g)
  then show ?thesis using update_well_formed [OF assms(1), of g rt a] assms(2) by simp
qed

text \<open>
  C7.  Any sequence of mode switches, gesture commands, pulse triggers, decay frames and
  render frames, run on a well-formed visualizer, returns a well-formed visualizer with
  the same particle count (2000 after construction); and a sequence without render
  frames leaves the six particle arrays themselves as they were: a mode switch changes
  \<open>visualMode\<close> and nothing else.
\<close>

theorem particle_count_invariant:
  assumes "well_formed s" and "\<forall>x\<in>set ops. valid_operation x"
  shows "\<exists>s'. run_operations rt ops s = Returns s' \<and> well_formed s' \<and>
              particleCount s' = particleCount s \<and>
              length (particlePositions s') = particleCount s \<and>
              ((\<forall>x\<in>set ops. control_operation x) \<longrightarrow> same_arrays s s')"
  using assms
proof (induction ops arbitrary: s)
  case Nil
  then show ?case by (simp add: same_arrays_def well_formed_def)
next
  case (Cons x xs)
  from apply_operation_well_formed [OF Cons.prems(1), of x rt] Cons.prems(2)
  obtain s1 where s1: "apply_operation rt x s = Returns s1" "well_formed s1"
    "particleCount s1 = particleCount s" "control_operation x \<longrightarrow> same_arrays s s1"
    by auto
  from Cons.IH [OF s1(2)] Cons.prems(2)
  obtain s2 where s2: "run_operations rt xs s1 = Returns s2" "well_formed s2"
    "particleCount s2 = particleCount s1" "length (particlePositions s2) = particleCount s1"
    "(\<forall>x\<in>set xs. control_operation x) \<longrightarrow> same_arrays s1 s2"
    by auto
  have "run_operations rt (x # xs) s = Returns s2" using s1(1) s2(1) by simp
  moreover have "(\<forall>y\<in>set (x # xs). control_operation y) \<longrightarrow> same_arrays s s2"
    using s1(4) s2(5) by (auto simp add: same_arrays_def)
  ultimately show ?case using s1(3) s2(2,3,4) by auto
qed


section \<open>The statements at concrete inputs\<close>

lemma start_new_facts:
  "well_formed (start (Visualizer_new rt))" "isRunning (start (Visualizer_new rt))"
  "particleCount (start (Visualizer_new rt)) = 2000"
  "\<not> radialSymmetry (start (Visualizer_new rt))" "\<not> isFrozen (start (Visualizer_new rt))"
  "decayQueued (start (Visualizer_new rt)) = 0"
  "visualMode (start (Visualizer_new rt)) = ''cosmic''"
  using well_formed_new [of rt]
  by (simp_all add: start_def well_formed_def) (simp_all add: Visualizer_new_def Let_def)

lemma started_facts:
  "frozen_by None (start (Visualizer_new rt)) = False"
  "pulseEffect (start (Visualizer_new rt)) = False"
  by (simp_all add: frozen_by_def start_def Visualizer_new_def Let_def)

text \<open>
  C5 on a started visualizer, frozen by the gesture commands (which choose the sunset
  palette), on a frame with every bin at 255 and average 1.
\<close>

theorem update_frozen_witness:
  "well_formed (start (Visualizer_new still_runtime)) \<and>
   isRunning (start (Visualizer_new still_runtime)) \<and>
   frozen_by (Some \<lparr>freeze = True, pulse = False, colorPalette = 1\<rparr>)
     (start (Visualizer_new still_runtime)) \<and>
   valid_commands (Some \<lparr>freeze = True, pulse = False, colorPalette = 1\<rparr>) \<and>
   (\<exists>s'.
      update still_runtime (Some (silence\<lparr>frequencyData := replicate 1024 255, average := Fin 1\<rparr>))
        (Some \<lparr>freeze = True, pulse = False, colorPalette = 1\<rparr>)
        (start (Visualizer_new still_runtime)) = Returns s' \<and>
      particlePositions s' = particlePositions (start (Visualizer_new still_runtime)) \<and>
      particleVelocities s' = particleVelocities (start (Visualizer_new still_runtime)) \<and>
      positions s' = positions (start (Visualizer_new still_runtime)) \<and>
      particleColors s' ! 0 = Color (Fin 0) (Fin 1) (Fin 0.8) \<and>
      sizes s' ! 0 = Fin 4 \<and>
      colors s' ! 0 = Fin 0 \<and> colors s' ! 1 = Fin 1 \<and> colors s' ! 2 = Fin 0.8)"
proof -
  define S where "S = start (Visualizer_new still_runtime)"
  define g where "g = Some \<lparr>freeze = True, pulse = False, colorPalette = 1\<rparr>"
  define a where "a = silence\<lparr>frequencyData := replicate 1024 255, average := Fin 1\<rparr>"
  have S: "well_formed S" "isRunning S" "particleCount S = 2000" "\<not> radialSymmetry S"
    "pulseEffect S = False"
    unfolding S_def by (simp_all add: start_new_facts started_facts)
  have h: "frozen_by g S" "valid_commands g"
    by (simp_all add: frozen_by_def valid_commands_def g_def)
  have fd: "frequencyData a = replicate 1024 255" "average a = Fin 1"
    by (simp_all add: a_def)
  have b: "particle_bin 2000 1024 0 = 0" by (simp add: particle_bin_def)
  have v: "bin_sample (replicate 1024 255) 0 = Fin 1" by (simp add: bin_sample_def)
  from update_frozen [OF S(1,2) h, where rt = still_runtime and a = a]
  obtain palette s' where r: "update still_runtime (Some a) g S = Returns s'"
    and k: "particlePositions s' = particlePositions S" "particleVelocities s' = particleVelocities S"
      "positions s' = (if radialSymmetry S then positions (applyRadialSymmetry still_runtime S)
                       else positions S)"
    and p: "palette_of (case g of None \<Rightarrow> currentPalette S | Some commands \<Rightarrow> colorPalette commands)
              = Some palette"
    and d: "\<forall>i<particleCount S.
              (let freqValue = bin_sample (frequencyData a)
                                 (particle_bin (particleCount S) (length (frequencyData a)) i);
                   hue = hueBase palette + freqValue * hueRange palette - average a * Fin 0.2;
                   sat = saturation palette + freqValue * Fin 0.1;
                   lightness = Fin 0.4 + freqValue * Fin 0.4;
                   pulseSize =
                     (if (case g of None \<Rightarrow> False | Some commands \<Rightarrow> pulse commands)
                         \<and> \<not> pulseEffect S
                      then (if (beatIntensity a + Fin 1.5) * Fin 0.85 > Fin 0.1
                            then (beatIntensity a + Fin 1.5) * Fin 0.85 * Fin 2 else Fin 0)
                      else (if pulseEffect S then pulseIntensity S * Fin 2 else Fin 0))
               in particleColors s' ! i = setHSL still_runtime hue sat lightness \<and>
                  sizes s' ! i = Fin 1 + freqValue * Fin 3 + pulseSize \<and>
                  colors s' ! (3 * i) = cr (setHSL still_runtime hue sat lightness) \<and>
                  colors s' ! (3 * i + 1) = cg (setHSL still_runtime hue sat lightness) \<and>
                  colors s' ! (3 * i + 2) = cb (setHSL still_runtime hue sat lightness))"
    by blast
  have pal: "palette = \<lparr>hueBase = Fin 0.05, hueRange = Fin 0.15, saturation = Fin 0.9\<rparr>"
    using p by (simp add: g_def palette_of_def colorPalettes_def)
  have "particleColors s' ! 0 = Color (Fin 0) (Fin 1) (Fin 0.8) \<and> sizes s' ! 0 = Fin 4 \<and>
        colors s' ! 0 = Fin 0 \<and> colors s' ! 1 = Fin 1 \<and> colors s' ! 2 = Fin 0.8"
    using d [rule_format, of 0]
    by (simp add: S(3,5) fd b v pal g_def still_runtime_def Let_def numeral_2_eq_2)
  then show ?thesis
    using r k S h unfolding S_def g_def a_def by simp
qed

text \<open>C6 for a pulse of intensity 1 on a new visualizer.\<close>

theorem pulse_decay_witness:
  "decayQueued (Visualizer_new still_runtime) = 0 \<and> (0::real) \<le> 1 \<and>
   \<not> pulseEffect (pulse_frames (pulse_ticks 1) (Fin 1) (Visualizer_new still_runtime)) \<and>
   pulseIntensity (pulse_frames (pulse_ticks 1) (Fin 1) (Visualizer_new still_runtime)) = Fin 0"
proof -
  have q: "decayQueued (Visualizer_new still_runtime) = 0"
    by (simp add: Visualizer_new_def Let_def)
  have i: "(0::real) \<le> 1" by simp
  show ?thesis using pulse_decay [OF q i] q by simp
qed

text \<open>C7 for five operations on a started visualizer.\<close>

theorem particle_count_invariant_witness:
  "well_formed (start (Visualizer_new still_runtime)) \<and>
   list_all valid_operation
     [SetVisualMode ''neural'',
      ProcessGestureCommands \<lparr>freeze = True, pulse = True, colorPalette = 2\<rparr> True (Fin 0.5),
      TriggerPulse (Fin 1), AnimationFrame, Update (Some silence) None] \<and>
   (\<exists>s'. run_operations still_runtime
            [SetVisualMode ''neural'',
             ProcessGestureCommands \<lparr>freeze = True, pulse = True, colorPalette = 2\<rparr> True (Fin 0.5),
             TriggerPulse (Fin 1), AnimationFrame, Update (Some silence) None]
            (start (Visualizer_new still_runtime)) = Returns s' \<and>
         particleCount s' = 2000 \<and> length (particlePositions s') = 2000)"
proof -
  have v: "\<forall>x\<in>set [SetVisualMode ''neural'',
      ProcessGestureCommands \<lparr>freeze = True, pulse = True, colorPalette = 2\<rparr> True (Fin 0.5),
      TriggerPulse (Fin 1), AnimationFrame, Update (Some silence) None]. valid_operation x"
    by (simp add: valid_commands_def)
  note w = start_new_facts(1) [of still_runtime]
  from particle_count_invariant [OF w v, where rt = still_runtime]
  obtain s' where "run_operations still_runtime
            [SetVisualMode ''neural'',
             ProcessGestureCommands \<lparr>freeze = True, pulse = True, colorPalette = 2\<rparr> True (Fin 0.5),
             TriggerPulse (Fin 1), AnimationFrame, Update (Some silence) None]
            (start (Visualizer_new still_runtime)) = Returns s'"
    "particleCount s' = particleCount (start (Visualizer_new still_runtime))"
    "length (particlePositions s') = particleCount (start (Visualizer_new still_runtime))"
    by blast
  moreover have "list_all valid_operation
     [SetVisualMode ''neural'',
      ProcessGestureCommands \<lparr>freeze = True, pulse = True, colorPalette = 2\<rparr> True (Fin 0.5),
      TriggerPulse (Fin 1), AnimationFrame, Update (Some silence) None]"
    by (simp add: valid_commands_def)
  ultimately show ?thesis using w start_new_facts(3) [of still_runtime] by (intro conjI exI) simp_all
qed

text \<open>
  C8 for particle 31 of 2000 under the cosmic rule, on a spectrum that is zero but for
  bin 15: the particle's size is \<open>1 + 1 * 4\<close>.
\<close>

theorem particle_reads_one_bin_witness:
  "well_formed (start (Visualizer_new still_runtime)) \<and>
   isRunning (start (Visualizer_new still_runtime)) \<and> valid_commands None \<and>
   31 < particleCount (start (Visualizer_new still_runtime)) \<and>
   particle_bin 2000 1024 31 = 15 \<and>
   (\<exists>s'. update still_runtime (Some (silence\<lparr>frequencyData := (replicate 1024 0)[15 := 255]\<rparr>)) None
            (start (Visualizer_new still_runtime)) = Returns s' \<and>
         sizes s' ! 31 = Fin 5)"
proof -
  define S where "S = start (Visualizer_new still_runtime)"
  define a where "a = silence\<lparr>frequencyData := (replicate 1024 0)[15 := 255]\<rparr>"
  have S: "well_formed S" "isRunning S" "particleCount S = 2000" "frozen_by None S = False"
    "visualMode S = ''cosmic''"
    unfolding S_def by (simp_all add: start_new_facts started_facts)
  have h: "valid_commands None" "31 < particleCount S"
    by (simp_all add: valid_commands_def S)
  have fd: "frequencyData a = (replicate 1024 0)[15 := 255]" "beat a = False"
    by (simp_all add: a_def silence_def)
  have b: "particle_bin 2000 1024 31 = 15" by (simp add: particle_bin_def)
  have v: "bin_sample ((replicate 1024 0)[15 := 255]) 15 = Fin 1" by (simp add: bin_sample_def)
  from particle_reads_one_bin [OF S(1,2) h, where rt = still_runtime and a = a]
  obtain palette s' where r: "update still_runtime (Some a) None S = Returns s'"
    and e: "sizes s' ! 31 = Fin 5"
    unfolding S(3,4,5) fd
    unfolding Let_def [where s = "(replicate 1024 0)[15 := 255] :: 8 word list"]
      Let_def [where s = "average a"] Let_def [where s = "False"] Let_def [where s = "beatIntensity a"]
      Let_def [where s = "update_controls a None S"]
      Let_def [where s = "particlePositions S ! 31"] Let_def [where s = "particleVelocities S ! 31"]
    by (auto simp add: Let_def b v)
  show ?thesis
    using r e S h b unfolding S_def a_def by simp
qed

text \<open>C10 for the particles 1984 and 1999 of a new visualizer.\<close>

theorem minimal_leaves_the_remainder_witness:
  "well_formed (Visualizer_new still_runtime) \<and>
   (\<exists>s'. updateParticlesMinimal still_runtime (replicate 1024 255) (Fin 1) True (Fin 1)
            (Visualizer_new still_runtime) = Returns s' \<and>
         particlePositions s' ! 1984 = particlePositions (Visualizer_new still_runtime) ! 1984 \<and>
         particleColors s' ! 1984 = particleColors (Visualizer_new still_runtime) ! 1984 \<and>
         sizes s' ! 1999 = sizes (Visualizer_new still_runtime) ! 1999)"
proof -
  have n: "particleCount (Visualizer_new still_runtime) = 2000"
    by (simp add: Visualizer_new_def Let_def)
  from minimal_leaves_the_remainder [OF well_formed_new [of still_runtime],
      where rt = still_runtime and fd = "replicate 1024 255" and avg = "Fin 1" and onBeat = True
        and intensity = "Fin 1"]
  obtain s' where s': "updateParticlesMinimal still_runtime (replicate 1024 255) (Fin 1) True (Fin 1)
            (Visualizer_new still_runtime) = Returns s'"
    and u: "\<forall>i. 64 * (particleCount (Visualizer_new still_runtime) div 64) \<le> i \<and>
                i < particleCount (Visualizer_new still_runtime) \<longrightarrow>
              particlePositions s' ! i = particlePositions (Visualizer_new still_runtime) ! i \<and>
              particleVelocities s' ! i = particleVelocities (Visualizer_new still_runtime) ! i \<and>
              particleColors s' ! i = particleColors (Visualizer_new still_runtime) ! i \<and>
              sizes s' ! i = sizes (Visualizer_new still_runtime) ! i \<and>
              (\<forall>k<3. positions s' ! (3 * i + k) = positions (Visualizer_new still_runtime) ! (3 * i + k) \<and>
                     colors s' ! (3 * i + k) = colors (Visualizer_new still_runtime) ! (3 * i + k))"
    by blast
  have "particlePositions s' ! 1984 = particlePositions (Visualizer_new still_runtime) ! 1984"
    "particleColors s' ! 1984 = particleColors (Visualizer_new still_runtime) ! 1984"
    using u [rule_format, of 1984] n by simp_all
  moreover have "sizes s' ! 1999 = sizes (Visualizer_new still_runtime) ! 1999"
    using u [rule_format, of 1999] n by simp
  ultimately show ?thesis using s' well_formed_new [of still_runtime] by blast
qed

end
